theory Spec2Isabelle
  imports Main
begin

unbundle bit_operations_syntax

section \<open>The ledger of \<^verbatim>\<open>src/index.ts\<close>\<close>

text \<open>
  The program is one HTTP handler, \<^verbatim>\<open>POST /blocks\<close>, over five tables of a relational
  store (\<^verbatim>\<open>createTables\<close>). The handler checks the height of the submitted block, its
  identifier, and the input and output sums of each transaction, and then inserts the block
  between \<^verbatim>\<open>BEGIN\<close> and \<^verbatim>\<open>COMMIT\<close>, with \<^verbatim>\<open>ROLLBACK\<close> in the \<^verbatim>\<open>catch\<close> branch.

  The model is a shallow embedding: the tables are a record of lists and one map, each
  query is a function on that record, each loop a recursive function, each reply of the
  handler a constructor. Numbers of the request body are \<^typ>\<open>int\<close>: the sums of the
  validation are those of JavaScript as long as they stay below \<open>2 ^ 53\<close>. The \<^verbatim>\<open>INTEGER\<close>
  columns hold 32 bits: a statement that is given, or that computes, a number outside
  that range throws. Strings are byte sequences (UTF-8). The columns \<^verbatim>\<open>created_at\<close>
  and the \<^verbatim>\<open>SERIAL\<close> row identifiers are read nowhere and are left out.
\<close>

subsection \<open>The digest: \<^verbatim>\<open>createHash("sha256").update(s).digest("hex")\<close>\<close>

text \<open>
  SHA-256 (FIPS 180-4) on 32-bit words held in \<^typ>\<open>nat\<close>, with the reduction modulo
  \<open>2 ^ 32\<close> written out, and the digest printed as 64 lower-case hexadecimal digits.
\<close>

definition add32 :: "nat \<Rightarrow> nat \<Rightarrow> nat" where
  "add32 x y = (x + y) mod 4294967296"

definition rotr :: "nat \<Rightarrow> nat \<Rightarrow> nat" where
  "rotr n x = x div 2 ^ n + (x mod 2 ^ n) * 2 ^ (32 - n)"

definition shr :: "nat \<Rightarrow> nat \<Rightarrow> nat" where
  "shr n x = x div 2 ^ n"

definition Ch :: "nat \<Rightarrow> nat \<Rightarrow> nat \<Rightarrow> nat" where
  "Ch x y z = (x AND y) XOR ((4294967295 - x) AND z)"

definition Maj :: "nat \<Rightarrow> nat \<Rightarrow> nat \<Rightarrow> nat" where
  "Maj x y z = (x AND y) XOR (x AND z) XOR (y AND z)"

definition bsig0 :: "nat \<Rightarrow> nat" where
  "bsig0 x = rotr 2 x XOR rotr 13 x XOR rotr 22 x"

definition bsig1 :: "nat \<Rightarrow> nat" where
  "bsig1 x = rotr 6 x XOR rotr 11 x XOR rotr 25 x"

definition ssig0 :: "nat \<Rightarrow> nat" where
  "ssig0 x = rotr 7 x XOR rotr 18 x XOR shr 3 x"

definition ssig1 :: "nat \<Rightarrow> nat" where
  "ssig1 x = rotr 17 x XOR rotr 19 x XOR shr 10 x"

definition K256 :: "nat list" where
  "K256 =
    [1116352408, 1899447441, 3049323471, 3921009573, 961987163, 1508970993, 2453635748,
     2870763221, 3624381080, 310598401, 607225278, 1426881987, 1925078388, 2162078206,
     2614888103, 3248222580, 3835390401, 4022224774, 264347078, 604807628, 770255983,
     1249150122, 1555081692, 1996064986, 2554220882, 2821834349, 2952996808, 3210313671,
     3336571891, 3584528711, 113926993, 338241895, 666307205, 773529912, 1294757372,
     1396182291, 1695183700, 1986661051, 2177026350, 2456956037, 2730485921, 2820302411,
     3259730800, 3345764771, 3516065817, 3600352804, 4094571909, 275423344, 430227734,
     506948616, 659060556, 883997877, 958139571, 1322822218, 1537002063, 1747873779,
     1955562222, 2024104815, 2227730452, 2361852424, 2428436474, 2756734187, 3204031479,
     3329325298]"

definition H256 :: "nat list" where
  "H256 =
    [1779033703, 3144134277, 1013904242, 2773480762, 1359893119, 2600822924, 528734635,
     1541459225]"

definition be64 :: "nat \<Rightarrow> nat list" where
  "be64 n = map (\<lambda>k. n div 2 ^ k mod 256) [56, 48, 40, 32, 24, 16, 8, 0]"

definition pad :: "nat list \<Rightarrow> nat list" where
  "pad bs = bs @ 128 # replicate ((119 - length bs mod 64) mod 64) 0 @ be64 (8 * length bs)"

fun words :: "nat list \<Rightarrow> nat list" where
  "words (a # b # c # d # bs) = (((a * 256 + b) * 256 + c) * 256 + d) # words bs"
| "words _ = []"

text \<open>
  The message schedule, over a window of the last sixteen words: \<open>schedule 64 m\<close> is
  \<open>W\<^sub>0, \<dots>, W\<^sub>6\<^sub>3\<close> for the sixteen words \<open>m\<close> of a chunk.
\<close>

primrec schedule :: "nat \<Rightarrow> nat list \<Rightarrow> nat list" where
  "schedule 0 w = []"
| "schedule (Suc n) w =
     hd w # schedule n (tl w @ [add32 (add32 (ssig1 (w ! 14)) (w ! 9)) (add32 (ssig0 (w ! 1)) (w ! 0))])"

fun round :: "nat \<times> nat \<Rightarrow> nat list \<Rightarrow> nat list" where
  "round (k, w) [a, b, c, d, e, f, g, h] =
     (let t1 = add32 (add32 (add32 h (bsig1 e)) (add32 (Ch e f g) k)) w;
          t2 = add32 (bsig0 a) (Maj a b c)
      in [add32 t1 t2, a, b, c, add32 d t1, e, f, g])"
| "round _ s = s"

definition compress :: "nat list \<Rightarrow> nat list \<Rightarrow> nat list" where
  "compress hs m = map2 add32 hs (fold round (zip K256 (schedule 64 m)) hs)"

primrec chunks :: "nat \<Rightarrow> nat list \<Rightarrow> nat list list" where
  "chunks 0 ws = []"
| "chunks (Suc n) ws = take 16 ws # chunks n (drop 16 ws)"

definition hexdigit :: "nat \<Rightarrow> char" where
  "hexdigit n = ''0123456789abcdef'' ! (n mod 16)"

definition hex32 :: "nat \<Rightarrow> string" where
  "hex32 w = map (\<lambda>k. hexdigit (w div 2 ^ k)) [28, 24, 20, 16, 12, 8, 4, 0]"

definition sha256 :: "string \<Rightarrow> string" where
  "sha256 s =
     (let ws = words (pad (map of_char s))
      in concat (map hex32 (fold (\<lambda>m hs. compress hs m) (chunks (length ws div 16) ws) H256)))"

subsection \<open>Numbers as strings: \<^verbatim>\<open>block.height + txIdsConcat\<close>\<close>

text \<open>
  Adding a number to a string converts the number with \<^verbatim>\<open>Number::toString\<close>: the decimal
  digits of an integer, after a minus sign when it is negative.
\<close>

definition digit :: "nat \<Rightarrow> char" where
  "digit n = ''0123456789'' ! (n mod 10)"

function natToString :: "nat \<Rightarrow> string" where
  "natToString n = (if n < 10 then [digit n] else natToString (n div 10) @ [digit n])"
  by pat_completeness auto
termination
  by (relation "measure id") auto

declare natToString.simps [simp del]

definition numberToString :: "int \<Rightarrow> string" where
  "numberToString i = (if i < 0 then CHR ''-'' # natToString (nat (- i)) else natToString (nat i))"

subsection \<open>The request body\<close>

text \<open>
  \<^verbatim>\<open>Block = { id, height, transactions }\<close>, \<^verbatim>\<open>Transaction = { id, inputs, outputs }\<close>,
  \<^verbatim>\<open>Input = { txId, index }\<close>, \<^verbatim>\<open>Output = { address, value }\<close>.
\<close>

record Input =
  in_txId :: string
  in_index :: int

record Output =
  out_address :: string
  out_value :: int

record Transaction =
  tx_id :: string
  tx_inputs :: "Input list"
  tx_outputs :: "Output list"

record Block =
  blk_id :: string
  blk_height :: int
  blk_transactions :: "Transaction list"

subsection \<open>The tables\<close>

text \<open>
  One record per table of \<^verbatim>\<open>createTables\<close>. The tables \<^verbatim>\<open>blocks\<close>, \<^verbatim>\<open>transactions\<close>,
  \<^verbatim>\<open>outputs\<close> and \<^verbatim>\<open>inputs\<close> are lists of rows in insertion order; \<^verbatim>\<open>balances\<close>, whose
  primary key is the address, is a map from the address to the balance.
\<close>

record blocks_row =
  b_id :: string
  b_height :: int

record transactions_row =
  t_id :: string
  t_block_id :: string

record outputs_row =
  o_tx_id :: string
  o_output_index :: int
  o_address :: string
  o_value :: int
  o_spent :: bool

record inputs_row =
  i_tx_id :: string
  i_referenced_tx_id :: string
  i_referenced_output_index :: int

record ledger =
  blocks :: "blocks_row list"
  transactions :: "transactions_row list"
  outputs :: "outputs_row list"
  inputs :: "inputs_row list"
  balances :: "string \<rightharpoonup> int"

definition empty_ledger :: ledger where
  "empty_ledger = \<lparr>blocks = [], transactions = [], outputs = [], inputs = [], balances = Map.empty\<rparr>"

subsection \<open>The replies of the handler\<close>

text \<open>
  The replies with status 400 that the validation sends, the errors that a statement of
  the store throws, and the ways the validation loop stops early: with a reply, or with an
  exception. An exception outside the \<^verbatim>\<open>try\<close> block is answered with status 500.
\<close>

datatype rejection =
    HeightMismatch int
  | InvalidBlockId
  | InputNotFound string int
  | InputAlreadySpent string int
  | SumMismatch string

datatype db_error = UniqueViolation string | NumericValueOutOfRange

datatype stop = Reject rejection | Throw db_error

datatype reply =
    Success
  | ValidationRejected rejection
  | ServerError db_error
  | ApplyFailed db_error

text \<open>The values of an \<^verbatim>\<open>INTEGER\<close> column or parameter.\<close>

definition int4 :: "int \<Rightarrow> bool" where
  "int4 v \<longleftrightarrow> - 2147483648 \<le> v \<and> v \<le> 2147483647"

subsection \<open>Step 1: the height\<close>

text \<open>
  \<^verbatim>\<open>SELECT height FROM blocks ORDER BY height DESC LIMIT 1\<close>, and \<open>0\<close> when there is no
  row.
\<close>

definition lastHeight :: "ledger \<Rightarrow> int" where
  "lastHeight S = (case blocks S of [] \<Rightarrow> 0 | r # rs \<Rightarrow> fold max (map b_height rs) (b_height r))"

subsection \<open>Step 2: the block identifier\<close>

definition txIdsConcat :: "Block \<Rightarrow> string" where
  "txIdsConcat block = concat (map tx_id (blk_transactions block))"

definition expectedBlockId :: "Block \<Rightarrow> string" where
  "expectedBlockId block = sha256 (numberToString (blk_height block) @ txIdsConcat block)"

subsection \<open>Step 3: the sums of each transaction\<close>

text \<open>
  \<^verbatim>\<open>SELECT value, address, spent FROM outputs WHERE tx_id = $1 AND output_index = $2\<close>;
  the handler reads the first row of the result. The query throws when \<^verbatim>\<open>input.index\<close>
  is not a 32-bit integer; these queries are outside the \<^verbatim>\<open>try\<close> block.
\<close>

definition utxoRows :: "ledger \<Rightarrow> string \<Rightarrow> int \<Rightarrow> outputs_row list" where
  "utxoRows S t i = filter (\<lambda>r. o_tx_id r = t \<and> o_output_index r = i) (outputs S)"

fun sumInputs :: "ledger \<Rightarrow> Input list \<Rightarrow> int \<Rightarrow> stop + int" where
  "sumInputs S [] inputSum = Inr inputSum"
| "sumInputs S (input # rest) inputSum =
     (if \<not> int4 (in_index input) then Inl (Throw NumericValueOutOfRange)
      else case utxoRows S (in_txId input) (in_index input) of
        [] \<Rightarrow> Inl (Reject (InputNotFound (in_txId input) (in_index input)))
      | r # _ \<Rightarrow>
          if o_spent r then Inl (Reject (InputAlreadySpent (in_txId input) (in_index input)))
          else sumInputs S rest (inputSum + o_value r))"

definition outputSum :: "Transaction \<Rightarrow> int" where
  "outputSum tx = fold (\<lambda>out sum. sum + out_value out) (tx_outputs tx) 0"

fun validateTransactions :: "ledger \<Rightarrow> int \<Rightarrow> Transaction list \<Rightarrow> stop option" where
  "validateTransactions S height [] = None"
| "validateTransactions S height (tx # txs) =
     (if height = 1 \<and> tx_inputs tx = [] then validateTransactions S height txs
      else case sumInputs S (tx_inputs tx) 0 of
             Inl reason \<Rightarrow> Some reason
           | Inr inputSum \<Rightarrow>
               if inputSum \<noteq> outputSum tx then Some (Reject (SumMismatch (tx_id tx)))
               else validateTransactions S height txs)"

subsection \<open>Step 4: the inserts between \<^verbatim>\<open>BEGIN\<close> and \<^verbatim>\<open>COMMIT\<close>\<close>

text \<open>
  A statement either succeeds and gives the next ledger, or throws: when it violates a
  \<^verbatim>\<open>PRIMARY KEY\<close> or \<^verbatim>\<open>UNIQUE\<close> constraint, and when a number it is given or computes
  is not a 32-bit integer. A statement that throws writes nothing; the error is paired
  with the ledger as the open transaction sees it at that point, which holds the writes
  of the statements before it. The foreign keys hold by construction, each referenced row
  being inserted just before the rows that refer to it.
\<close>

type_synonym attempt = "(db_error \<times> ledger) + ledger"

definition insertBlock :: "ledger \<Rightarrow> string \<Rightarrow> int \<Rightarrow> attempt" where
  "insertBlock S i h =
     (if \<not> int4 h then Inl (NumericValueOutOfRange, S)
      else if i \<in> set (map b_id (blocks S)) then Inl (UniqueViolation ''blocks_pkey'', S)
      else if h \<in> set (map b_height (blocks S)) then Inl (UniqueViolation ''blocks_height_key'', S)
      else Inr (S\<lparr>blocks := blocks S @ [\<lparr>b_id = i, b_height = h\<rparr>]\<rparr>))"

definition insertTransaction :: "ledger \<Rightarrow> string \<Rightarrow> string \<Rightarrow> attempt" where
  "insertTransaction S t b =
     (if t \<in> set (map t_id (transactions S)) then Inl (UniqueViolation ''transactions_pkey'', S)
      else Inr (S\<lparr>transactions := transactions S @ [\<lparr>t_id = t, t_block_id = b\<rparr>]\<rparr>))"

definition insertOutput :: "ledger \<Rightarrow> string \<Rightarrow> int \<Rightarrow> Output \<Rightarrow> attempt" where
  "insertOutput S t i out =
     (if \<not> int4 i \<or> \<not> int4 (out_value out) then Inl (NumericValueOutOfRange, S)
      else Inr (S\<lparr>outputs := outputs S @
                  [\<lparr>o_tx_id = t, o_output_index = i, o_address = out_address out,
                    o_value = out_value out, o_spent = False\<rparr>]\<rparr>))"

text \<open>
  \<^verbatim>\<open>INSERT INTO balances ... ON CONFLICT (address) DO UPDATE SET balance = balances.balance + $2\<close>
\<close>

definition creditBalance :: "ledger \<Rightarrow> string \<Rightarrow> int \<Rightarrow> attempt" where
  "creditBalance S a v =
     (if \<not> int4 v then Inl (NumericValueOutOfRange, S)
      else case balances S a of
             None \<Rightarrow> Inr (S\<lparr>balances := (balances S)(a \<mapsto> v)\<rparr>)
           | Some bal \<Rightarrow>
               if \<not> int4 (bal + v) then Inl (NumericValueOutOfRange, S)
               else Inr (S\<lparr>balances := (balances S)(a \<mapsto> bal + v)\<rparr>))"

text \<open>\<^verbatim>\<open>UPDATE balances SET balance = balance - $1 WHERE address = $2\<close>\<close>

definition debitBalance :: "ledger \<Rightarrow> string \<Rightarrow> int \<Rightarrow> attempt" where
  "debitBalance S a v =
     (if \<not> int4 v then Inl (NumericValueOutOfRange, S)
      else case balances S a of
             None \<Rightarrow> Inr S
           | Some bal \<Rightarrow>
               if \<not> int4 (bal - v) then Inl (NumericValueOutOfRange, S)
               else Inr (S\<lparr>balances := (balances S)(a \<mapsto> bal - v)\<rparr>))"

definition insertInput :: "ledger \<Rightarrow> string \<Rightarrow> Input \<Rightarrow> attempt" where
  "insertInput S t input =
     (if \<not> int4 (in_index input) then Inl (NumericValueOutOfRange, S)
      else Inr (S\<lparr>inputs := inputs S @
                  [\<lparr>i_tx_id = t, i_referenced_tx_id = in_txId input,
                    i_referenced_output_index = in_index input\<rparr>]\<rparr>))"

text \<open>
  \<^verbatim>\<open>UPDATE outputs SET spent = TRUE WHERE tx_id = $1 AND output_index = $2\<close>. It is given
  the index that the insert before it was given, so it does not throw.
\<close>

definition markSpent :: "ledger \<Rightarrow> string \<Rightarrow> int \<Rightarrow> ledger" where
  "markSpent S t i =
     S\<lparr>outputs := map (\<lambda>r. if o_tx_id r = t \<and> o_output_index r = i then r\<lparr>o_spent := True\<rparr> else r)
                      (outputs S)\<rparr>"

text \<open>The loop over \<^verbatim>\<open>tx.outputs\<close>, with its counter \<open>i\<close>.\<close>

fun applyOutputs :: "ledger \<Rightarrow> string \<Rightarrow> int \<Rightarrow> Output list \<Rightarrow> attempt" where
  "applyOutputs S t i [] = Inr S"
| "applyOutputs S t i (out # rest) =
     (case insertOutput S t i out of
        Inl thrown \<Rightarrow> Inl thrown
      | Inr S1 \<Rightarrow>
          (case creditBalance S1 (out_address out) (out_value out) of
             Inl thrown \<Rightarrow> Inl thrown
           | Inr S2 \<Rightarrow> applyOutputs S2 t (i + 1) rest))"

text \<open>
  The body of the loop over \<^verbatim>\<open>tx.inputs\<close>. The debit is guarded by
  \<^verbatim>\<open>if (utxoRows.length)\<close>: when no row is found nothing is debited and nothing is thrown.
\<close>

definition applyInput :: "ledger \<Rightarrow> string \<Rightarrow> Input \<Rightarrow> attempt" where
  "applyInput S t input =
     (case insertInput S t input of
        Inl thrown \<Rightarrow> Inl thrown
      | Inr S1 \<Rightarrow>
          (let S2 = markSpent S1 (in_txId input) (in_index input)
           in case utxoRows S2 (in_txId input) (in_index input) of
                [] \<Rightarrow> Inr S2
              | r # _ \<Rightarrow> debitBalance S2 (o_address r) (o_value r)))"

fun applyInputs :: "ledger \<Rightarrow> string \<Rightarrow> Input list \<Rightarrow> attempt" where
  "applyInputs S t [] = Inr S"
| "applyInputs S t (input # rest) =
     (case applyInput S t input of
        Inl thrown \<Rightarrow> Inl thrown
      | Inr S' \<Rightarrow> applyInputs S' t rest)"

fun applyTransactions :: "ledger \<Rightarrow> string \<Rightarrow> Transaction list \<Rightarrow> attempt" where
  "applyTransactions S b [] = Inr S"
| "applyTransactions S b (tx # txs) =
     (case insertTransaction S (tx_id tx) b of
        Inl thrown \<Rightarrow> Inl thrown
      | Inr S1 \<Rightarrow>
          (case applyOutputs S1 (tx_id tx) 0 (tx_outputs tx) of
             Inl thrown \<Rightarrow> Inl thrown
           | Inr S2 \<Rightarrow>
               (case applyInputs S2 (tx_id tx) (tx_inputs tx) of
                  Inl thrown \<Rightarrow> Inl thrown
                | Inr S3 \<Rightarrow> applyTransactions S3 b txs)))"

definition applyBlock :: "ledger \<Rightarrow> Block \<Rightarrow> attempt" where
  "applyBlock S block =
     (case insertBlock S (blk_id block) (blk_height block) of
        Inl thrown \<Rightarrow> Inl thrown
      | Inr S1 \<Rightarrow> applyTransactions S1 (blk_id block) (blk_transactions block))"

text \<open>
  The \<^verbatim>\<open>try\<close> block. After \<^verbatim>\<open>BEGIN\<close> the writes are pending. \<^verbatim>\<open>COMMIT\<close> makes the
  pending ledger the stored one. When a statement throws, the \<^verbatim>\<open>catch\<close> branch sends
  \<^verbatim>\<open>ROLLBACK\<close>, which drops the pending ledger and leaves the stored one. The handler
  sends every statement with \<^verbatim>\<open>pool.query\<close>; the statements of one request are taken to
  run on one connection, one request at a time.
\<close>

definition applyPhase :: "ledger \<Rightarrow> Block \<Rightarrow> reply \<times> ledger" where
  "applyPhase S block =
     (case applyBlock S block of
        Inl (err, pending) \<Rightarrow> (ApplyFailed err, S)
      | Inr S' \<Rightarrow> (Success, S'))"

subsection \<open>The handler\<close>

definition submitBlock :: "ledger \<Rightarrow> Block \<Rightarrow> reply \<times> ledger" where
  "submitBlock S block =
     (if blk_height block \<noteq> lastHeight S + 1 then
        (ValidationRejected (HeightMismatch (lastHeight S + 1)), S)
      else if blk_id block \<noteq> expectedBlockId block then (ValidationRejected InvalidBlockId, S)
      else case validateTransactions S (blk_height block) (blk_transactions block) of
             Some (Reject reason) \<Rightarrow> (ValidationRejected reason, S)
           | Some (Throw err) \<Rightarrow> (ServerError err, S)
           | None \<Rightarrow> applyPhase S block)"

text \<open>A sequence of submissions, each of them accepted; \<open>None\<close> when one is not.\<close>

fun submitAll :: "ledger \<Rightarrow> Block list \<Rightarrow> ledger option" where
  "submitAll S [] = Some S"
| "submitAll S (block # rest) =
     (case submitBlock S block of
        (Success, S') \<Rightarrow> submitAll S' rest
      | _ \<Rightarrow> None)"

subsection \<open>Balances and unspent outputs\<close>

text \<open>The stored balance of an address, \<open>0\<close> when the address has no row.\<close>

definition balanceOf :: "ledger \<Rightarrow> string \<Rightarrow> int" where
  "balanceOf S a = (case balances S a of None \<Rightarrow> 0 | Some bal \<Rightarrow> bal)"

definition unspentSum :: "ledger \<Rightarrow> string \<Rightarrow> int" where
  "unspentSum S a = sum_list (map o_value (filter (\<lambda>r. o_address r = a \<and> \<not> o_spent r) (outputs S)))"

subsection \<open>Notions for the statements about the validation\<close>

text \<open>
  The value of the output that an input refers to, read as the handler reads it (the first
  row of its query).
\<close>

definition referencedValue :: "ledger \<Rightarrow> Input \<Rightarrow> int" where
  "referencedValue S input =
     (case utxoRows S (in_txId input) (in_index input) of [] \<Rightarrow> 0 | r # _ \<Rightarrow> o_value r)"

text \<open>An input whose index is a 32-bit integer and whose output is in the table and not spent.\<close>

definition spendable :: "ledger \<Rightarrow> Input \<Rightarrow> bool" where
  "spendable S input \<longleftrightarrow>
     int4 (in_index input) \<and>
     (case utxoRows S (in_txId input) (in_index input) of [] \<Rightarrow> False | r # _ \<Rightarrow> \<not> o_spent r)"

subsection \<open>Rollback\<close>

text \<open>
  Modelled from the spec: the handler of \<^verbatim>\<open>POST /rollback\<close> is called by the tests and is
  not in the sources. The specification reads: for every block with height strictly greater
  than the target height, in descending height order: for each of its transactions' inputs,
  re-mark the referenced output \<open>spent = false\<close> and re-credit that output's address balance;
  for each of its transactions' outputs, debit the address balance by the output's value and
  delete the output record; delete the transaction; delete the block. It fails if the target
  height is negative or exceeds the current height. A balance is \<open>0\<close> for an address that
  has no row, and a re-credit or debit writes the row; the specification puts no bound on
  the balances during a rollback, and none is modelled.
\<close>

definition adjustBalance :: "ledger \<Rightarrow> string \<Rightarrow> int \<Rightarrow> ledger" where
  "adjustBalance S a d = S\<lparr>balances := (balances S)(a \<mapsto> balanceOf S a + d)\<rparr>"

definition unspendInput :: "inputs_row \<Rightarrow> ledger \<Rightarrow> ledger" where
  "unspendInput i S =
     (let t = i_referenced_tx_id i; k = i_referenced_output_index i
      in case utxoRows S t k of
           [] \<Rightarrow> S
         | r # _ \<Rightarrow>
             adjustBalance
               (S\<lparr>outputs := map (\<lambda>r. if o_tx_id r = t \<and> o_output_index r = k
                                      then r\<lparr>o_spent := False\<rparr> else r) (outputs S)\<rparr>)
               (o_address r) (o_value r))"

definition removeOutput :: "outputs_row \<Rightarrow> ledger \<Rightarrow> ledger" where
  "removeOutput r S =
     (adjustBalance S (o_address r) (- o_value r))\<lparr>outputs := remove1 r (outputs S)\<rparr>"

definition rollbackBlock :: "blocks_row \<Rightarrow> ledger \<Rightarrow> ledger" where
  "rollbackBlock b S =
     (let ts = map t_id (filter (\<lambda>t. t_block_id t = b_id b) (transactions S));
          S1 = fold unspendInput (filter (\<lambda>i. i_tx_id i \<in> set ts) (inputs S)) S;
          S2 = fold removeOutput (filter (\<lambda>r. o_tx_id r \<in> set ts) (outputs S1)) S1
      in S2\<lparr>inputs := filter (\<lambda>i. i_tx_id i \<notin> set ts) (inputs S2),
            transactions := filter (\<lambda>t. t_block_id t \<noteq> b_id b) (transactions S2),
            blocks := remove1 b (blocks S2)\<rparr>)"

datatype rollback_error = RollbackOutOfRange

definition rollbackTo :: "ledger \<Rightarrow> int \<Rightarrow> rollback_error + ledger" where
  "rollbackTo S targetHeight =
     (if targetHeight < 0 \<or> lastHeight S < targetHeight then Inl RollbackOutOfRange
      else Inr (fold rollbackBlock
                  (rev (sort_key b_height (filter (\<lambda>b. targetHeight < b_height b) (blocks S)))) S))"

subsection \<open>The blocks of the test file, and variations\<close>

text \<open>
  \<open>genesis\<close> and \<open>spend\<close> are the two blocks that \<^verbatim>\<open>index.spec.ts\<close> submits: a coinbase
  of \<open>10\<close> to \<open>addr1\<close>, then a transaction that spends it into \<open>4\<close> and \<open>6\<close>.
\<close>

definition tx1 :: Transaction where
  "tx1 = \<lparr>tx_id = ''tx1'', tx_inputs = [],
          tx_outputs = [\<lparr>out_address = ''addr1'', out_value = 10\<rparr>]\<rparr>"

definition genesis :: Block where
  "genesis = \<lparr>blk_id = sha256 ''1tx1'', blk_height = 1, blk_transactions = [tx1]\<rparr>"

definition tx2 :: Transaction where
  "tx2 = \<lparr>tx_id = ''tx2'', tx_inputs = [\<lparr>in_txId = ''tx1'', in_index = 0\<rparr>],
          tx_outputs = [\<lparr>out_address = ''addr2'', out_value = 4\<rparr>,
                        \<lparr>out_address = ''addr3'', out_value = 6\<rparr>]\<rparr>"

definition spend :: Block where
  "spend = \<lparr>blk_id = sha256 ''2tx2'', blk_height = 2, blk_transactions = [tx2]\<rparr>"

text \<open>A block at height 2 whose one transaction names the output of \<open>tx1\<close> twice.\<close>

definition spendTwice :: Block where
  "spendTwice =
     \<lparr>blk_id = sha256 ''2tx2'', blk_height = 2,
      blk_transactions =
        [\<lparr>tx_id = ''tx2'',
          tx_inputs = [\<lparr>in_txId = ''tx1'', in_index = 0\<rparr>, \<lparr>in_txId = ''tx1'', in_index = 0\<rparr>],
          tx_outputs = [\<lparr>out_address = ''addr2'', out_value = 20\<rparr>]\<rparr>]\<rparr>"

text \<open>A block at height 2 with two transactions that each spend the output of \<open>tx1\<close>.\<close>

definition spendInTwo :: Block where
  "spendInTwo =
     \<lparr>blk_id = sha256 ''2tx2tx3'', blk_height = 2,
      blk_transactions =
        [\<lparr>tx_id = ''tx2'', tx_inputs = [\<lparr>in_txId = ''tx1'', in_index = 0\<rparr>],
          tx_outputs = [\<lparr>out_address = ''addr2'', out_value = 10\<rparr>]\<rparr>,
         \<lparr>tx_id = ''tx3'', tx_inputs = [\<lparr>in_txId = ''tx1'', in_index = 0\<rparr>],
          tx_outputs = [\<lparr>out_address = ''addr3'', out_value = 10\<rparr>]\<rparr>]\<rparr>"

text \<open>A block at height 2 that spends the \<open>10\<close> of \<open>tx1\<close> into \<open>4\<close> and \<open>5\<close>.\<close>

definition tx2short :: Transaction where
  "tx2short = \<lparr>tx_id = ''tx2'', tx_inputs = [\<lparr>in_txId = ''tx1'', in_index = 0\<rparr>],
               tx_outputs = [\<lparr>out_address = ''addr2'', out_value = 4\<rparr>,
                             \<lparr>out_address = ''addr3'', out_value = 5\<rparr>]\<rparr>"

definition spendShort :: Block where
  "spendShort = \<lparr>blk_id = sha256 ''2tx2'', blk_height = 2, blk_transactions = [tx2short]\<rparr>"

text \<open>
  Blocks at height 3, for the ledger after \<open>genesis\<close> and \<open>spend\<close>: one spends the output
  of \<open>tx1\<close> again, one spends an output of a transaction \<open>tx9\<close> that was never submitted.
\<close>

definition tx3again :: Transaction where
  "tx3again = \<lparr>tx_id = ''tx3'', tx_inputs = [\<lparr>in_txId = ''tx1'', in_index = 0\<rparr>],
               tx_outputs = [\<lparr>out_address = ''addr4'', out_value = 10\<rparr>]\<rparr>"

definition spendAgain :: Block where
  "spendAgain = \<lparr>blk_id = sha256 ''3tx3'', blk_height = 3, blk_transactions = [tx3again]\<rparr>"

definition tx3unknown :: Transaction where
  "tx3unknown = \<lparr>tx_id = ''tx3'', tx_inputs = [\<lparr>in_txId = ''tx9'', in_index = 0\<rparr>],
                 tx_outputs = [\<lparr>out_address = ''addr4'', out_value = 10\<rparr>]\<rparr>"

definition spendUnknown :: Block where
  "spendUnknown = \<lparr>blk_id = sha256 ''3tx3'', blk_height = 3, blk_transactions = [tx3unknown]\<rparr>"

text \<open>
  A block at height 2 whose input names index \<open>2 ^ 31\<close> of \<open>tx1\<close>, an output that is not
  in the table.
\<close>

definition tx2far :: Transaction where
  "tx2far = \<lparr>tx_id = ''tx2'', tx_inputs = [\<lparr>in_txId = ''tx1'', in_index = 2147483648\<rparr>],
             tx_outputs = [\<lparr>out_address = ''addr2'', out_value = 10\<rparr>]\<rparr>"

definition spendFar :: Block where
  "spendFar = \<lparr>blk_id = sha256 ''2tx2'', blk_height = 2, blk_transactions = [tx2far]\<rparr>"

text \<open>
  A first block whose coinbase pays \<open>2 ^ 31\<close>, and a block at height 2 whose transaction
  takes the identifier \<open>tx1\<close> again.
\<close>

definition tx1large :: Transaction where
  "tx1large = \<lparr>tx_id = ''tx1'', tx_inputs = [],
               tx_outputs = [\<lparr>out_address = ''addr1'', out_value = 2147483648\<rparr>]\<rparr>"

definition genesisLarge :: Block where
  "genesisLarge = \<lparr>blk_id = sha256 ''1tx1'', blk_height = 1, blk_transactions = [tx1large]\<rparr>"

definition tx1reused :: Transaction where
  "tx1reused = \<lparr>tx_id = ''tx1'', tx_inputs = [\<lparr>in_txId = ''tx1'', in_index = 0\<rparr>],
                tx_outputs = [\<lparr>out_address = ''addr2'', out_value = 10\<rparr>]\<rparr>"

definition spendReusingId :: Block where
  "spendReusingId = \<lparr>blk_id = sha256 ''2tx1'', blk_height = 2, blk_transactions = [tx1reused]\<rparr>"

text \<open>A block without transactions, and a first block whose one transaction is named \<open>0\<close>.\<close>

definition emptyBlock :: "int \<Rightarrow> Block" where
  "emptyBlock h = \<lparr>blk_id = sha256 (numberToString h), blk_height = h, blk_transactions = []\<rparr>"

definition firstBlock0 :: Block where
  "firstBlock0 =
     \<lparr>blk_id = sha256 ''10'', blk_height = 1,
      blk_transactions = [\<lparr>tx_id = ''0'', tx_inputs = [], tx_outputs = []\<rparr>]\<rparr>"

text \<open>
  The ledger after nine blocks: \<open>firstBlock0\<close>, then a block without transactions at each
  height from 2 to 9.
\<close>

definition chain9 :: ledger where
  "chain9 =
     \<lparr>blocks =
        \<lparr>b_id = sha256 ''10'', b_height = 1\<rparr> #
        map (\<lambda>h. \<lparr>b_id = sha256 (numberToString h), b_height = h\<rparr>) [2, 3, 4, 5, 6, 7, 8, 9],
      transactions = [\<lparr>t_id = ''0'', t_block_id = sha256 ''10''\<rparr>],
      outputs = [], inputs = [], balances = Map.empty\<rparr>"

text \<open>The ledger after \<open>genesis\<close>, and the ledger after \<open>genesis\<close> and \<open>spend\<close>.\<close>

definition afterGenesis :: ledger where
  "afterGenesis =
     \<lparr>blocks = [\<lparr>b_id = sha256 ''1tx1'', b_height = 1\<rparr>],
      transactions = [\<lparr>t_id = ''tx1'', t_block_id = sha256 ''1tx1''\<rparr>],
      outputs = [\<lparr>o_tx_id = ''tx1'', o_output_index = 0, o_address = ''addr1'', o_value = 10,
                  o_spent = False\<rparr>],
      inputs = [], balances = [''addr1'' \<mapsto> 10]\<rparr>"

definition afterSpend :: ledger where
  "afterSpend =
     \<lparr>blocks = [\<lparr>b_id = sha256 ''1tx1'', b_height = 1\<rparr>, \<lparr>b_id = sha256 ''2tx2'', b_height = 2\<rparr>],
      transactions = [\<lparr>t_id = ''tx1'', t_block_id = sha256 ''1tx1''\<rparr>,
                      \<lparr>t_id = ''tx2'', t_block_id = sha256 ''2tx2''\<rparr>],
      outputs = [\<lparr>o_tx_id = ''tx1'', o_output_index = 0, o_address = ''addr1'', o_value = 10,
                  o_spent = True\<rparr>,
                 \<lparr>o_tx_id = ''tx2'', o_output_index = 0, o_address = ''addr2'', o_value = 4,
                  o_spent = False\<rparr>,
                 \<lparr>o_tx_id = ''tx2'', o_output_index = 1, o_address = ''addr3'', o_value = 6,
                  o_spent = False\<rparr>],
      inputs = [\<lparr>i_tx_id = ''tx2'', i_referenced_tx_id = ''tx1'', i_referenced_output_index = 0\<rparr>],
      balances = [''addr2'' \<mapsto> 4, ''addr3'' \<mapsto> 6, ''addr1'' \<mapsto> 0]\<rparr>"

text \<open>
  The ledger after \<open>genesis\<close>, \<open>spend\<close> and a rollback to height 1: the ledger after
  \<open>genesis\<close>, with a balance row of \<open>0\<close> for each address that \<open>spend\<close> paid.
\<close>

definition rolledBack :: ledger where
  "rolledBack =
     \<lparr>blocks = [\<lparr>b_id = sha256 ''1tx1'', b_height = 1\<rparr>],
      transactions = [\<lparr>t_id = ''tx1'', t_block_id = sha256 ''1tx1''\<rparr>],
      outputs = [\<lparr>o_tx_id = ''tx1'', o_output_index = 0, o_address = ''addr1'', o_value = 10,
                  o_spent = False\<rparr>],
      inputs = [], balances = [''addr1'' \<mapsto> 10, ''addr2'' \<mapsto> 0, ''addr3'' \<mapsto> 0]\<rparr>"

subsection \<open>Notions for the proofs about rollback\<close>

text \<open>The rows that one block adds.\<close>

definition blockRow :: "Block \<Rightarrow> blocks_row" where
  "blockRow block = \<lparr>b_id = blk_id block, b_height = blk_height block\<rparr>"

definition transactionRow :: "string \<Rightarrow> Transaction \<Rightarrow> transactions_row" where
  "transactionRow b tx = \<lparr>t_id = tx_id tx, t_block_id = b\<rparr>"

definition inputRow :: "string \<Rightarrow> Input \<Rightarrow> inputs_row" where
  "inputRow t input =
     \<lparr>i_tx_id = t, i_referenced_tx_id = in_txId input, i_referenced_output_index = in_index input\<rparr>"

definition inputRows :: "Transaction \<Rightarrow> inputs_row list" where
  "inputRows tx = map (inputRow (tx_id tx)) (tx_inputs tx)"

fun outputRowsFrom :: "string \<Rightarrow> int \<Rightarrow> Output list \<Rightarrow> outputs_row list" where
  "outputRowsFrom t i [] = []"
| "outputRowsFrom t i (out # rest) =
     \<lparr>o_tx_id = t, o_output_index = i, o_address = out_address out, o_value = out_value out,
      o_spent = False\<rparr> # outputRowsFrom t (i + 1) rest"

definition outputRows :: "Transaction \<Rightarrow> outputs_row list" where
  "outputRows tx = outputRowsFrom (tx_id tx) 0 (tx_outputs tx)"

text \<open>The key of an output row, the key that an input names, and the rows of a set of keys
  marked spent or unspent.\<close>

definition keyOf :: "outputs_row \<Rightarrow> string \<times> int" where
  "keyOf r = (o_tx_id r, o_output_index r)"

definition refOf :: "Input \<Rightarrow> string \<times> int" where
  "refOf input = (in_txId input, in_index input)"

definition inputRef :: "inputs_row \<Rightarrow> string \<times> int" where
  "inputRef i = (i_referenced_tx_id i, i_referenced_output_index i)"

definition setSpent :: "bool \<Rightarrow> (string \<times> int) set \<Rightarrow> outputs_row \<Rightarrow> outputs_row" where
  "setSpent v K r = (if keyOf r \<in> K then r\<lparr>o_spent := v\<rparr> else r)"

definition blockRefs :: "Transaction list \<Rightarrow> (string \<times> int) set" where
  "blockRefs txs = (\<Union>tx\<in>set txs. refOf ` set (tx_inputs tx))"

text \<open>What the first row with key \<open>k\<close> holds for the address \<open>a\<close>.\<close>

definition refAmount :: "outputs_row list \<Rightarrow> string \<Rightarrow> string \<times> int \<Rightarrow> int" where
  "refAmount rows a k =
     (case filter (\<lambda>r. keyOf r = k) rows of
        [] \<Rightarrow> 0
      | r # _ \<Rightarrow> if o_address r = a then o_value r else 0)"

text \<open>No input of the block names a transaction of the block.\<close>

definition noSelfRef :: "Transaction list \<Rightarrow> bool" where
  "noSelfRef txs \<longleftrightarrow> (\<forall>tx\<in>set txs. \<forall>i\<in>set (tx_inputs tx). in_txId i \<notin> tx_id ` set txs)"

text \<open>
  The invariant of the tables: rows refer to stored rows, the keys of the outputs are
  distinct, every address of an output has a balance row, and the heights increase.
\<close>

definition wellFormed :: "ledger \<Rightarrow> bool" where
  "wellFormed S \<longleftrightarrow>
     (\<forall>t\<in>set (transactions S). t_block_id t \<in> b_id ` set (blocks S)) \<and>
     (\<forall>i\<in>set (inputs S). i_tx_id i \<in> t_id ` set (transactions S)) \<and>
     (\<forall>r\<in>set (outputs S). o_tx_id r \<in> t_id ` set (transactions S)) \<and>
     (\<forall>r\<in>set (outputs S). o_address r \<in> dom (balances S)) \<and>
     distinct (map keyOf (outputs S)) \<and>
     sorted_wrt (<) (map b_height (blocks S))"

text \<open>
  The ledger with a balance row for each address of \<open>D\<close> and for no other: an address
  without a row gets a row with balance \<open>0\<close>.
\<close>

definition withRows :: "string set \<Rightarrow> ledger \<Rightarrow> ledger" where
  "withRows D S = S\<lparr>balances := (\<lambda>a. if a \<in> D then Some (balanceOf S a) else None)\<rparr>"

section \<open>Properties\<close>

subsection \<open>The digest is 64 hexadecimal digits\<close>

lemma length_round: "length (round kw s) = length s"
  by (induction kw s rule: round.induct) (simp_all add: Let_def)

lemma length_fold_round: "length (fold round kws s) = length s"
  by (induction kws arbitrary: s) (simp_all add: length_round)

lemma length_compress: "length (compress hs m) = length hs"
  by (simp add: compress_def length_fold_round)

lemma length_fold_compress: "length (fold (\<lambda>m hs. compress hs m) cs hs) = length hs"
  by (induction cs arbitrary: hs) (simp_all add: length_compress)

lemma length_concat_hex32: "length (concat (map hex32 hs)) = 8 * length hs"
  by (induction hs) (simp_all add: hex32_def)

lemma length_sha256: "length (sha256 s) = 64"
  by (simp add: sha256_def Let_def length_concat_hex32 length_fold_compress H256_def)

lemma hexdigit_range: "hexdigit n \<in> set ''0123456789abcdef''"
  unfolding hexdigit_def by (rule nth_mem) simp

lemma set_hex32: "set (hex32 w) \<subseteq> set ''0123456789abcdef''"
  unfolding hex32_def using hexdigit_range by auto

lemma set_concat_hex32: "(\<And>w. set (hex32 w) \<subseteq> A) \<Longrightarrow> set (concat (map hex32 hs)) \<subseteq> A"
  by (induction hs) simp_all

lemma set_sha256: "set (sha256 s) \<subseteq> set ''0123456789abcdef''"
  unfolding sha256_def Let_def by (rule set_concat_hex32) (rule set_hex32)

lemma sha256_nth_not_x: "i < 64 \<Longrightarrow> sha256 s ! i \<noteq> CHR ''x''"
proof
  assume "i < 64" and "sha256 s ! i = CHR ''x''"
  then have "CHR ''x'' \<in> set (sha256 s)"
    by (metis length_sha256 nth_mem)
  then show False
    using set_sha256 [of s] by auto
qed

subsection \<open>Decimal strings\<close>

lemma natToString_digit: "n < 10 \<Longrightarrow> natToString n = [digit n]"
  by (simp add: natToString.simps)

lemma natToString_step: "10 \<le> n \<Longrightarrow> natToString n = natToString (n div 10) @ [digit n]"
  by (subst natToString.simps) simp

lemma numberToString_1: "numberToString 1 = ''1''"
  by (simp add: numberToString_def natToString_digit digit_def)

lemma numberToString_2: "numberToString 2 = ''2''"
  by (simp add: numberToString_def natToString_digit digit_def)

subsection \<open>The current height\<close>

lemma lastHeight_empty: "blocks S = [] \<Longrightarrow> lastHeight S = 0"
  by (simp add: lastHeight_def)

lemma lastHeight_Max: "blocks S \<noteq> [] \<Longrightarrow> lastHeight S = Max (set (map b_height (blocks S)))"
proof (cases "blocks S")
  case Nil
  moreover assume "blocks S \<noteq> []"
  ultimately show ?thesis by simp
next
  case (Cons r rs)
  have "fold max (map b_height rs) (b_height r) = Max (set (map b_height (r # rs)))"
    by (simp only: list.map Max.set_eq_fold)
  with Cons show ?thesis
    by (simp add: lastHeight_def)
qed

lemma height_le_lastHeight: "r \<in> set (blocks S) \<Longrightarrow> b_height r \<le> lastHeight S"
proof -
  assume r: "r \<in> set (blocks S)"
  then have "blocks S \<noteq> []" by auto
  then have "lastHeight S = Max (set (map b_height (blocks S)))"
    by (rule lastHeight_Max)
  moreover have "b_height r \<le> Max (set (map b_height (blocks S)))"
    using r by (intro Max_ge) auto
  ultimately show ?thesis by simp
qed

lemma next_height_fresh: "lastHeight S + 1 \<notin> set (map b_height (blocks S))"
  using height_le_lastHeight by fastforce

subsection \<open>The loops of the validation\<close>




lemma sumInputs_Inr:
  "sumInputs S ins acc = Inr isum \<Longrightarrow>
     (\<forall>i\<in>set ins. spendable S i) \<and> isum = acc + sum_list (map (referencedValue S) ins)"
proof (induction ins arbitrary: acc)
  case Nil
  then show ?case by simp
next
  case (Cons i ins)
  from Cons.prems obtain r rs where
    r4: "int4 (in_index i)"
    and u: "utxoRows S (in_txId i) (in_index i) = r # rs" and ns: "\<not> o_spent r"
    and rest: "sumInputs S ins (acc + o_value r) = Inr isum"
    by (auto split: list.splits if_splits)
  from Cons.IH [OF rest] r4 u ns show ?case
    by (simp add: spendable_def referencedValue_def)
qed



lemma validateTransactions_None:
  "validateTransactions S h txs = None \<Longrightarrow> tx \<in> set txs \<Longrightarrow>
     (h = 1 \<and> tx_inputs tx = []) \<or>
     ((\<forall>i\<in>set (tx_inputs tx). spendable S i) \<and>
      sum_list (map (referencedValue S) (tx_inputs tx)) = outputSum tx)"
proof (induction txs)
  case Nil
  then show ?case by simp
next
  case (Cons t txs)
  show ?case
  proof (cases "h = 1 \<and> tx_inputs t = []")
    case True
    with Cons show ?thesis
      by auto
  next
    case False
    with Cons.prems(1) obtain isum where
      s: "sumInputs S (tx_inputs t) 0 = Inr isum" and e: "isum = outputSum t"
      and rest: "validateTransactions S h txs = None"
      by (auto split: sum.splits if_splits)
    from sumInputs_Inr [OF s] e
    have "(\<forall>i\<in>set (tx_inputs t). spendable S i) \<and>
        sum_list (map (referencedValue S) (tx_inputs t)) = outputSum t"
      by simp
    with Cons.IH [OF rest] Cons.prems(2) show ?thesis
      by auto
  qed
qed


lemma submitBlock_Success:
  "fst (submitBlock S block) = Success \<Longrightarrow>
     blk_height block = lastHeight S + 1 \<and> blk_id block = expectedBlockId block \<and>
     validateTransactions S (blk_height block) (blk_transactions block) = None \<and>
     applyBlock S block = Inr (snd (submitBlock S block))"
  by (auto simp: submitBlock_def applyPhase_def
      split: option.splits sum.splits if_splits stop.splits prod.splits)

lemma accepted_spendable:
  assumes "fst (submitBlock S block) = Success"
    and "tx \<in> set (blk_transactions block)" and "i \<in> set (tx_inputs tx)"
  shows "spendable S i"
proof -
  from submitBlock_Success [OF assms(1)]
  have "validateTransactions S (blk_height block) (blk_transactions block) = None"
    by blast
  from validateTransactions_None [OF this assms(2)] assms(3) show ?thesis
    by auto
qed

subsection \<open>Evaluating the handler on a given ledger\<close>

lemmas ledger_eval =
  submitBlock_def lastHeight_def expectedBlockId_def txIdsConcat_def applyPhase_def applyBlock_def
  insertBlock_def insertTransaction_def insertOutput_def creditBalance_def debitBalance_def
  insertInput_def markSpent_def applyInput_def utxoRows_def outputSum_def int4_def
  Let_def empty_ledger_def

lemmas blocks_eval =
  genesis_def tx1_def spend_def tx2_def spendTwice_def spendInTwo_def spendShort_def tx2short_def
  spendAgain_def tx3again_def spendUnknown_def tx3unknown_def spendFar_def tx2far_def
  genesisLarge_def tx1large_def spendReusingId_def tx1reused_def emptyBlock_def firstBlock0_def

subsection \<open>The digests of the block identifiers used below\<close>

text \<open>
  Each digest is computed inside the logic, in steps: the padded message as sixteen words,
  the message schedule, the sixty-four rounds in four runs of sixteen, and the final addition.
\<close>

lemma schedule_numeral:
  "schedule (numeral k) w =
     hd w # schedule (pred_numeral k)
       (tl w @ [add32 (add32 (ssig1 (w ! 14)) (w ! 9)) (add32 (ssig0 (w ! 1)) (w ! 0))])"
  by (simp add: numeral_eq_Suc)

lemma replicate_numeral: "replicate (numeral k) x = x # replicate (pred_numeral k) x"
  by (simp add: numeral_eq_Suc)

lemma sha256_1tx1_words:
  "words (pad (map of_char ''1tx1'')) =
     [829716529, 2147483648, 0, 0, 0, 0, 0, 0, 0, 0, 0, 0, 0, 0, 0, 32]"
  by (simp add: pad_def be64_def replicate_numeral)

lemma sha256_1tx1_schedule:
  "schedule 64
     [829716529, 2147483648, 0, 0, 0, 0, 0, 0, 0, 0, 0, 0, 0, 0, 0, 32] =
     [829716529, 2147483648, 0, 0, 0, 0, 0, 0, 0, 0, 0, 0, 0, 0, 0, 32, 1114937393, 2148794368,
      3742241874, 2149602568, 3365205987, 537221121, 3846158469, 1232948613, 2877227478,
      4000212756, 3776689176, 3353897286, 3434906180, 519698840, 1524571762, 3158171518,
      2932300093, 4042957927, 47168264, 920343885, 1656065532, 875819780, 1773316582,
      4169198603, 1277388601, 501235508, 2256731313, 4089038568, 1885639668, 2360670365,
      3424200949, 2762584013, 4142288944, 1481791078, 580055008, 2702614272, 194923715,
      137479946, 842743643, 1839201995, 17494036, 235677542, 197973383, 1489346745, 2108721271,
      3681833555, 1930589336, 877078208]"
  by (simp add: schedule_numeral add32_def rotr_def shr_def ssig0_def ssig1_def)

lemma sha256_1tx1_rounds_0:
  "fold round
     (zip [1116352408, 1899447441, 3049323471, 3921009573, 961987163, 1508970993, 2453635748,
          2870763221, 3624381080, 310598401, 607225278, 1426881987, 1925078388, 2162078206,
          2614888103, 3248222580]
          [829716529, 2147483648, 0, 0, 0, 0, 0, 0, 0, 0, 0, 0, 0, 0, 0, 32])
     [1779033703, 3144134277, 1013904242, 2773480762, 1359893119, 2600822924, 528734635,
      1541459225] =
     [1298368010, 255564812, 2278654242, 2763906998, 2111455619, 992816765, 796005980,
      1512746308]"
  by (simp add: add32_def rotr_def bsig0_def bsig1_def Ch_def Maj_def Let_def)

lemma sha256_1tx1_rounds_16:
  "fold round
     (zip [3835390401, 4022224774, 264347078, 604807628, 770255983, 1249150122, 1555081692,
          1996064986, 2554220882, 2821834349, 2952996808, 3210313671, 3336571891, 3584528711,
          113926993, 338241895]
          [1114937393, 2148794368, 3742241874, 2149602568, 3365205987, 537221121, 3846158469,
          1232948613, 2877227478, 4000212756, 3776689176, 3353897286, 3434906180, 519698840,
          1524571762, 3158171518])
     [1298368010, 255564812, 2278654242, 2763906998, 2111455619, 992816765, 796005980,
      1512746308] =
     [1551455715, 708171356, 2925366414, 2230570630, 3468632402, 4041474784, 4073269756,
      3849809210]"
  by (simp add: add32_def rotr_def bsig0_def bsig1_def Ch_def Maj_def Let_def)

lemma sha256_1tx1_rounds_32:
  "fold round
     (zip [666307205, 773529912, 1294757372, 1396182291, 1695183700, 1986661051, 2177026350,
          2456956037, 2730485921, 2820302411, 3259730800, 3345764771, 3516065817, 3600352804,
          4094571909, 275423344]
          [2932300093, 4042957927, 47168264, 920343885, 1656065532, 875819780, 1773316582,
          4169198603, 1277388601, 501235508, 2256731313, 4089038568, 1885639668, 2360670365,
          3424200949, 2762584013])
     [1551455715, 708171356, 2925366414, 2230570630, 3468632402, 4041474784, 4073269756,
      3849809210] =
     [3133721512, 838516488, 1508132650, 259401779, 969694478, 2902304170, 1758658444,
      1381789308]"
  by (simp add: add32_def rotr_def bsig0_def bsig1_def Ch_def Maj_def Let_def)

lemma sha256_1tx1_rounds_48:
  "fold round
     (zip [430227734, 506948616, 659060556, 883997877, 958139571, 1322822218, 1537002063,
          1747873779, 1955562222, 2024104815, 2227730452, 2361852424, 2428436474, 2756734187,
          3204031479, 3329325298]
          [4142288944, 1481791078, 580055008, 2702614272, 194923715, 137479946, 842743643,
          1839201995, 17494036, 235677542, 197973383, 1489346745, 2108721271, 3681833555,
          1930589336, 877078208])
     [3133721512, 838516488, 1508132650, 259401779, 969694478, 2902304170, 1758658444,
      1381789308] =
     [1733182775, 1900308316, 877964160, 1124622533, 2262324641, 3120899093, 1252730818,
      3666097859]"
  by (simp add: add32_def rotr_def bsig0_def bsig1_def Ch_def Maj_def Let_def)

lemma sha256_1tx1_compress:
  "compress H256
     [829716529, 2147483648, 0, 0, 0, 0, 0, 0, 0, 0, 0, 0, 0, 0, 0, 32] =
     [3512216478, 749475297, 1891868402, 3898103295, 3622217760, 1426754721, 1781465453,
      912589788]"
proof -
  have "zip K256
      ([829716529, 2147483648, 0, 0, 0, 0, 0, 0, 0, 0, 0, 0, 0, 0, 0, 32, 1114937393, 2148794368,
      3742241874, 2149602568, 3365205987, 537221121, 3846158469, 1232948613, 2877227478,
      4000212756, 3776689176, 3353897286, 3434906180, 519698840, 1524571762, 3158171518,
      2932300093, 4042957927, 47168264, 920343885, 1656065532, 875819780, 1773316582,
      4169198603, 1277388601, 501235508, 2256731313, 4089038568, 1885639668, 2360670365,
      3424200949, 2762584013, 4142288944, 1481791078, 580055008, 2702614272, 194923715,
      137479946, 842743643, 1839201995, 17494036, 235677542, 197973383, 1489346745, 2108721271,
      3681833555, 1930589336, 877078208] :: nat list) =
       zip [1116352408, 1899447441, 3049323471, 3921009573, 961987163, 1508970993, 2453635748,
           2870763221, 3624381080, 310598401, 607225278, 1426881987, 1925078388, 2162078206,
           2614888103, 3248222580]
           [829716529, 2147483648, 0, 0, 0, 0, 0, 0, 0, 0, 0, 0, 0, 0, 0, 32] @
       zip [3835390401, 4022224774, 264347078, 604807628, 770255983, 1249150122, 1555081692,
           1996064986, 2554220882, 2821834349, 2952996808, 3210313671, 3336571891, 3584528711,
           113926993, 338241895]
           [1114937393, 2148794368, 3742241874, 2149602568, 3365205987, 537221121, 3846158469,
           1232948613, 2877227478, 4000212756, 3776689176, 3353897286, 3434906180, 519698840,
           1524571762, 3158171518] @
       zip [666307205, 773529912, 1294757372, 1396182291, 1695183700, 1986661051, 2177026350,
           2456956037, 2730485921, 2820302411, 3259730800, 3345764771, 3516065817, 3600352804,
           4094571909, 275423344]
           [2932300093, 4042957927, 47168264, 920343885, 1656065532, 875819780, 1773316582,
           4169198603, 1277388601, 501235508, 2256731313, 4089038568, 1885639668, 2360670365,
           3424200949, 2762584013] @
       zip [430227734, 506948616, 659060556, 883997877, 958139571, 1322822218, 1537002063,
           1747873779, 1955562222, 2024104815, 2227730452, 2361852424, 2428436474, 2756734187,
           3204031479, 3329325298]
           [4142288944, 1481791078, 580055008, 2702614272, 194923715, 137479946, 842743643,
           1839201995, 17494036, 235677542, 197973383, 1489346745, 2108721271, 3681833555,
           1930589336, 877078208]"
    by (simp add: K256_def)
  then have "fold round
      (zip K256
        [829716529, 2147483648, 0, 0, 0, 0, 0, 0, 0, 0, 0, 0, 0, 0, 0, 32, 1114937393,
        2148794368, 3742241874, 2149602568, 3365205987, 537221121, 3846158469, 1232948613,
        2877227478, 4000212756, 3776689176, 3353897286, 3434906180, 519698840, 1524571762,
        3158171518, 2932300093, 4042957927, 47168264, 920343885, 1656065532, 875819780,
        1773316582, 4169198603, 1277388601, 501235508, 2256731313, 4089038568, 1885639668,
        2360670365, 3424200949, 2762584013, 4142288944, 1481791078, 580055008, 2702614272,
        194923715, 137479946, 842743643, 1839201995, 17494036, 235677542, 197973383, 1489346745,
        2108721271, 3681833555, 1930589336, 877078208])
      H256 =
      [1733182775, 1900308316, 877964160, 1124622533, 2262324641, 3120899093, 1252730818,
      3666097859]"
    by (simp only: fold_append o_apply H256_def
        sha256_1tx1_rounds_0 sha256_1tx1_rounds_16 sha256_1tx1_rounds_32 sha256_1tx1_rounds_48)
  then show ?thesis
    by (simp add: compress_def sha256_1tx1_schedule) (simp add: H256_def add32_def)
qed

lemma sha256_1tx1:
  "sha256 ''1tx1'' = ''d1582b9e2cac15e170c39ef2e85855ffd7e6a820550a8ca16a2f016d366503dc''"
proof -
  have "chunks (length ([829716529, 2147483648, 0, 0, 0, 0, 0, 0, 0, 0, 0, 0, 0, 0, 0, 32] :: nat list) div 16)
      [829716529, 2147483648, 0, 0, 0, 0, 0, 0, 0, 0, 0, 0, 0, 0, 0, 32] =
      [[829716529, 2147483648, 0, 0, 0, 0, 0, 0, 0, 0, 0, 0, 0, 0, 0, 32]]"
    by simp
  then show ?thesis
    unfolding sha256_def sha256_1tx1_words Let_def
    by (simp add: sha256_1tx1_compress hex32_def hexdigit_def)
qed

lemma sha256_2tx2_words:
  "words (pad (map of_char ''2tx2'')) =
     [846493746, 2147483648, 0, 0, 0, 0, 0, 0, 0, 0, 0, 0, 0, 0, 0, 32]"
  by (simp add: pad_def be64_def replicate_numeral)

lemma sha256_2tx2_schedule:
  "schedule 64
     [846493746, 2147483648, 0, 0, 0, 0, 0, 0, 0, 0, 0, 0, 0, 0, 0, 32] =
     [846493746, 2147483648, 0, 0, 0, 0, 0, 0, 0, 0, 0, 0, 0, 0, 0, 32, 1131714610, 2148794368,
      3742348530, 2149602568, 751892363, 537221121, 1698678767, 1249725830, 2603028937,
      4000393236, 3944451131, 3724832327, 3617957390, 538729928, 4067993049, 2338394094,
      2303959461, 616249102, 1981722279, 2203543367, 533270891, 2508210223, 4059740138,
      1076433502, 1261346324, 2579527017, 2604322156, 2699385307, 798273931, 2666744920,
      2434928773, 1482833817, 1118298848, 61200698, 1795042420, 2621651359, 4026225491,
      2292424199, 4268248254, 3324555029, 1545443951, 3223486160, 2870399911, 1093833327,
      3720076702, 1441595306, 2733732043, 3307116716]"
  by (simp add: schedule_numeral add32_def rotr_def shr_def ssig0_def ssig1_def)

lemma sha256_2tx2_rounds_0:
  "fold round
     (zip [1116352408, 1899447441, 3049323471, 3921009573, 961987163, 1508970993, 2453635748,
          2870763221, 3624381080, 310598401, 607225278, 1426881987, 1925078388, 2162078206,
          2614888103, 3248222580]
          [846493746, 2147483648, 0, 0, 0, 0, 0, 0, 0, 0, 0, 0, 0, 0, 0, 32])
     [1779033703, 3144134277, 1013904242, 2773480762, 1359893119, 2600822924, 528734635,
      1541459225] =
     [1482807965, 2810717321, 2589479672, 3528959095, 2655307936, 1759100705, 2815770795,
      1383826830]"
  by (simp add: add32_def rotr_def bsig0_def bsig1_def Ch_def Maj_def Let_def)

lemma sha256_2tx2_rounds_16:
  "fold round
     (zip [3835390401, 4022224774, 264347078, 604807628, 770255983, 1249150122, 1555081692,
          1996064986, 2554220882, 2821834349, 2952996808, 3210313671, 3336571891, 3584528711,
          113926993, 338241895]
          [1131714610, 2148794368, 3742348530, 2149602568, 751892363, 537221121, 1698678767,
          1249725830, 2603028937, 4000393236, 3944451131, 3724832327, 3617957390, 538729928,
          4067993049, 2338394094])
     [1482807965, 2810717321, 2589479672, 3528959095, 2655307936, 1759100705, 2815770795,
      1383826830] =
     [1235056550, 611290406, 2059760746, 3112105298, 2215353421, 1994282555, 1198789982,
      1141021598]"
  by (simp add: add32_def rotr_def bsig0_def bsig1_def Ch_def Maj_def Let_def)

lemma sha256_2tx2_rounds_32:
  "fold round
     (zip [666307205, 773529912, 1294757372, 1396182291, 1695183700, 1986661051, 2177026350,
          2456956037, 2730485921, 2820302411, 3259730800, 3345764771, 3516065817, 3600352804,
          4094571909, 275423344]
          [2303959461, 616249102, 1981722279, 2203543367, 533270891, 2508210223, 4059740138,
          1076433502, 1261346324, 2579527017, 2604322156, 2699385307, 798273931, 2666744920,
          2434928773, 1482833817])
     [1235056550, 611290406, 2059760746, 3112105298, 2215353421, 1994282555, 1198789982,
      1141021598] =
     [1374630545, 3756186488, 536823086, 1062340216, 2145028463, 3077262914, 1326661715,
      3376955690]"
  by (simp add: add32_def rotr_def bsig0_def bsig1_def Ch_def Maj_def Let_def)

lemma sha256_2tx2_rounds_48:
  "fold round
     (zip [430227734, 506948616, 659060556, 883997877, 958139571, 1322822218, 1537002063,
          1747873779, 1955562222, 2024104815, 2227730452, 2361852424, 2428436474, 2756734187,
          3204031479, 3329325298]
          [1118298848, 61200698, 1795042420, 2621651359, 4026225491, 2292424199, 4268248254,
          3324555029, 1545443951, 3223486160, 2870399911, 1093833327, 3720076702, 1441595306,
          2733732043, 3307116716])
     [1374630545, 3756186488, 536823086, 1062340216, 2145028463, 3077262914, 1326661715,
      3376955690] =
     [1516648100, 1107938140, 2667528311, 2727793118, 1790332719, 4151154753, 4273471718,
      1297088140]"
  by (simp add: add32_def rotr_def bsig0_def bsig1_def Ch_def Maj_def Let_def)

lemma sha256_2tx2_compress:
  "compress H256
     [846493746, 2147483648, 0, 0, 0, 0, 0, 0, 0, 0, 0, 0, 0, 0, 0, 32] =
     [3295681803, 4252072417, 3681432553, 1206306584, 3150225838, 2457010381, 507239057,
      2838547365]"
proof -
  have "zip K256
      ([846493746, 2147483648, 0, 0, 0, 0, 0, 0, 0, 0, 0, 0, 0, 0, 0, 32, 1131714610, 2148794368,
      3742348530, 2149602568, 751892363, 537221121, 1698678767, 1249725830, 2603028937,
      4000393236, 3944451131, 3724832327, 3617957390, 538729928, 4067993049, 2338394094,
      2303959461, 616249102, 1981722279, 2203543367, 533270891, 2508210223, 4059740138,
      1076433502, 1261346324, 2579527017, 2604322156, 2699385307, 798273931, 2666744920,
      2434928773, 1482833817, 1118298848, 61200698, 1795042420, 2621651359, 4026225491,
      2292424199, 4268248254, 3324555029, 1545443951, 3223486160, 2870399911, 1093833327,
      3720076702, 1441595306, 2733732043, 3307116716] :: nat list) =
       zip [1116352408, 1899447441, 3049323471, 3921009573, 961987163, 1508970993, 2453635748,
           2870763221, 3624381080, 310598401, 607225278, 1426881987, 1925078388, 2162078206,
           2614888103, 3248222580]
           [846493746, 2147483648, 0, 0, 0, 0, 0, 0, 0, 0, 0, 0, 0, 0, 0, 32] @
       zip [3835390401, 4022224774, 264347078, 604807628, 770255983, 1249150122, 1555081692,
           1996064986, 2554220882, 2821834349, 2952996808, 3210313671, 3336571891, 3584528711,
           113926993, 338241895]
           [1131714610, 2148794368, 3742348530, 2149602568, 751892363, 537221121, 1698678767,
           1249725830, 2603028937, 4000393236, 3944451131, 3724832327, 3617957390, 538729928,
           4067993049, 2338394094] @
       zip [666307205, 773529912, 1294757372, 1396182291, 1695183700, 1986661051, 2177026350,
           2456956037, 2730485921, 2820302411, 3259730800, 3345764771, 3516065817, 3600352804,
           4094571909, 275423344]
           [2303959461, 616249102, 1981722279, 2203543367, 533270891, 2508210223, 4059740138,
           1076433502, 1261346324, 2579527017, 2604322156, 2699385307, 798273931, 2666744920,
           2434928773, 1482833817] @
       zip [430227734, 506948616, 659060556, 883997877, 958139571, 1322822218, 1537002063,
           1747873779, 1955562222, 2024104815, 2227730452, 2361852424, 2428436474, 2756734187,
           3204031479, 3329325298]
           [1118298848, 61200698, 1795042420, 2621651359, 4026225491, 2292424199, 4268248254,
           3324555029, 1545443951, 3223486160, 2870399911, 1093833327, 3720076702, 1441595306,
           2733732043, 3307116716]"
    by (simp add: K256_def)
  then have "fold round
      (zip K256
        [846493746, 2147483648, 0, 0, 0, 0, 0, 0, 0, 0, 0, 0, 0, 0, 0, 32, 1131714610,
        2148794368, 3742348530, 2149602568, 751892363, 537221121, 1698678767, 1249725830,
        2603028937, 4000393236, 3944451131, 3724832327, 3617957390, 538729928, 4067993049,
        2338394094, 2303959461, 616249102, 1981722279, 2203543367, 533270891, 2508210223,
        4059740138, 1076433502, 1261346324, 2579527017, 2604322156, 2699385307, 798273931,
        2666744920, 2434928773, 1482833817, 1118298848, 61200698, 1795042420, 2621651359,
        4026225491, 2292424199, 4268248254, 3324555029, 1545443951, 3223486160, 2870399911,
        1093833327, 3720076702, 1441595306, 2733732043, 3307116716])
      H256 =
      [1516648100, 1107938140, 2667528311, 2727793118, 1790332719, 4151154753, 4273471718,
      1297088140]"
    by (simp only: fold_append o_apply H256_def
        sha256_2tx2_rounds_0 sha256_2tx2_rounds_16 sha256_2tx2_rounds_32 sha256_2tx2_rounds_48)
  then show ?thesis
    by (simp add: compress_def sha256_2tx2_schedule) (simp add: H256_def add32_def)
qed

lemma sha256_2tx2:
  "sha256 ''2tx2'' = ''c4701d0bfd7179e1db6e33e947e6c718bbc4a1ae927300cd1e3bda91a930cba5''"
proof -
  have "chunks (length ([846493746, 2147483648, 0, 0, 0, 0, 0, 0, 0, 0, 0, 0, 0, 0, 0, 32] :: nat list) div 16)
      [846493746, 2147483648, 0, 0, 0, 0, 0, 0, 0, 0, 0, 0, 0, 0, 0, 32] =
      [[846493746, 2147483648, 0, 0, 0, 0, 0, 0, 0, 0, 0, 0, 0, 0, 0, 32]]"
    by simp
  then show ?thesis
    unfolding sha256_def sha256_2tx2_words Let_def
    by (simp add: sha256_2tx2_compress hex32_def hexdigit_def)
qed

lemma sha256_2tx2tx3_words:
  "words (pad (map of_char ''2tx2tx3'')) =
     [846493746, 1954034560, 0, 0, 0, 0, 0, 0, 0, 0, 0, 0, 0, 0, 0, 56]"
  by (simp add: pad_def be64_def replicate_numeral)

lemma sha256_2tx2tx3_schedule:
  "schedule 64
     [846493746, 1954034560, 0, 0, 0, 0, 0, 0, 0, 0, 0, 0, 0, 0, 0, 56] =
     [846493746, 1954034560, 0, 0, 0, 0, 0, 0, 0, 0, 0, 0, 0, 0, 0, 56, 888955707, 1955804032,
      3187131385, 4289531927, 430740661, 708242279, 3637134590, 3721552162, 3748247917,
      981075396, 3948518990, 1543543208, 655059463, 952134308, 640358119, 2141920933, 465093447,
      1623344442, 131393029, 3708179674, 3019657145, 2830819624, 3435516871, 3559860192,
      2719934306, 2696323399, 4113005347, 1691264412, 2018483401, 2602289469, 3135318419,
      2096852259, 1474022161, 1686709391, 1154446584, 2199620566, 2685810146, 4215153845,
      956027430, 1809631751, 3439870670, 1768301249, 1049122041, 1423101512, 781452401,
      2371664252, 1000951667, 4031171358]"
  by (simp add: schedule_numeral add32_def rotr_def shr_def ssig0_def ssig1_def)

lemma sha256_2tx2tx3_rounds_0:
  "fold round
     (zip [1116352408, 1899447441, 3049323471, 3921009573, 961987163, 1508970993, 2453635748,
          2870763221, 3624381080, 310598401, 607225278, 1426881987, 1925078388, 2162078206,
          2614888103, 3248222580]
          [846493746, 1954034560, 0, 0, 0, 0, 0, 0, 0, 0, 0, 0, 0, 0, 0, 56])
     [1779033703, 3144134277, 1013904242, 2773480762, 1359893119, 2600822924, 528734635,
      1541459225] =
     [4235712571, 1925861953, 170919791, 297142604, 1440309502, 1789680021, 2364433307,
      1179540484]"
  by (simp add: add32_def rotr_def bsig0_def bsig1_def Ch_def Maj_def Let_def)

lemma sha256_2tx2tx3_rounds_16:
  "fold round
     (zip [3835390401, 4022224774, 264347078, 604807628, 770255983, 1249150122, 1555081692,
          1996064986, 2554220882, 2821834349, 2952996808, 3210313671, 3336571891, 3584528711,
          113926993, 338241895]
          [888955707, 1955804032, 3187131385, 4289531927, 430740661, 708242279, 3637134590,
          3721552162, 3748247917, 981075396, 3948518990, 1543543208, 655059463, 952134308,
          640358119, 2141920933])
     [4235712571, 1925861953, 170919791, 297142604, 1440309502, 1789680021, 2364433307,
      1179540484] =
     [1674879374, 3975901156, 4198425091, 2082736548, 1381756267, 30153983, 3442798090,
      1165136074]"
  by (simp add: add32_def rotr_def bsig0_def bsig1_def Ch_def Maj_def Let_def)

lemma sha256_2tx2tx3_rounds_32:
  "fold round
     (zip [666307205, 773529912, 1294757372, 1396182291, 1695183700, 1986661051, 2177026350,
          2456956037, 2730485921, 2820302411, 3259730800, 3345764771, 3516065817, 3600352804,
          4094571909, 275423344]
          [465093447, 1623344442, 131393029, 3708179674, 3019657145, 2830819624, 3435516871,
          3559860192, 2719934306, 2696323399, 4113005347, 1691264412, 2018483401, 2602289469,
          3135318419, 2096852259])
     [1674879374, 3975901156, 4198425091, 2082736548, 1381756267, 30153983, 3442798090,
      1165136074] =
     [3029424320, 3021111974, 1678996784, 3640684811, 1400787333, 4133164062, 1517164063,
      1910551806]"
  by (simp add: add32_def rotr_def bsig0_def bsig1_def Ch_def Maj_def Let_def)

lemma sha256_2tx2tx3_rounds_48:
  "fold round
     (zip [430227734, 506948616, 659060556, 883997877, 958139571, 1322822218, 1537002063,
          1747873779, 1955562222, 2024104815, 2227730452, 2361852424, 2428436474, 2756734187,
          3204031479, 3329325298]
          [1474022161, 1686709391, 1154446584, 2199620566, 2685810146, 4215153845, 956027430,
          1809631751, 3439870670, 1768301249, 1049122041, 1423101512, 781452401, 2371664252,
          1000951667, 4031171358])
     [3029424320, 3021111974, 1678996784, 3640684811, 1400787333, 4133164062, 1517164063,
      1910551806] =
     [4150218406, 993001015, 1234420886, 1080044620, 2279429084, 3953942271, 3176995978,
      2480640679]"
  by (simp add: add32_def rotr_def bsig0_def bsig1_def Ch_def Maj_def Let_def)

lemma sha256_2tx2tx3_compress:
  "compress H256
     [846493746, 1954034560, 0, 0, 0, 0, 0, 0, 0, 0, 0, 0, 0, 0, 0, 56] =
     [1634284813, 4137135292, 2248325128, 3853525382, 3639322203, 2259797899, 3705730613,
      4022099904]"
proof -
  have "zip K256
      ([846493746, 1954034560, 0, 0, 0, 0, 0, 0, 0, 0, 0, 0, 0, 0, 0, 56, 888955707, 1955804032,
      3187131385, 4289531927, 430740661, 708242279, 3637134590, 3721552162, 3748247917,
      981075396, 3948518990, 1543543208, 655059463, 952134308, 640358119, 2141920933, 465093447,
      1623344442, 131393029, 3708179674, 3019657145, 2830819624, 3435516871, 3559860192,
      2719934306, 2696323399, 4113005347, 1691264412, 2018483401, 2602289469, 3135318419,
      2096852259, 1474022161, 1686709391, 1154446584, 2199620566, 2685810146, 4215153845,
      956027430, 1809631751, 3439870670, 1768301249, 1049122041, 1423101512, 781452401,
      2371664252, 1000951667, 4031171358] :: nat list) =
       zip [1116352408, 1899447441, 3049323471, 3921009573, 961987163, 1508970993, 2453635748,
           2870763221, 3624381080, 310598401, 607225278, 1426881987, 1925078388, 2162078206,
           2614888103, 3248222580]
           [846493746, 1954034560, 0, 0, 0, 0, 0, 0, 0, 0, 0, 0, 0, 0, 0, 56] @
       zip [3835390401, 4022224774, 264347078, 604807628, 770255983, 1249150122, 1555081692,
           1996064986, 2554220882, 2821834349, 2952996808, 3210313671, 3336571891, 3584528711,
           113926993, 338241895]
           [888955707, 1955804032, 3187131385, 4289531927, 430740661, 708242279, 3637134590,
           3721552162, 3748247917, 981075396, 3948518990, 1543543208, 655059463, 952134308,
           640358119, 2141920933] @
       zip [666307205, 773529912, 1294757372, 1396182291, 1695183700, 1986661051, 2177026350,
           2456956037, 2730485921, 2820302411, 3259730800, 3345764771, 3516065817, 3600352804,
           4094571909, 275423344]
           [465093447, 1623344442, 131393029, 3708179674, 3019657145, 2830819624, 3435516871,
           3559860192, 2719934306, 2696323399, 4113005347, 1691264412, 2018483401, 2602289469,
           3135318419, 2096852259] @
       zip [430227734, 506948616, 659060556, 883997877, 958139571, 1322822218, 1537002063,
           1747873779, 1955562222, 2024104815, 2227730452, 2361852424, 2428436474, 2756734187,
           3204031479, 3329325298]
           [1474022161, 1686709391, 1154446584, 2199620566, 2685810146, 4215153845, 956027430,
           1809631751, 3439870670, 1768301249, 1049122041, 1423101512, 781452401, 2371664252,
           1000951667, 4031171358]"
    by (simp add: K256_def)
  then have "fold round
      (zip K256
        [846493746, 1954034560, 0, 0, 0, 0, 0, 0, 0, 0, 0, 0, 0, 0, 0, 56, 888955707,
        1955804032, 3187131385, 4289531927, 430740661, 708242279, 3637134590, 3721552162,
        3748247917, 981075396, 3948518990, 1543543208, 655059463, 952134308, 640358119,
        2141920933, 465093447, 1623344442, 131393029, 3708179674, 3019657145, 2830819624,
        3435516871, 3559860192, 2719934306, 2696323399, 4113005347, 1691264412, 2018483401,
        2602289469, 3135318419, 2096852259, 1474022161, 1686709391, 1154446584, 2199620566,
        2685810146, 4215153845, 956027430, 1809631751, 3439870670, 1768301249, 1049122041,
        1423101512, 781452401, 2371664252, 1000951667, 4031171358])
      H256 =
      [4150218406, 993001015, 1234420886, 1080044620, 2279429084, 3953942271, 3176995978,
      2480640679]"
    by (simp only: fold_append o_apply H256_def
        sha256_2tx2tx3_rounds_0 sha256_2tx2tx3_rounds_16 sha256_2tx2tx3_rounds_32 sha256_2tx2tx3_rounds_48)
  then show ?thesis
    by (simp add: compress_def sha256_2tx2tx3_schedule) (simp add: H256_def add32_def)
qed

lemma sha256_2tx2tx3:
  "sha256 ''2tx2tx3'' = ''6169350df697acbc8602b808e5b02186d8eba65b86b1c78bdce0f635efbc5fc0''"
proof -
  have "chunks (length ([846493746, 1954034560, 0, 0, 0, 0, 0, 0, 0, 0, 0, 0, 0, 0, 0, 56] :: nat list) div 16)
      [846493746, 1954034560, 0, 0, 0, 0, 0, 0, 0, 0, 0, 0, 0, 0, 0, 56] =
      [[846493746, 1954034560, 0, 0, 0, 0, 0, 0, 0, 0, 0, 0, 0, 0, 0, 56]]"
    by simp
  then show ?thesis
    unfolding sha256_def sha256_2tx2tx3_words Let_def
    by (simp add: sha256_2tx2tx3_compress hex32_def hexdigit_def)
qed

lemma sha256_2tx1_words:
  "words (pad (map of_char ''2tx1'')) =
     [846493745, 2147483648, 0, 0, 0, 0, 0, 0, 0, 0, 0, 0, 0, 0, 0, 32]"
  by (simp add: pad_def be64_def replicate_numeral)

lemma sha256_2tx1_schedule:
  "schedule 64
     [846493745, 2147483648, 0, 0, 0, 0, 0, 0, 0, 0, 0, 0, 0, 0, 0, 32] =
     [846493745, 2147483648, 0, 0, 0, 0, 0, 0, 0, 0, 0, 0, 0, 0, 0, 32, 1131714609, 2148794368,
      3742258418, 2149602568, 3771791347, 537221121, 1698674799, 1249725829, 2872512982,
      4000245780, 3944456769, 2315544883, 3310839303, 517795271, 3933707617, 3816298607,
      2148294108, 3851802634, 583990072, 1658604866, 4074927595, 4127527098, 233181762,
      1900443323, 3930809332, 2096735276, 2546913708, 840245761, 616203583, 2614206484,
      866220138, 1885887072, 263578582, 1855397895, 1044705810, 1349732544, 2767910284,
      4165621022, 2282881900, 225430645, 3645517433, 3669194124, 2276352500, 2263047906,
      1815266509, 1954164751, 1416307695, 2095720295]"
  by (simp add: schedule_numeral add32_def rotr_def shr_def ssig0_def ssig1_def)

lemma sha256_2tx1_rounds_0:
  "fold round
     (zip [1116352408, 1899447441, 3049323471, 3921009573, 961987163, 1508970993, 2453635748,
          2870763221, 3624381080, 310598401, 607225278, 1426881987, 1925078388, 2162078206,
          2614888103, 3248222580]
          [846493745, 2147483648, 0, 0, 0, 0, 0, 0, 0, 0, 0, 0, 0, 0, 0, 32])
     [1779033703, 3144134277, 1013904242, 2773480762, 1359893119, 2600822924, 528734635,
      1541459225] =
     [768272046, 1122973058, 3517631941, 1482787601, 1651188821, 1454496582, 463743653,
      3527290291]"
  by (simp add: add32_def rotr_def bsig0_def bsig1_def Ch_def Maj_def Let_def)

lemma sha256_2tx1_rounds_16:
  "fold round
     (zip [3835390401, 4022224774, 264347078, 604807628, 770255983, 1249150122, 1555081692,
          1996064986, 2554220882, 2821834349, 2952996808, 3210313671, 3336571891, 3584528711,
          113926993, 338241895]
          [1131714609, 2148794368, 3742258418, 2149602568, 3771791347, 537221121, 1698674799,
          1249725829, 2872512982, 4000245780, 3944456769, 2315544883, 3310839303, 517795271,
          3933707617, 3816298607])
     [768272046, 1122973058, 3517631941, 1482787601, 1651188821, 1454496582, 463743653,
      3527290291] =
     [959222557, 1802081734, 1503709440, 2669435572, 3890137159, 2962337061, 2780244065,
      1112067241]"
  by (simp add: add32_def rotr_def bsig0_def bsig1_def Ch_def Maj_def Let_def)

lemma sha256_2tx1_rounds_32:
  "fold round
     (zip [666307205, 773529912, 1294757372, 1396182291, 1695183700, 1986661051, 2177026350,
          2456956037, 2730485921, 2820302411, 3259730800, 3345764771, 3516065817, 3600352804,
          4094571909, 275423344]
          [2148294108, 3851802634, 583990072, 1658604866, 4074927595, 4127527098, 233181762,
          1900443323, 3930809332, 2096735276, 2546913708, 840245761, 616203583, 2614206484,
          866220138, 1885887072])
     [959222557, 1802081734, 1503709440, 2669435572, 3890137159, 2962337061, 2780244065,
      1112067241] =
     [981697949, 2094472149, 528212521, 1992661167, 846506536, 3612356275, 1615878979,
      3238147103]"
  by (simp add: add32_def rotr_def bsig0_def bsig1_def Ch_def Maj_def Let_def)

lemma sha256_2tx1_rounds_48:
  "fold round
     (zip [430227734, 506948616, 659060556, 883997877, 958139571, 1322822218, 1537002063,
          1747873779, 1955562222, 2024104815, 2227730452, 2361852424, 2428436474, 2756734187,
          3204031479, 3329325298]
          [263578582, 1855397895, 1044705810, 1349732544, 2767910284, 4165621022, 2282881900,
          225430645, 3645517433, 3669194124, 2276352500, 2263047906, 1815266509, 1954164751,
          1416307695, 2095720295])
     [981697949, 2094472149, 528212521, 1992661167, 846506536, 3612356275, 1615878979,
      3238147103] =
     [1283597972, 1469978545, 2614113605, 451145008, 3293337973, 2361870802, 3344005110,
      3719279737]"
  by (simp add: add32_def rotr_def bsig0_def bsig1_def Ch_def Maj_def Let_def)

lemma sha256_2tx1_compress:
  "compress H256
     [846493745, 2147483648, 0, 0, 0, 0, 0, 0, 0, 0, 0, 0, 0, 0, 0, 32] =
     [3062631675, 319145526, 3628017847, 3224625770, 358263796, 667726430, 3872739745,
      965771666]"
proof -
  have "zip K256
      ([846493745, 2147483648, 0, 0, 0, 0, 0, 0, 0, 0, 0, 0, 0, 0, 0, 32, 1131714609, 2148794368,
      3742258418, 2149602568, 3771791347, 537221121, 1698674799, 1249725829, 2872512982,
      4000245780, 3944456769, 2315544883, 3310839303, 517795271, 3933707617, 3816298607,
      2148294108, 3851802634, 583990072, 1658604866, 4074927595, 4127527098, 233181762,
      1900443323, 3930809332, 2096735276, 2546913708, 840245761, 616203583, 2614206484,
      866220138, 1885887072, 263578582, 1855397895, 1044705810, 1349732544, 2767910284,
      4165621022, 2282881900, 225430645, 3645517433, 3669194124, 2276352500, 2263047906,
      1815266509, 1954164751, 1416307695, 2095720295] :: nat list) =
       zip [1116352408, 1899447441, 3049323471, 3921009573, 961987163, 1508970993, 2453635748,
           2870763221, 3624381080, 310598401, 607225278, 1426881987, 1925078388, 2162078206,
           2614888103, 3248222580]
           [846493745, 2147483648, 0, 0, 0, 0, 0, 0, 0, 0, 0, 0, 0, 0, 0, 32] @
       zip [3835390401, 4022224774, 264347078, 604807628, 770255983, 1249150122, 1555081692,
           1996064986, 2554220882, 2821834349, 2952996808, 3210313671, 3336571891, 3584528711,
           113926993, 338241895]
           [1131714609, 2148794368, 3742258418, 2149602568, 3771791347, 537221121, 1698674799,
           1249725829, 2872512982, 4000245780, 3944456769, 2315544883, 3310839303, 517795271,
           3933707617, 3816298607] @
       zip [666307205, 773529912, 1294757372, 1396182291, 1695183700, 1986661051, 2177026350,
           2456956037, 2730485921, 2820302411, 3259730800, 3345764771, 3516065817, 3600352804,
           4094571909, 275423344]
           [2148294108, 3851802634, 583990072, 1658604866, 4074927595, 4127527098, 233181762,
           1900443323, 3930809332, 2096735276, 2546913708, 840245761, 616203583, 2614206484,
           866220138, 1885887072] @
       zip [430227734, 506948616, 659060556, 883997877, 958139571, 1322822218, 1537002063,
           1747873779, 1955562222, 2024104815, 2227730452, 2361852424, 2428436474, 2756734187,
           3204031479, 3329325298]
           [263578582, 1855397895, 1044705810, 1349732544, 2767910284, 4165621022, 2282881900,
           225430645, 3645517433, 3669194124, 2276352500, 2263047906, 1815266509, 1954164751,
           1416307695, 2095720295]"
    by (simp add: K256_def)
  then have "fold round
      (zip K256
        [846493745, 2147483648, 0, 0, 0, 0, 0, 0, 0, 0, 0, 0, 0, 0, 0, 32, 1131714609,
        2148794368, 3742258418, 2149602568, 3771791347, 537221121, 1698674799, 1249725829,
        2872512982, 4000245780, 3944456769, 2315544883, 3310839303, 517795271, 3933707617,
        3816298607, 2148294108, 3851802634, 583990072, 1658604866, 4074927595, 4127527098,
        233181762, 1900443323, 3930809332, 2096735276, 2546913708, 840245761, 616203583,
        2614206484, 866220138, 1885887072, 263578582, 1855397895, 1044705810, 1349732544,
        2767910284, 4165621022, 2282881900, 225430645, 3645517433, 3669194124, 2276352500,
        2263047906, 1815266509, 1954164751, 1416307695, 2095720295])
      H256 =
      [1283597972, 1469978545, 2614113605, 451145008, 3293337973, 2361870802, 3344005110,
      3719279737]"
    by (simp only: fold_append o_apply H256_def
        sha256_2tx1_rounds_0 sha256_2tx1_rounds_16 sha256_2tx1_rounds_32 sha256_2tx1_rounds_48)
  then show ?thesis
    by (simp add: compress_def sha256_2tx1_schedule) (simp add: H256_def add32_def)
qed

lemma sha256_2tx1:
  "sha256 ''2tx1'' = ''b68c0cfb1305c636d83f28b7c033e26a155aabf427ccb25ee6d551a139908192''"
proof -
  have "chunks (length ([846493745, 2147483648, 0, 0, 0, 0, 0, 0, 0, 0, 0, 0, 0, 0, 0, 32] :: nat list) div 16)
      [846493745, 2147483648, 0, 0, 0, 0, 0, 0, 0, 0, 0, 0, 0, 0, 0, 32] =
      [[846493745, 2147483648, 0, 0, 0, 0, 0, 0, 0, 0, 0, 0, 0, 0, 0, 32]]"
    by simp
  then show ?thesis
    unfolding sha256_def sha256_2tx1_words Let_def
    by (simp add: sha256_2tx1_compress hex32_def hexdigit_def)
qed

lemma sha256_10_words:
  "words (pad (map of_char ''10'')) =
     [825262080, 0, 0, 0, 0, 0, 0, 0, 0, 0, 0, 0, 0, 0, 0, 16]"
  by (simp add: pad_def be64_def replicate_numeral)

lemma sha256_10_schedule:
  "schedule 64
     [825262080, 0, 0, 0, 0, 0, 0, 0, 0, 0, 0, 0, 0, 0, 0, 16] =
     [825262080, 0, 0, 0, 0, 0, 0, 0, 0, 0, 0, 0, 0, 0, 0, 16, 825262080, 655360, 1342984862,
      1073742468, 2735268115, 16951296, 1820551149, 842055691, 3743038216, 3356804620,
      2597500260, 2667501900, 221975198, 606849795, 1028934155, 2722608326, 630343200,
      3921006815, 1527361321, 2867683036, 1404977332, 1370005145, 390340088, 955134914,
      2267572092, 2045553549, 3252760268, 2894141977, 25237946, 3978795793, 2590666723,
      1035142207, 4034675303, 3226174930, 2894937664, 1372537819, 2564379361, 726519263,
      3885924222, 2029885392, 1997162574, 1771228621, 3778213108, 3070069670, 711347896,
      2563886347, 3131857794, 1429628005]"
  by (simp add: schedule_numeral add32_def rotr_def shr_def ssig0_def ssig1_def)

lemma sha256_10_rounds_0:
  "fold round
     (zip [1116352408, 1899447441, 3049323471, 3921009573, 961987163, 1508970993, 2453635748,
          2870763221, 3624381080, 310598401, 607225278, 1426881987, 1925078388, 2162078206,
          2614888103, 3248222580]
          [825262080, 0, 0, 0, 0, 0, 0, 0, 0, 0, 0, 0, 0, 0, 0, 16])
     [1779033703, 3144134277, 1013904242, 2773480762, 1359893119, 2600822924, 528734635,
      1541459225] =
     [1910337092, 1538349114, 981353206, 3783596742, 718564501, 3907318309, 2045201546,
      1127869595]"
  by (simp add: add32_def rotr_def bsig0_def bsig1_def Ch_def Maj_def Let_def)

lemma sha256_10_rounds_16:
  "fold round
     (zip [3835390401, 4022224774, 264347078, 604807628, 770255983, 1249150122, 1555081692,
          1996064986, 2554220882, 2821834349, 2952996808, 3210313671, 3336571891, 3584528711,
          113926993, 338241895]
          [825262080, 655360, 1342984862, 1073742468, 2735268115, 16951296, 1820551149,
          842055691, 3743038216, 3356804620, 2597500260, 2667501900, 221975198, 606849795,
          1028934155, 2722608326])
     [1910337092, 1538349114, 981353206, 3783596742, 718564501, 3907318309, 2045201546,
      1127869595] =
     [3831365427, 4130775064, 134962350, 3200407188, 392290349, 38857863, 1987705522,
      519877347]"
  by (simp add: add32_def rotr_def bsig0_def bsig1_def Ch_def Maj_def Let_def)

lemma sha256_10_rounds_32:
  "fold round
     (zip [666307205, 773529912, 1294757372, 1396182291, 1695183700, 1986661051, 2177026350,
          2456956037, 2730485921, 2820302411, 3259730800, 3345764771, 3516065817, 3600352804,
          4094571909, 275423344]
          [630343200, 3921006815, 1527361321, 2867683036, 1404977332, 1370005145, 390340088,
          955134914, 2267572092, 2045553549, 3252760268, 2894141977, 25237946, 3978795793,
          2590666723, 1035142207])
     [3831365427, 4130775064, 134962350, 3200407188, 392290349, 38857863, 1987705522,
      519877347] =
     [169973790, 165445331, 1442361672, 1061409751, 2554574207, 2445412773, 177398914,
      2759177125]"
  by (simp add: add32_def rotr_def bsig0_def bsig1_def Ch_def Maj_def Let_def)

lemma sha256_10_rounds_48:
  "fold round
     (zip [430227734, 506948616, 659060556, 883997877, 958139571, 1322822218, 1537002063,
          1747873779, 1955562222, 2024104815, 2227730452, 2361852424, 2428436474, 2756734187,
          3204031479, 3329325298]
          [4034675303, 3226174930, 2894937664, 1372537819, 2564379361, 726519263, 3885924222,
          2029885392, 1997162574, 1771228621, 3778213108, 3070069670, 711347896, 2563886347,
          3131857794, 1429628005])
     [169973790, 165445331, 1442361672, 1061409751, 2554574207, 2445412773, 177398914,
      2759177125] =
     [3761960366, 2061129251, 3547929374, 2482333575, 259272451, 1960659395, 4274936322,
      2328776892]"
  by (simp add: add32_def rotr_def bsig0_def bsig1_def Ch_def Maj_def Let_def)

lemma sha256_10_compress:
  "compress H256
     [825262080, 0, 0, 0, 0, 0, 0, 0, 0, 0, 0, 0, 0, 0, 0, 16] =
     [1246026773, 910296232, 266866320, 960847041, 1619165570, 266515023, 508703661,
      3870236117]"
proof -
  have "zip K256
      ([825262080, 0, 0, 0, 0, 0, 0, 0, 0, 0, 0, 0, 0, 0, 0, 16, 825262080, 655360, 1342984862,
      1073742468, 2735268115, 16951296, 1820551149, 842055691, 3743038216, 3356804620,
      2597500260, 2667501900, 221975198, 606849795, 1028934155, 2722608326, 630343200,
      3921006815, 1527361321, 2867683036, 1404977332, 1370005145, 390340088, 955134914,
      2267572092, 2045553549, 3252760268, 2894141977, 25237946, 3978795793, 2590666723,
      1035142207, 4034675303, 3226174930, 2894937664, 1372537819, 2564379361, 726519263,
      3885924222, 2029885392, 1997162574, 1771228621, 3778213108, 3070069670, 711347896,
      2563886347, 3131857794, 1429628005] :: nat list) =
       zip [1116352408, 1899447441, 3049323471, 3921009573, 961987163, 1508970993, 2453635748,
           2870763221, 3624381080, 310598401, 607225278, 1426881987, 1925078388, 2162078206,
           2614888103, 3248222580]
           [825262080, 0, 0, 0, 0, 0, 0, 0, 0, 0, 0, 0, 0, 0, 0, 16] @
       zip [3835390401, 4022224774, 264347078, 604807628, 770255983, 1249150122, 1555081692,
           1996064986, 2554220882, 2821834349, 2952996808, 3210313671, 3336571891, 3584528711,
           113926993, 338241895]
           [825262080, 655360, 1342984862, 1073742468, 2735268115, 16951296, 1820551149,
           842055691, 3743038216, 3356804620, 2597500260, 2667501900, 221975198, 606849795,
           1028934155, 2722608326] @
       zip [666307205, 773529912, 1294757372, 1396182291, 1695183700, 1986661051, 2177026350,
           2456956037, 2730485921, 2820302411, 3259730800, 3345764771, 3516065817, 3600352804,
           4094571909, 275423344]
           [630343200, 3921006815, 1527361321, 2867683036, 1404977332, 1370005145, 390340088,
           955134914, 2267572092, 2045553549, 3252760268, 2894141977, 25237946, 3978795793,
           2590666723, 1035142207] @
       zip [430227734, 506948616, 659060556, 883997877, 958139571, 1322822218, 1537002063,
           1747873779, 1955562222, 2024104815, 2227730452, 2361852424, 2428436474, 2756734187,
           3204031479, 3329325298]
           [4034675303, 3226174930, 2894937664, 1372537819, 2564379361, 726519263, 3885924222,
           2029885392, 1997162574, 1771228621, 3778213108, 3070069670, 711347896, 2563886347,
           3131857794, 1429628005]"
    by (simp add: K256_def)
  then have "fold round
      (zip K256
        [825262080, 0, 0, 0, 0, 0, 0, 0, 0, 0, 0, 0, 0, 0, 0, 16, 825262080, 655360, 1342984862,
        1073742468, 2735268115, 16951296, 1820551149, 842055691, 3743038216, 3356804620,
        2597500260, 2667501900, 221975198, 606849795, 1028934155, 2722608326, 630343200,
        3921006815, 1527361321, 2867683036, 1404977332, 1370005145, 390340088, 955134914,
        2267572092, 2045553549, 3252760268, 2894141977, 25237946, 3978795793, 2590666723,
        1035142207, 4034675303, 3226174930, 2894937664, 1372537819, 2564379361, 726519263,
        3885924222, 2029885392, 1997162574, 1771228621, 3778213108, 3070069670, 711347896,
        2563886347, 3131857794, 1429628005])
      H256 =
      [3761960366, 2061129251, 3547929374, 2482333575, 259272451, 1960659395, 4274936322,
      2328776892]"
    by (simp only: fold_append o_apply H256_def
        sha256_10_rounds_0 sha256_10_rounds_16 sha256_10_rounds_32 sha256_10_rounds_48)
  then show ?thesis
    by (simp add: compress_def sha256_10_schedule) (simp add: H256_def add32_def)
qed

lemma sha256_10:
  "sha256 ''10'' = ''4a44dc15364204a80fe80e9039455cc1608281820fe2b24f1e5233ade6af1dd5''"
proof -
  have "chunks (length ([825262080, 0, 0, 0, 0, 0, 0, 0, 0, 0, 0, 0, 0, 0, 0, 16] :: nat list) div 16)
      [825262080, 0, 0, 0, 0, 0, 0, 0, 0, 0, 0, 0, 0, 0, 0, 16] =
      [[825262080, 0, 0, 0, 0, 0, 0, 0, 0, 0, 0, 0, 0, 0, 0, 16]]"
    by simp
  then show ?thesis
    unfolding sha256_def sha256_10_words Let_def
    by (simp add: sha256_10_compress hex32_def hexdigit_def)
qed

lemma sha256_2_words:
  "words (pad (map of_char ''2'')) =
     [847249408, 0, 0, 0, 0, 0, 0, 0, 0, 0, 0, 0, 0, 0, 0, 8]"
  by (simp add: pad_def be64_def replicate_numeral)

lemma sha256_2_schedule:
  "schedule 64
     [847249408, 0, 0, 0, 0, 0, 0, 0, 0, 0, 0, 0, 0, 0, 0, 8] =
     [847249408, 0, 0, 0, 0, 0, 0, 0, 0, 0, 0, 0, 0, 0, 0, 8, 847249408, 327680, 835344,
      536871234, 3362390824, 8475648, 1103325120, 3003129861, 3742193664, 339439352, 657963123,
      2735737193, 733974163, 1198819752, 4187176785, 3140705054, 2134425645, 4257516859,
      2604281582, 3944556231, 3078358345, 2195873084, 2485018030, 3820081247, 3945439842,
      2387005811, 3709537165, 3452205617, 221014454, 18208138, 2483764978, 1541683624,
      1359975351, 3166834582, 2143030963, 3274923891, 1027131810, 3021292383, 1167282086,
      2933279152, 3098277053, 3200448361, 2313494912, 2823156357, 1465248506, 3321326119,
      3770324635, 3982806806]"
  by (simp add: schedule_numeral add32_def rotr_def shr_def ssig0_def ssig1_def)

lemma sha256_2_rounds_0:
  "fold round
     (zip [1116352408, 1899447441, 3049323471, 3921009573, 961987163, 1508970993, 2453635748,
          2870763221, 3624381080, 310598401, 607225278, 1426881987, 1925078388, 2162078206,
          2614888103, 3248222580]
          [847249408, 0, 0, 0, 0, 0, 0, 0, 0, 0, 0, 0, 0, 0, 0, 8])
     [1779033703, 3144134277, 1013904242, 2773480762, 1359893119, 2600822924, 528734635,
      1541459225] =
     [3069843239, 204260658, 2425850630, 3176108556, 2274870416, 387996124, 4085870526,
      3711332015]"
  by (simp add: add32_def rotr_def bsig0_def bsig1_def Ch_def Maj_def Let_def)

lemma sha256_2_rounds_16:
  "fold round
     (zip [3835390401, 4022224774, 264347078, 604807628, 770255983, 1249150122, 1555081692,
          1996064986, 2554220882, 2821834349, 2952996808, 3210313671, 3336571891, 3584528711,
          113926993, 338241895]
          [847249408, 327680, 835344, 536871234, 3362390824, 8475648, 1103325120, 3003129861,
          3742193664, 339439352, 657963123, 2735737193, 733974163, 1198819752, 4187176785,
          3140705054])
     [3069843239, 204260658, 2425850630, 3176108556, 2274870416, 387996124, 4085870526,
      3711332015] =
     [845887468, 2667109725, 3139856792, 2404025836, 1691945831, 4245191901, 1810900563,
      2109249590]"
  by (simp add: add32_def rotr_def bsig0_def bsig1_def Ch_def Maj_def Let_def)

lemma sha256_2_rounds_32:
  "fold round
     (zip [666307205, 773529912, 1294757372, 1396182291, 1695183700, 1986661051, 2177026350,
          2456956037, 2730485921, 2820302411, 3259730800, 3345764771, 3516065817, 3600352804,
          4094571909, 275423344]
          [2134425645, 4257516859, 2604281582, 3944556231, 3078358345, 2195873084, 2485018030,
          3820081247, 3945439842, 2387005811, 3709537165, 3452205617, 221014454, 18208138,
          2483764978, 1541683624])
     [845887468, 2667109725, 3139856792, 2404025836, 1691945831, 4245191901, 1810900563,
      2109249590] =
     [2077501360, 387574940, 2213827617, 567607272, 1232593101, 28752118, 814711924,
      3487606460]"
  by (simp add: add32_def rotr_def bsig0_def bsig1_def Ch_def Maj_def Let_def)

lemma sha256_2_rounds_48:
  "fold round
     (zip [430227734, 506948616, 659060556, 883997877, 958139571, 1322822218, 1537002063,
          1747873779, 1955562222, 2024104815, 2227730452, 2361852424, 2428436474, 2756734187,
          3204031479, 3329325298]
          [1359975351, 3166834582, 2143030963, 3274923891, 1027131810, 3021292383, 1167282086,
          2933279152, 3098277053, 3200448361, 2313494912, 2823156357, 1465248506, 3321326119,
          3770324635, 3982806806])
     [2077501360, 387574940, 2213827617, 567607272, 1232593101, 28752118, 814711924,
      3487606460] =
     [1785296851, 1794533481, 2748343807, 3863701449, 2962077017, 465549060, 3132525763,
      2419252764]"
  by (simp add: add32_def rotr_def bsig0_def bsig1_def Ch_def Maj_def Let_def)

lemma sha256_2_compress:
  "compress H256
     [847249408, 0, 0, 0, 0, 0, 0, 0, 0, 0, 0, 0, 0, 0, 0, 8] =
     [3564330554, 643700462, 3762248049, 2342214915, 27002840, 3066371984, 3661260398,
      3960711989]"
proof -
  have "zip K256
      ([847249408, 0, 0, 0, 0, 0, 0, 0, 0, 0, 0, 0, 0, 0, 0, 8, 847249408, 327680, 835344,
      536871234, 3362390824, 8475648, 1103325120, 3003129861, 3742193664, 339439352, 657963123,
      2735737193, 733974163, 1198819752, 4187176785, 3140705054, 2134425645, 4257516859,
      2604281582, 3944556231, 3078358345, 2195873084, 2485018030, 3820081247, 3945439842,
      2387005811, 3709537165, 3452205617, 221014454, 18208138, 2483764978, 1541683624,
      1359975351, 3166834582, 2143030963, 3274923891, 1027131810, 3021292383, 1167282086,
      2933279152, 3098277053, 3200448361, 2313494912, 2823156357, 1465248506, 3321326119,
      3770324635, 3982806806] :: nat list) =
       zip [1116352408, 1899447441, 3049323471, 3921009573, 961987163, 1508970993, 2453635748,
           2870763221, 3624381080, 310598401, 607225278, 1426881987, 1925078388, 2162078206,
           2614888103, 3248222580]
           [847249408, 0, 0, 0, 0, 0, 0, 0, 0, 0, 0, 0, 0, 0, 0, 8] @
       zip [3835390401, 4022224774, 264347078, 604807628, 770255983, 1249150122, 1555081692,
           1996064986, 2554220882, 2821834349, 2952996808, 3210313671, 3336571891, 3584528711,
           113926993, 338241895]
           [847249408, 327680, 835344, 536871234, 3362390824, 8475648, 1103325120, 3003129861,
           3742193664, 339439352, 657963123, 2735737193, 733974163, 1198819752, 4187176785,
           3140705054] @
       zip [666307205, 773529912, 1294757372, 1396182291, 1695183700, 1986661051, 2177026350,
           2456956037, 2730485921, 2820302411, 3259730800, 3345764771, 3516065817, 3600352804,
           4094571909, 275423344]
           [2134425645, 4257516859, 2604281582, 3944556231, 3078358345, 2195873084, 2485018030,
           3820081247, 3945439842, 2387005811, 3709537165, 3452205617, 221014454, 18208138,
           2483764978, 1541683624] @
       zip [430227734, 506948616, 659060556, 883997877, 958139571, 1322822218, 1537002063,
           1747873779, 1955562222, 2024104815, 2227730452, 2361852424, 2428436474, 2756734187,
           3204031479, 3329325298]
           [1359975351, 3166834582, 2143030963, 3274923891, 1027131810, 3021292383, 1167282086,
           2933279152, 3098277053, 3200448361, 2313494912, 2823156357, 1465248506, 3321326119,
           3770324635, 3982806806]"
    by (simp add: K256_def)
  then have "fold round
      (zip K256
        [847249408, 0, 0, 0, 0, 0, 0, 0, 0, 0, 0, 0, 0, 0, 0, 8, 847249408, 327680, 835344,
        536871234, 3362390824, 8475648, 1103325120, 3003129861, 3742193664, 339439352,
        657963123, 2735737193, 733974163, 1198819752, 4187176785, 3140705054, 2134425645,
        4257516859, 2604281582, 3944556231, 3078358345, 2195873084, 2485018030, 3820081247,
        3945439842, 2387005811, 3709537165, 3452205617, 221014454, 18208138, 2483764978,
        1541683624, 1359975351, 3166834582, 2143030963, 3274923891, 1027131810, 3021292383,
        1167282086, 2933279152, 3098277053, 3200448361, 2313494912, 2823156357, 1465248506,
        3321326119, 3770324635, 3982806806])
      H256 =
      [1785296851, 1794533481, 2748343807, 3863701449, 2962077017, 465549060, 3132525763,
      2419252764]"
    by (simp only: fold_append o_apply H256_def
        sha256_2_rounds_0 sha256_2_rounds_16 sha256_2_rounds_32 sha256_2_rounds_48)
  then show ?thesis
    by (simp add: compress_def sha256_2_schedule) (simp add: H256_def add32_def)
qed

lemma sha256_2:
  "sha256 ''2'' = ''d4735e3a265e16eee03f59718b9b5d03019c07d8b6c51f90da3a666eec13ab35''"
proof -
  have "chunks (length ([847249408, 0, 0, 0, 0, 0, 0, 0, 0, 0, 0, 0, 0, 0, 0, 8] :: nat list) div 16)
      [847249408, 0, 0, 0, 0, 0, 0, 0, 0, 0, 0, 0, 0, 0, 0, 8] =
      [[847249408, 0, 0, 0, 0, 0, 0, 0, 0, 0, 0, 0, 0, 0, 0, 8]]"
    by simp
  then show ?thesis
    unfolding sha256_def sha256_2_words Let_def
    by (simp add: sha256_2_compress hex32_def hexdigit_def)
qed

lemma sha256_3_words:
  "words (pad (map of_char ''3'')) =
     [864026624, 0, 0, 0, 0, 0, 0, 0, 0, 0, 0, 0, 0, 0, 0, 8]"
  by (simp add: pad_def be64_def replicate_numeral)

lemma sha256_3_schedule:
  "schedule 64
     [864026624, 0, 0, 0, 0, 0, 0, 0, 0, 0, 0, 0, 0, 0, 0, 8] =
     [864026624, 0, 0, 0, 0, 0, 0, 0, 0, 0, 0, 0, 0, 0, 0, 8, 864026624, 327680, 851888,
      536871234, 3761111864, 8475648, 3250808730, 3019907077, 3742582784, 339504184, 3979850235,
      2613840570, 796596945, 1173378359, 2990247066, 89557819, 1068472306, 3794137000,
      1425163867, 2258674858, 3877862637, 3992712851, 2933253055, 1101866506, 2019475392,
      2802128974, 1623145185, 318549116, 186908762, 2021725956, 1216085438, 765984842,
      2660922032, 1890442597, 1275912525, 4275581668, 335614705, 1743931153, 3705011123,
      1808167136, 4217519787, 3925312424, 2310746239, 234692180, 3007897983, 220931343,
      3002877942, 225561091]"
  by (simp add: schedule_numeral add32_def rotr_def shr_def ssig0_def ssig1_def)

lemma sha256_3_rounds_0:
  "fold round
     (zip [1116352408, 1899447441, 3049323471, 3921009573, 961987163, 1508970993, 2453635748,
          2870763221, 3624381080, 310598401, 607225278, 1426881987, 1925078388, 2162078206,
          2614888103, 3248222580]
          [864026624, 0, 0, 0, 0, 0, 0, 0, 0, 0, 0, 0, 0, 0, 0, 8])
     [1779033703, 3144134277, 1013904242, 2773480762, 1359893119, 2600822924, 528734635,
      1541459225] =
     [1953066498, 1001598710, 1494147872, 2827817643, 430565779, 658403979, 3531098557,
      2795629225]"
  by (simp add: add32_def rotr_def bsig0_def bsig1_def Ch_def Maj_def Let_def)

lemma sha256_3_rounds_16:
  "fold round
     (zip [3835390401, 4022224774, 264347078, 604807628, 770255983, 1249150122, 1555081692,
          1996064986, 2554220882, 2821834349, 2952996808, 3210313671, 3336571891, 3584528711,
          113926993, 338241895]
          [864026624, 327680, 851888, 536871234, 3761111864, 8475648, 3250808730, 3019907077,
          3742582784, 339504184, 3979850235, 2613840570, 796596945, 1173378359, 2990247066,
          89557819])
     [1953066498, 1001598710, 1494147872, 2827817643, 430565779, 658403979, 3531098557,
      2795629225] =
     [3301797423, 1600968218, 3762300768, 338205139, 4114050515, 3254225929, 385867096,
      2203983133]"
  by (simp add: add32_def rotr_def bsig0_def bsig1_def Ch_def Maj_def Let_def)

lemma sha256_3_rounds_32:
  "fold round
     (zip [666307205, 773529912, 1294757372, 1396182291, 1695183700, 1986661051, 2177026350,
          2456956037, 2730485921, 2820302411, 3259730800, 3345764771, 3516065817, 3600352804,
          4094571909, 275423344]
          [1068472306, 3794137000, 1425163867, 2258674858, 3877862637, 3992712851, 2933253055,
          1101866506, 2019475392, 2802128974, 1623145185, 318549116, 186908762, 2021725956,
          1216085438, 765984842])
     [3301797423, 1600968218, 3762300768, 338205139, 4114050515, 3254225929, 385867096,
      2203983133] =
     [638644649, 1142460605, 2516584949, 2865193540, 3862686883, 1520961888, 2297568277,
      67055659]"
  by (simp add: add32_def rotr_def bsig0_def bsig1_def Ch_def Maj_def Let_def)

lemma sha256_3_rounds_48:
  "fold round
     (zip [430227734, 506948616, 659060556, 883997877, 958139571, 1322822218, 1537002063,
          1747873779, 1955562222, 2024104815, 2227730452, 2361852424, 2428436474, 2756734187,
          3204031479, 3329325298]
          [2660922032, 1890442597, 1275912525, 4275581668, 335614705, 1743931153, 3705011123,
          1808167136, 4217519787, 3925312424, 2310746239, 234692180, 3007897983, 220931343,
          3002877942, 225561091])
     [638644649, 1142460605, 2516584949, 2865193540, 3862686883, 1520961888, 2297568277,
      67055659] =
     [3825031710, 2807508230, 610210383, 964685427, 3316174769, 4218976147, 1149740188,
      3453211317]"
  by (simp add: add32_def rotr_def bsig0_def bsig1_def Ch_def Maj_def Let_def)

lemma sha256_3_compress:
  "compress H256
     [864026624, 0, 0, 0, 0, 0, 0, 0, 0, 0, 0, 0, 0, 0, 0, 8] =
     [1309098117, 1656675211, 1624114625, 3738166189, 381100592, 2524831775, 1678474823,
      699703246]"
proof -
  have "zip K256
      ([864026624, 0, 0, 0, 0, 0, 0, 0, 0, 0, 0, 0, 0, 0, 0, 8, 864026624, 327680, 851888,
      536871234, 3761111864, 8475648, 3250808730, 3019907077, 3742582784, 339504184, 3979850235,
      2613840570, 796596945, 1173378359, 2990247066, 89557819, 1068472306, 3794137000,
      1425163867, 2258674858, 3877862637, 3992712851, 2933253055, 1101866506, 2019475392,
      2802128974, 1623145185, 318549116, 186908762, 2021725956, 1216085438, 765984842,
      2660922032, 1890442597, 1275912525, 4275581668, 335614705, 1743931153, 3705011123,
      1808167136, 4217519787, 3925312424, 2310746239, 234692180, 3007897983, 220931343,
      3002877942, 225561091] :: nat list) =
       zip [1116352408, 1899447441, 3049323471, 3921009573, 961987163, 1508970993, 2453635748,
           2870763221, 3624381080, 310598401, 607225278, 1426881987, 1925078388, 2162078206,
           2614888103, 3248222580]
           [864026624, 0, 0, 0, 0, 0, 0, 0, 0, 0, 0, 0, 0, 0, 0, 8] @
       zip [3835390401, 4022224774, 264347078, 604807628, 770255983, 1249150122, 1555081692,
           1996064986, 2554220882, 2821834349, 2952996808, 3210313671, 3336571891, 3584528711,
           113926993, 338241895]
           [864026624, 327680, 851888, 536871234, 3761111864, 8475648, 3250808730, 3019907077,
           3742582784, 339504184, 3979850235, 2613840570, 796596945, 1173378359, 2990247066,
           89557819] @
       zip [666307205, 773529912, 1294757372, 1396182291, 1695183700, 1986661051, 2177026350,
           2456956037, 2730485921, 2820302411, 3259730800, 3345764771, 3516065817, 3600352804,
           4094571909, 275423344]
           [1068472306, 3794137000, 1425163867, 2258674858, 3877862637, 3992712851, 2933253055,
           1101866506, 2019475392, 2802128974, 1623145185, 318549116, 186908762, 2021725956,
           1216085438, 765984842] @
       zip [430227734, 506948616, 659060556, 883997877, 958139571, 1322822218, 1537002063,
           1747873779, 1955562222, 2024104815, 2227730452, 2361852424, 2428436474, 2756734187,
           3204031479, 3329325298]
           [2660922032, 1890442597, 1275912525, 4275581668, 335614705, 1743931153, 3705011123,
           1808167136, 4217519787, 3925312424, 2310746239, 234692180, 3007897983, 220931343,
           3002877942, 225561091]"
    by (simp add: K256_def)
  then have "fold round
      (zip K256
        [864026624, 0, 0, 0, 0, 0, 0, 0, 0, 0, 0, 0, 0, 0, 0, 8, 864026624, 327680, 851888,
        536871234, 3761111864, 8475648, 3250808730, 3019907077, 3742582784, 339504184,
        3979850235, 2613840570, 796596945, 1173378359, 2990247066, 89557819, 1068472306,
        3794137000, 1425163867, 2258674858, 3877862637, 3992712851, 2933253055, 1101866506,
        2019475392, 2802128974, 1623145185, 318549116, 186908762, 2021725956, 1216085438,
        765984842, 2660922032, 1890442597, 1275912525, 4275581668, 335614705, 1743931153,
        3705011123, 1808167136, 4217519787, 3925312424, 2310746239, 234692180, 3007897983,
        220931343, 3002877942, 225561091])
      H256 =
      [3825031710, 2807508230, 610210383, 964685427, 3316174769, 4218976147, 1149740188,
      3453211317]"
    by (simp only: fold_append o_apply H256_def
        sha256_3_rounds_0 sha256_3_rounds_16 sha256_3_rounds_32 sha256_3_rounds_48)
  then show ?thesis
    by (simp add: compress_def sha256_3_schedule) (simp add: H256_def add32_def)
qed

lemma sha256_3:
  "sha256 ''3'' = ''4e07408562bedb8b60ce05c1decfe3ad16b72230967de01f640b7e4729b49fce''"
proof -
  have "chunks (length ([864026624, 0, 0, 0, 0, 0, 0, 0, 0, 0, 0, 0, 0, 0, 0, 8] :: nat list) div 16)
      [864026624, 0, 0, 0, 0, 0, 0, 0, 0, 0, 0, 0, 0, 0, 0, 8] =
      [[864026624, 0, 0, 0, 0, 0, 0, 0, 0, 0, 0, 0, 0, 0, 0, 8]]"
    by simp
  then show ?thesis
    unfolding sha256_def sha256_3_words Let_def
    by (simp add: sha256_3_compress hex32_def hexdigit_def)
qed

lemma sha256_4_words:
  "words (pad (map of_char ''4'')) =
     [880803840, 0, 0, 0, 0, 0, 0, 0, 0, 0, 0, 0, 0, 0, 0, 8]"
  by (simp add: pad_def be64_def replicate_numeral)

lemma sha256_4_schedule:
  "schedule 64
     [880803840, 0, 0, 0, 0, 0, 0, 0, 0, 0, 0, 0, 0, 0, 0, 8] =
     [880803840, 0, 0, 0, 0, 0, 0, 0, 0, 0, 0, 0, 0, 0, 0, 8, 880803840, 327680, 867536,
      536871234, 972161864, 8475648, 1103325007, 3036684293, 3747821568, 339503352, 456633813,
      4082633419, 601372438, 1170454804, 3798156192, 2450923487, 1381632166, 3601017475,
      3100198313, 1268521914, 1595325840, 3238354354, 1930613236, 3775674696, 3513829027,
      2866854518, 1841620432, 3267837655, 2711470155, 3199781479, 1174752182, 2761805518,
      3788571737, 3087173133, 2570741434, 2237412529, 3360287334, 4143165897, 1672476465,
      3722560497, 1701724049, 2984500332, 1135442220, 336284517, 2523413639, 635772494,
      944168704, 635680863]"
  by (simp add: schedule_numeral add32_def rotr_def shr_def ssig0_def ssig1_def)

lemma sha256_4_rounds_0:
  "fold round
     (zip [1116352408, 1899447441, 3049323471, 3921009573, 961987163, 1508970993, 2453635748,
          2870763221, 3624381080, 310598401, 607225278, 1426881987, 1925078388, 2162078206,
          2614888103, 3248222580]
          [880803840, 0, 0, 0, 0, 0, 0, 0, 0, 0, 0, 0, 0, 0, 0, 8])
     [1779033703, 3144134277, 1013904242, 2773480762, 1359893119, 2600822924, 528734635,
      1541459225] =
     [2520007688, 342734426, 3724598364, 2943845565, 2270451144, 1119969624, 3261295577,
      2874743958]"
  by (simp add: add32_def rotr_def bsig0_def bsig1_def Ch_def Maj_def Let_def)

lemma sha256_4_rounds_16:
  "fold round
     (zip [3835390401, 4022224774, 264347078, 604807628, 770255983, 1249150122, 1555081692,
          1996064986, 2554220882, 2821834349, 2952996808, 3210313671, 3336571891, 3584528711,
          113926993, 338241895]
          [880803840, 327680, 867536, 536871234, 972161864, 8475648, 1103325007, 3036684293,
          3747821568, 339503352, 456633813, 4082633419, 601372438, 1170454804, 3798156192,
          2450923487])
     [2520007688, 342734426, 3724598364, 2943845565, 2270451144, 1119969624, 3261295577,
      2874743958] =
     [2292435412, 1526118807, 2782377594, 3756862101, 72245327, 4006383848, 4069755523,
      3723313916]"
  by (simp add: add32_def rotr_def bsig0_def bsig1_def Ch_def Maj_def Let_def)

lemma sha256_4_rounds_32:
  "fold round
     (zip [666307205, 773529912, 1294757372, 1396182291, 1695183700, 1986661051, 2177026350,
          2456956037, 2730485921, 2820302411, 3259730800, 3345764771, 3516065817, 3600352804,
          4094571909, 275423344]
          [1381632166, 3601017475, 3100198313, 1268521914, 1595325840, 3238354354, 1930613236,
          3775674696, 3513829027, 2866854518, 1841620432, 3267837655, 2711470155, 3199781479,
          1174752182, 2761805518])
     [2292435412, 1526118807, 2782377594, 3756862101, 72245327, 4006383848, 4069755523,
      3723313916] =
     [4092926165, 2006408557, 2670259726, 3214866858, 3223486653, 3143552374, 1083484959,
      2476050456]"
  by (simp add: add32_def rotr_def bsig0_def bsig1_def Ch_def Maj_def Let_def)

lemma sha256_4_rounds_48:
  "fold round
     (zip [430227734, 506948616, 659060556, 883997877, 958139571, 1322822218, 1537002063,
          1747873779, 1955562222, 2024104815, 2227730452, 2361852424, 2428436474, 2756734187,
          3204031479, 3329325298]
          [3788571737, 3087173133, 2570741434, 2237412529, 3360287334, 4143165897, 1672476465,
          3722560497, 1701724049, 2984500332, 1135442220, 336284517, 2523413639, 635772494,
          944168704, 635680863])
     [4092926165, 2006408557, 2670259726, 3214866858, 3223486653, 3143552374, 1083484959,
      2476050456] =
     [3776483600, 427127105, 3758134493, 2736007112, 1673711444, 1647125540, 1808881745,
      1358557809]"
  by (simp add: add32_def rotr_def bsig0_def bsig1_def Ch_def Maj_def Let_def)

lemma sha256_4_compress:
  "compress H256
     [880803840, 0, 0, 0, 0, 0, 0, 0, 0, 0, 0, 0, 0, 0, 0, 8] =
     [1260550007, 3571261382, 477071439, 1214520578, 3033604563, 4247948464, 2337616380,
      2900017034]"
proof -
  have "zip K256
      ([880803840, 0, 0, 0, 0, 0, 0, 0, 0, 0, 0, 0, 0, 0, 0, 8, 880803840, 327680, 867536,
      536871234, 972161864, 8475648, 1103325007, 3036684293, 3747821568, 339503352, 456633813,
      4082633419, 601372438, 1170454804, 3798156192, 2450923487, 1381632166, 3601017475,
      3100198313, 1268521914, 1595325840, 3238354354, 1930613236, 3775674696, 3513829027,
      2866854518, 1841620432, 3267837655, 2711470155, 3199781479, 1174752182, 2761805518,
      3788571737, 3087173133, 2570741434, 2237412529, 3360287334, 4143165897, 1672476465,
      3722560497, 1701724049, 2984500332, 1135442220, 336284517, 2523413639, 635772494,
      944168704, 635680863] :: nat list) =
       zip [1116352408, 1899447441, 3049323471, 3921009573, 961987163, 1508970993, 2453635748,
           2870763221, 3624381080, 310598401, 607225278, 1426881987, 1925078388, 2162078206,
           2614888103, 3248222580]
           [880803840, 0, 0, 0, 0, 0, 0, 0, 0, 0, 0, 0, 0, 0, 0, 8] @
       zip [3835390401, 4022224774, 264347078, 604807628, 770255983, 1249150122, 1555081692,
           1996064986, 2554220882, 2821834349, 2952996808, 3210313671, 3336571891, 3584528711,
           113926993, 338241895]
           [880803840, 327680, 867536, 536871234, 972161864, 8475648, 1103325007, 3036684293,
           3747821568, 339503352, 456633813, 4082633419, 601372438, 1170454804, 3798156192,
           2450923487] @
       zip [666307205, 773529912, 1294757372, 1396182291, 1695183700, 1986661051, 2177026350,
           2456956037, 2730485921, 2820302411, 3259730800, 3345764771, 3516065817, 3600352804,
           4094571909, 275423344]
           [1381632166, 3601017475, 3100198313, 1268521914, 1595325840, 3238354354, 1930613236,
           3775674696, 3513829027, 2866854518, 1841620432, 3267837655, 2711470155, 3199781479,
           1174752182, 2761805518] @
       zip [430227734, 506948616, 659060556, 883997877, 958139571, 1322822218, 1537002063,
           1747873779, 1955562222, 2024104815, 2227730452, 2361852424, 2428436474, 2756734187,
           3204031479, 3329325298]
           [3788571737, 3087173133, 2570741434, 2237412529, 3360287334, 4143165897, 1672476465,
           3722560497, 1701724049, 2984500332, 1135442220, 336284517, 2523413639, 635772494,
           944168704, 635680863]"
    by (simp add: K256_def)
  then have "fold round
      (zip K256
        [880803840, 0, 0, 0, 0, 0, 0, 0, 0, 0, 0, 0, 0, 0, 0, 8, 880803840, 327680, 867536,
        536871234, 972161864, 8475648, 1103325007, 3036684293, 3747821568, 339503352, 456633813,
        4082633419, 601372438, 1170454804, 3798156192, 2450923487, 1381632166, 3601017475,
        3100198313, 1268521914, 1595325840, 3238354354, 1930613236, 3775674696, 3513829027,
        2866854518, 1841620432, 3267837655, 2711470155, 3199781479, 1174752182, 2761805518,
        3788571737, 3087173133, 2570741434, 2237412529, 3360287334, 4143165897, 1672476465,
        3722560497, 1701724049, 2984500332, 1135442220, 336284517, 2523413639, 635772494,
        944168704, 635680863])
      H256 =
      [3776483600, 427127105, 3758134493, 2736007112, 1673711444, 1647125540, 1808881745,
      1358557809]"
    by (simp only: fold_append o_apply H256_def
        sha256_4_rounds_0 sha256_4_rounds_16 sha256_4_rounds_32 sha256_4_rounds_48)
  then show ?thesis
    by (simp add: compress_def sha256_4_schedule) (simp add: H256_def add32_def)
qed

lemma sha256_4:
  "sha256 ''4'' = ''4b227777d4dd1fc61c6f884f48641d02b4d121d3fd328cb08b5531fcacdabf8a''"
proof -
  have "chunks (length ([880803840, 0, 0, 0, 0, 0, 0, 0, 0, 0, 0, 0, 0, 0, 0, 8] :: nat list) div 16)
      [880803840, 0, 0, 0, 0, 0, 0, 0, 0, 0, 0, 0, 0, 0, 0, 8] =
      [[880803840, 0, 0, 0, 0, 0, 0, 0, 0, 0, 0, 0, 0, 0, 0, 8]]"
    by simp
  then show ?thesis
    unfolding sha256_def sha256_4_words Let_def
    by (simp add: sha256_4_compress hex32_def hexdigit_def)
qed

lemma sha256_5_words:
  "words (pad (map of_char ''5'')) =
     [897581056, 0, 0, 0, 0, 0, 0, 0, 0, 0, 0, 0, 0, 0, 0, 8]"
  by (simp add: pad_def be64_def replicate_numeral)

lemma sha256_5_schedule:
  "schedule 64
     [897581056, 0, 0, 0, 0, 0, 0, 0, 0, 0, 0, 0, 0, 0, 0, 8] =
     [897581056, 0, 0, 0, 0, 0, 0, 0, 0, 0, 0, 0, 0, 0, 0, 8, 897581056, 327680, 883824,
      536871234, 297141080, 8475648, 3250808693, 3053461509, 3748210688, 339569208, 3510087509,
      705956635, 586511190, 1185406143, 3721103486, 4229830616, 1053154295, 1501743827,
      12376449, 2984166363, 2774505374, 3262009394, 212122350, 659119988, 725070935, 4087969740,
      3784479792, 1499823334, 2139107693, 1768138715, 1327995393, 1840991515, 2415535619,
      1052882792, 3283298429, 3938222760, 3918175003, 3590852189, 1420796893, 70888556,
      1775949797, 1947499779, 2517334391, 3447800647, 2067883216, 906410645, 3665358165,
      17577183]"
  by (simp add: schedule_numeral add32_def rotr_def shr_def ssig0_def ssig1_def)

lemma sha256_5_rounds_0:
  "fold round
     (zip [1116352408, 1899447441, 3049323471, 3921009573, 961987163, 1508970993, 2453635748,
          2870763221, 3624381080, 310598401, 607225278, 1426881987, 1925078388, 2162078206,
          2614888103, 3248222580]
          [897581056, 0, 0, 0, 0, 0, 0, 0, 0, 0, 0, 0, 0, 0, 0, 8])
     [1779033703, 3144134277, 1013904242, 2773480762, 1359893119, 2600822924, 528734635,
      1541459225] =
     [1121042648, 709024628, 1926235740, 3952600209, 2864022636, 938899015, 927455482,
      2347210786]"
  by (simp add: add32_def rotr_def bsig0_def bsig1_def Ch_def Maj_def Let_def)

lemma sha256_5_rounds_16:
  "fold round
     (zip [3835390401, 4022224774, 264347078, 604807628, 770255983, 1249150122, 1555081692,
          1996064986, 2554220882, 2821834349, 2952996808, 3210313671, 3336571891, 3584528711,
          113926993, 338241895]
          [897581056, 327680, 883824, 536871234, 297141080, 8475648, 3250808693, 3053461509,
          3748210688, 339569208, 3510087509, 705956635, 586511190, 1185406143, 3721103486,
          4229830616])
     [1121042648, 709024628, 1926235740, 3952600209, 2864022636, 938899015, 927455482,
      2347210786] =
     [1078116324, 1192099732, 380113028, 2659333125, 272243106, 73813702, 269354346,
      2782066530]"
  by (simp add: add32_def rotr_def bsig0_def bsig1_def Ch_def Maj_def Let_def)

lemma sha256_5_rounds_32:
  "fold round
     (zip [666307205, 773529912, 1294757372, 1396182291, 1695183700, 1986661051, 2177026350,
          2456956037, 2730485921, 2820302411, 3259730800, 3345764771, 3516065817, 3600352804,
          4094571909, 275423344]
          [1053154295, 1501743827, 12376449, 2984166363, 2774505374, 3262009394, 212122350,
          659119988, 725070935, 4087969740, 3784479792, 1499823334, 2139107693, 1768138715,
          1327995393, 1840991515])
     [1078116324, 1192099732, 380113028, 2659333125, 272243106, 73813702, 269354346,
      2782066530] =
     [1383602999, 3063777890, 1071471448, 321987372, 2130162811, 1925571279, 457639999,
      1266111083]"
  by (simp add: add32_def rotr_def bsig0_def bsig1_def Ch_def Maj_def Let_def)

lemma sha256_5_rounds_48:
  "fold round
     (zip [430227734, 506948616, 659060556, 883997877, 958139571, 1322822218, 1537002063,
          1747873779, 1955562222, 2024104815, 2227730452, 2361852424, 2428436474, 2756734187,
          3204031479, 3329325298]
          [2415535619, 1052882792, 3283298429, 3938222760, 3918175003, 3590852189, 1420796893,
          70888556, 1775949797, 1947499779, 2517334391, 3447800647, 2067883216, 906410645,
          3665358165, 17577183])
     [1383602999, 3063777890, 1071471448, 321987372, 2130162811, 1925571279, 457639999,
      1266111083] =
     [2233674774, 672392614, 1851878867, 1073420071, 1225838515, 3760804675, 2672014762,
      147789444]"
  by (simp add: add32_def rotr_def bsig0_def bsig1_def Ch_def Maj_def Let_def)

lemma sha256_5_compress:
  "compress H256
     [897581056, 0, 0, 0, 0, 0, 0, 0, 0, 0, 0, 0, 0, 0, 0, 8] =
     [4012708477, 3816526891, 2865783109, 3846900833, 2585731634, 2066660303, 3200749397,
      1689248669]"
proof -
  have "zip K256
      ([897581056, 0, 0, 0, 0, 0, 0, 0, 0, 0, 0, 0, 0, 0, 0, 8, 897581056, 327680, 883824,
      536871234, 297141080, 8475648, 3250808693, 3053461509, 3748210688, 339569208, 3510087509,
      705956635, 586511190, 1185406143, 3721103486, 4229830616, 1053154295, 1501743827,
      12376449, 2984166363, 2774505374, 3262009394, 212122350, 659119988, 725070935, 4087969740,
      3784479792, 1499823334, 2139107693, 1768138715, 1327995393, 1840991515, 2415535619,
      1052882792, 3283298429, 3938222760, 3918175003, 3590852189, 1420796893, 70888556,
      1775949797, 1947499779, 2517334391, 3447800647, 2067883216, 906410645, 3665358165,
      17577183] :: nat list) =
       zip [1116352408, 1899447441, 3049323471, 3921009573, 961987163, 1508970993, 2453635748,
           2870763221, 3624381080, 310598401, 607225278, 1426881987, 1925078388, 2162078206,
           2614888103, 3248222580]
           [897581056, 0, 0, 0, 0, 0, 0, 0, 0, 0, 0, 0, 0, 0, 0, 8] @
       zip [3835390401, 4022224774, 264347078, 604807628, 770255983, 1249150122, 1555081692,
           1996064986, 2554220882, 2821834349, 2952996808, 3210313671, 3336571891, 3584528711,
           113926993, 338241895]
           [897581056, 327680, 883824, 536871234, 297141080, 8475648, 3250808693, 3053461509,
           3748210688, 339569208, 3510087509, 705956635, 586511190, 1185406143, 3721103486,
           4229830616] @
       zip [666307205, 773529912, 1294757372, 1396182291, 1695183700, 1986661051, 2177026350,
           2456956037, 2730485921, 2820302411, 3259730800, 3345764771, 3516065817, 3600352804,
           4094571909, 275423344]
           [1053154295, 1501743827, 12376449, 2984166363, 2774505374, 3262009394, 212122350,
           659119988, 725070935, 4087969740, 3784479792, 1499823334, 2139107693, 1768138715,
           1327995393, 1840991515] @
       zip [430227734, 506948616, 659060556, 883997877, 958139571, 1322822218, 1537002063,
           1747873779, 1955562222, 2024104815, 2227730452, 2361852424, 2428436474, 2756734187,
           3204031479, 3329325298]
           [2415535619, 1052882792, 3283298429, 3938222760, 3918175003, 3590852189, 1420796893,
           70888556, 1775949797, 1947499779, 2517334391, 3447800647, 2067883216, 906410645,
           3665358165, 17577183]"
    by (simp add: K256_def)
  then have "fold round
      (zip K256
        [897581056, 0, 0, 0, 0, 0, 0, 0, 0, 0, 0, 0, 0, 0, 0, 8, 897581056, 327680, 883824,
        536871234, 297141080, 8475648, 3250808693, 3053461509, 3748210688, 339569208,
        3510087509, 705956635, 586511190, 1185406143, 3721103486, 4229830616, 1053154295,
        1501743827, 12376449, 2984166363, 2774505374, 3262009394, 212122350, 659119988,
        725070935, 4087969740, 3784479792, 1499823334, 2139107693, 1768138715, 1327995393,
        1840991515, 2415535619, 1052882792, 3283298429, 3938222760, 3918175003, 3590852189,
        1420796893, 70888556, 1775949797, 1947499779, 2517334391, 3447800647, 2067883216,
        906410645, 3665358165, 17577183])
      H256 =
      [2233674774, 672392614, 1851878867, 1073420071, 1225838515, 3760804675, 2672014762,
      147789444]"
    by (simp only: fold_append o_apply H256_def
        sha256_5_rounds_0 sha256_5_rounds_16 sha256_5_rounds_32 sha256_5_rounds_48)
  then show ?thesis
    by (simp add: compress_def sha256_5_schedule) (simp add: H256_def add32_def)
qed

lemma sha256_5:
  "sha256 ''5'' = ''ef2d127de37b942baad06145e54b0c619a1f22327b2ebbcfbec78f5564afe39d''"
proof -
  have "chunks (length ([897581056, 0, 0, 0, 0, 0, 0, 0, 0, 0, 0, 0, 0, 0, 0, 8] :: nat list) div 16)
      [897581056, 0, 0, 0, 0, 0, 0, 0, 0, 0, 0, 0, 0, 0, 0, 8] =
      [[897581056, 0, 0, 0, 0, 0, 0, 0, 0, 0, 0, 0, 0, 0, 0, 8]]"
    by simp
  then show ?thesis
    unfolding sha256_def sha256_5_words Let_def
    by (simp add: sha256_5_compress hex32_def hexdigit_def)
qed

lemma sha256_6_words:
  "words (pad (map of_char ''6'')) =
     [914358272, 0, 0, 0, 0, 0, 0, 0, 0, 0, 0, 0, 0, 0, 0, 8]"
  by (simp add: pad_def be64_def replicate_numeral)

lemma sha256_6_schedule:
  "schedule 64
     [914358272, 0, 0, 0, 0, 0, 0, 0, 0, 0, 0, 0, 0, 0, 0, 8] =
     [914358272, 0, 0, 0, 0, 0, 0, 0, 0, 0, 0, 0, 0, 0, 0, 8, 914358272, 327680, 900496,
      536871234, 1769603944, 8475648, 1103324954, 3070238725, 3749910528, 339569400, 255301177,
      2174749483, 978960280, 1184120832, 2939399182, 2387719216, 778789773, 1264584082,
      3749378309, 3119195116, 682948188, 2329422699, 3415490875, 3535067295, 2071816639,
      2174222429, 689367243, 53715616, 2265468987, 2598963047, 3254693016, 1958450051,
      1620098486, 3728000407, 853151834, 3155364638, 3663544066, 2957358988, 2356902903,
      3428318935, 3615467823, 3728102818, 2943997568, 835032655, 2797254725, 601926610,
      2247707916, 3700791617]"
  by (simp add: schedule_numeral add32_def rotr_def shr_def ssig0_def ssig1_def)

lemma sha256_6_rounds_0:
  "fold round
     (zip [1116352408, 1899447441, 3049323471, 3921009573, 961987163, 1508970993, 2453635748,
          2870763221, 3624381080, 310598401, 607225278, 1426881987, 1925078388, 2162078206,
          2614888103, 3248222580]
          [914358272, 0, 0, 0, 0, 0, 0, 0, 0, 0, 0, 0, 0, 0, 0, 8])
     [1779033703, 3144134277, 1013904242, 2773480762, 1359893119, 2600822924, 528734635,
      1541459225] =
     [3707000888, 4061002553, 2377318775, 508208371, 816902093, 2885207705, 1241097736,
      1619682272]"
  by (simp add: add32_def rotr_def bsig0_def bsig1_def Ch_def Maj_def Let_def)

lemma sha256_6_rounds_16:
  "fold round
     (zip [3835390401, 4022224774, 264347078, 604807628, 770255983, 1249150122, 1555081692,
          1996064986, 2554220882, 2821834349, 2952996808, 3210313671, 3336571891, 3584528711,
          113926993, 338241895]
          [914358272, 327680, 900496, 536871234, 1769603944, 8475648, 1103324954, 3070238725,
          3749910528, 339569400, 255301177, 2174749483, 978960280, 1184120832, 2939399182,
          2387719216])
     [3707000888, 4061002553, 2377318775, 508208371, 816902093, 2885207705, 1241097736,
      1619682272] =
     [1150818600, 253168770, 2922117576, 2037938958, 3187759652, 1443501644, 3385893183,
      3113026621]"
  by (simp add: add32_def rotr_def bsig0_def bsig1_def Ch_def Maj_def Let_def)

lemma sha256_6_rounds_32:
  "fold round
     (zip [666307205, 773529912, 1294757372, 1396182291, 1695183700, 1986661051, 2177026350,
          2456956037, 2730485921, 2820302411, 3259730800, 3345764771, 3516065817, 3600352804,
          4094571909, 275423344]
          [778789773, 1264584082, 3749378309, 3119195116, 682948188, 2329422699, 3415490875,
          3535067295, 2071816639, 2174222429, 689367243, 53715616, 2265468987, 2598963047,
          3254693016, 1958450051])
     [1150818600, 253168770, 2922117576, 2037938958, 3187759652, 1443501644, 3385893183,
      3113026621] =
     [138101052, 1109623293, 1660152342, 2072834356, 1975371463, 2102979983, 2310320378,
      3464461481]"
  by (simp add: add32_def rotr_def bsig0_def bsig1_def Ch_def Maj_def Let_def)

lemma sha256_6_rounds_48:
  "fold round
     (zip [430227734, 506948616, 659060556, 883997877, 958139571, 1322822218, 1537002063,
          1747873779, 1955562222, 2024104815, 2227730452, 2361852424, 2428436474, 2756734187,
          3204031479, 3329325298]
          [1620098486, 3728000407, 853151834, 3155364638, 3663544066, 2957358988, 2356902903,
          3428318935, 3615467823, 3728102818, 2943997568, 835032655, 2797254725, 601926610,
          2247707916, 3700791617])
     [138101052, 1109623293, 1660152342, 2072834356, 1975371463, 2102979983, 2310320378,
      3464461481] =
     [2112674218, 3154566962, 2428770274, 1912594997, 737395767, 1999835603, 3715606587,
      2494613866]"
  by (simp add: add32_def rotr_def bsig0_def bsig1_def Ch_def Maj_def Let_def)

lemma sha256_6_compress:
  "compress H256
     [914358272, 0, 0, 0, 0, 0, 0, 0, 0, 0, 0, 0, 0, 0, 0, 8] =
     [3891707921, 2003733943, 3442674516, 391108463, 2097288886, 305691231, 4244341222,
      4036073091]"
proof -
  have "zip K256
      ([914358272, 0, 0, 0, 0, 0, 0, 0, 0, 0, 0, 0, 0, 0, 0, 8, 914358272, 327680, 900496,
      536871234, 1769603944, 8475648, 1103324954, 3070238725, 3749910528, 339569400, 255301177,
      2174749483, 978960280, 1184120832, 2939399182, 2387719216, 778789773, 1264584082,
      3749378309, 3119195116, 682948188, 2329422699, 3415490875, 3535067295, 2071816639,
      2174222429, 689367243, 53715616, 2265468987, 2598963047, 3254693016, 1958450051,
      1620098486, 3728000407, 853151834, 3155364638, 3663544066, 2957358988, 2356902903,
      3428318935, 3615467823, 3728102818, 2943997568, 835032655, 2797254725, 601926610,
      2247707916, 3700791617] :: nat list) =
       zip [1116352408, 1899447441, 3049323471, 3921009573, 961987163, 1508970993, 2453635748,
           2870763221, 3624381080, 310598401, 607225278, 1426881987, 1925078388, 2162078206,
           2614888103, 3248222580]
           [914358272, 0, 0, 0, 0, 0, 0, 0, 0, 0, 0, 0, 0, 0, 0, 8] @
       zip [3835390401, 4022224774, 264347078, 604807628, 770255983, 1249150122, 1555081692,
           1996064986, 2554220882, 2821834349, 2952996808, 3210313671, 3336571891, 3584528711,
           113926993, 338241895]
           [914358272, 327680, 900496, 536871234, 1769603944, 8475648, 1103324954, 3070238725,
           3749910528, 339569400, 255301177, 2174749483, 978960280, 1184120832, 2939399182,
           2387719216] @
       zip [666307205, 773529912, 1294757372, 1396182291, 1695183700, 1986661051, 2177026350,
           2456956037, 2730485921, 2820302411, 3259730800, 3345764771, 3516065817, 3600352804,
           4094571909, 275423344]
           [778789773, 1264584082, 3749378309, 3119195116, 682948188, 2329422699, 3415490875,
           3535067295, 2071816639, 2174222429, 689367243, 53715616, 2265468987, 2598963047,
           3254693016, 1958450051] @
       zip [430227734, 506948616, 659060556, 883997877, 958139571, 1322822218, 1537002063,
           1747873779, 1955562222, 2024104815, 2227730452, 2361852424, 2428436474, 2756734187,
           3204031479, 3329325298]
           [1620098486, 3728000407, 853151834, 3155364638, 3663544066, 2957358988, 2356902903,
           3428318935, 3615467823, 3728102818, 2943997568, 835032655, 2797254725, 601926610,
           2247707916, 3700791617]"
    by (simp add: K256_def)
  then have "fold round
      (zip K256
        [914358272, 0, 0, 0, 0, 0, 0, 0, 0, 0, 0, 0, 0, 0, 0, 8, 914358272, 327680, 900496,
        536871234, 1769603944, 8475648, 1103324954, 3070238725, 3749910528, 339569400,
        255301177, 2174749483, 978960280, 1184120832, 2939399182, 2387719216, 778789773,
        1264584082, 3749378309, 3119195116, 682948188, 2329422699, 3415490875, 3535067295,
        2071816639, 2174222429, 689367243, 53715616, 2265468987, 2598963047, 3254693016,
        1958450051, 1620098486, 3728000407, 853151834, 3155364638, 3663544066, 2957358988,
        2356902903, 3428318935, 3615467823, 3728102818, 2943997568, 835032655, 2797254725,
        601926610, 2247707916, 3700791617])
      H256 =
      [2112674218, 3154566962, 2428770274, 1912594997, 737395767, 1999835603, 3715606587,
      2494613866]"
    by (simp only: fold_append o_apply H256_def
        sha256_6_rounds_0 sha256_6_rounds_16 sha256_6_rounds_32 sha256_6_rounds_48)
  then show ?thesis
    by (simp add: compress_def sha256_6_schedule) (simp add: H256_def add32_def)
qed

lemma sha256_6:
  "sha256 ''6'' = ''e7f6c011776e8db7cd330b54174fd76f7d0216b612387a5ffcfb81e6f0919683''"
proof -
  have "chunks (length ([914358272, 0, 0, 0, 0, 0, 0, 0, 0, 0, 0, 0, 0, 0, 0, 8] :: nat list) div 16)
      [914358272, 0, 0, 0, 0, 0, 0, 0, 0, 0, 0, 0, 0, 0, 0, 8] =
      [[914358272, 0, 0, 0, 0, 0, 0, 0, 0, 0, 0, 0, 0, 0, 0, 8]]"
    by simp
  then show ?thesis
    unfolding sha256_def sha256_6_words Let_def
    by (simp add: sha256_6_compress hex32_def hexdigit_def)
qed

lemma sha256_7_words:
  "words (pad (map of_char ''7'')) =
     [931135488, 0, 0, 0, 0, 0, 0, 0, 0, 0, 0, 0, 0, 0, 0, 8]"
  by (simp add: pad_def be64_def replicate_numeral)

lemma sha256_7_schedule:
  "schedule 64
     [931135488, 0, 0, 0, 0, 0, 0, 0, 0, 0, 0, 0, 0, 0, 0, 8] =
     [931135488, 0, 0, 0, 0, 0, 0, 0, 0, 0, 0, 0, 0, 0, 0, 8, 931135488, 327680, 916784,
      536871234, 1094583160, 8475648, 3250808640, 3087015941, 3749513216, 339372088, 1161276501,
      3126593912, 607296470, 1199654055, 3868916287, 1894957385, 2921118553, 2635856779,
      90633397, 1061307662, 2191387593, 2444308845, 2414143792, 2100125391, 1322774424,
      1736196848, 1929880663, 4101346499, 4093140810, 767318717, 3035042873, 3994473210,
      2026603315, 2596839813, 915648271, 1907644022, 3625205785, 858871980, 3978411121,
      1072265027, 3486219644, 2095651670, 2989796412, 397600820, 1411560186, 3841113689,
      1621639220, 1340439568]"
  by (simp add: schedule_numeral add32_def rotr_def shr_def ssig0_def ssig1_def)

lemma sha256_7_rounds_0:
  "fold round
     (zip [1116352408, 1899447441, 3049323471, 3921009573, 961987163, 1508970993, 2453635748,
          2870763221, 3624381080, 310598401, 607225278, 1426881987, 1925078388, 2162078206,
          2614888103, 3248222580]
          [931135488, 0, 0, 0, 0, 0, 0, 0, 0, 0, 0, 0, 0, 0, 0, 8])
     [1779033703, 3144134277, 1013904242, 2773480762, 1359893119, 2600822924, 528734635,
      1541459225] =
     [1193215200, 3824324011, 3550137902, 2279999808, 3944887564, 3751997998, 2159584367,
      380506735]"
  by (simp add: add32_def rotr_def bsig0_def bsig1_def Ch_def Maj_def Let_def)

lemma sha256_7_rounds_16:
  "fold round
     (zip [3835390401, 4022224774, 264347078, 604807628, 770255983, 1249150122, 1555081692,
          1996064986, 2554220882, 2821834349, 2952996808, 3210313671, 3336571891, 3584528711,
          113926993, 338241895]
          [931135488, 327680, 916784, 536871234, 1094583160, 8475648, 3250808640, 3087015941,
          3749513216, 339372088, 1161276501, 3126593912, 607296470, 1199654055, 3868916287,
          1894957385])
     [1193215200, 3824324011, 3550137902, 2279999808, 3944887564, 3751997998, 2159584367,
      380506735] =
     [742474144, 2338762364, 1916741849, 734743759, 215808440, 1178159230, 3352638834,
      2867421549]"
  by (simp add: add32_def rotr_def bsig0_def bsig1_def Ch_def Maj_def Let_def)

lemma sha256_7_rounds_32:
  "fold round
     (zip [666307205, 773529912, 1294757372, 1396182291, 1695183700, 1986661051, 2177026350,
          2456956037, 2730485921, 2820302411, 3259730800, 3345764771, 3516065817, 3600352804,
          4094571909, 275423344]
          [2921118553, 2635856779, 90633397, 1061307662, 2191387593, 2444308845, 2414143792,
          2100125391, 1322774424, 1736196848, 1929880663, 4101346499, 4093140810, 767318717,
          3035042873, 3994473210])
     [742474144, 2338762364, 1916741849, 734743759, 215808440, 1178159230, 3352638834,
      2867421549] =
     [1445108544, 3948002846, 3438054317, 417160877, 610438612, 3327626243, 4222182591,
      1854484121]"
  by (simp add: add32_def rotr_def bsig0_def bsig1_def Ch_def Maj_def Let_def)

lemma sha256_7_rounds_48:
  "fold round
     (zip [430227734, 506948616, 659060556, 883997877, 958139571, 1322822218, 1537002063,
          1747873779, 1955562222, 2024104815, 2227730452, 2361852424, 2428436474, 2756734187,
          3204031479, 3329325298]
          [2026603315, 2596839813, 915648271, 1907644022, 3625205785, 858871980, 3978411121,
          1072265027, 3486219644, 2095651670, 2989796412, 397600820, 1411560186, 3841113689,
          1621639220, 1340439568])
     [1445108544, 3948002846, 3438054317, 417160877, 610438612, 3327626243, 4222182591,
      1854484121] =
     [251167540, 683990025, 176998355, 1545760733, 2539442246, 3474142954, 102957214,
      2889504568]"
  by (simp add: add32_def rotr_def bsig0_def bsig1_def Ch_def Maj_def Let_def)

lemma sha256_7_compress:
  "compress H256
     [931135488, 0, 0, 0, 0, 0, 0, 0, 0, 0, 0, 0, 0, 0, 0, 8] =
     [2030201243, 3828124302, 1190902597, 24274199, 3899335365, 1779998582, 631691849,
      135996497]"
proof -
  have "zip K256
      ([931135488, 0, 0, 0, 0, 0, 0, 0, 0, 0, 0, 0, 0, 0, 0, 8, 931135488, 327680, 916784,
      536871234, 1094583160, 8475648, 3250808640, 3087015941, 3749513216, 339372088, 1161276501,
      3126593912, 607296470, 1199654055, 3868916287, 1894957385, 2921118553, 2635856779,
      90633397, 1061307662, 2191387593, 2444308845, 2414143792, 2100125391, 1322774424,
      1736196848, 1929880663, 4101346499, 4093140810, 767318717, 3035042873, 3994473210,
      2026603315, 2596839813, 915648271, 1907644022, 3625205785, 858871980, 3978411121,
      1072265027, 3486219644, 2095651670, 2989796412, 397600820, 1411560186, 3841113689,
      1621639220, 1340439568] :: nat list) =
       zip [1116352408, 1899447441, 3049323471, 3921009573, 961987163, 1508970993, 2453635748,
           2870763221, 3624381080, 310598401, 607225278, 1426881987, 1925078388, 2162078206,
           2614888103, 3248222580]
           [931135488, 0, 0, 0, 0, 0, 0, 0, 0, 0, 0, 0, 0, 0, 0, 8] @
       zip [3835390401, 4022224774, 264347078, 604807628, 770255983, 1249150122, 1555081692,
           1996064986, 2554220882, 2821834349, 2952996808, 3210313671, 3336571891, 3584528711,
           113926993, 338241895]
           [931135488, 327680, 916784, 536871234, 1094583160, 8475648, 3250808640, 3087015941,
           3749513216, 339372088, 1161276501, 3126593912, 607296470, 1199654055, 3868916287,
           1894957385] @
       zip [666307205, 773529912, 1294757372, 1396182291, 1695183700, 1986661051, 2177026350,
           2456956037, 2730485921, 2820302411, 3259730800, 3345764771, 3516065817, 3600352804,
           4094571909, 275423344]
           [2921118553, 2635856779, 90633397, 1061307662, 2191387593, 2444308845, 2414143792,
           2100125391, 1322774424, 1736196848, 1929880663, 4101346499, 4093140810, 767318717,
           3035042873, 3994473210] @
       zip [430227734, 506948616, 659060556, 883997877, 958139571, 1322822218, 1537002063,
           1747873779, 1955562222, 2024104815, 2227730452, 2361852424, 2428436474, 2756734187,
           3204031479, 3329325298]
           [2026603315, 2596839813, 915648271, 1907644022, 3625205785, 858871980, 3978411121,
           1072265027, 3486219644, 2095651670, 2989796412, 397600820, 1411560186, 3841113689,
           1621639220, 1340439568]"
    by (simp add: K256_def)
  then have "fold round
      (zip K256
        [931135488, 0, 0, 0, 0, 0, 0, 0, 0, 0, 0, 0, 0, 0, 0, 8, 931135488, 327680, 916784,
        536871234, 1094583160, 8475648, 3250808640, 3087015941, 3749513216, 339372088,
        1161276501, 3126593912, 607296470, 1199654055, 3868916287, 1894957385, 2921118553,
        2635856779, 90633397, 1061307662, 2191387593, 2444308845, 2414143792, 2100125391,
        1322774424, 1736196848, 1929880663, 4101346499, 4093140810, 767318717, 3035042873,
        3994473210, 2026603315, 2596839813, 915648271, 1907644022, 3625205785, 858871980,
        3978411121, 1072265027, 3486219644, 2095651670, 2989796412, 397600820, 1411560186,
        3841113689, 1621639220, 1340439568])
      H256 =
      [251167540, 683990025, 176998355, 1545760733, 2539442246, 3474142954, 102957214,
      2889504568]"
    by (simp only: fold_append o_apply H256_def
        sha256_7_rounds_0 sha256_7_rounds_16 sha256_7_rounds_32 sha256_7_rounds_48)
  then show ?thesis
    by (simp add: compress_def sha256_7_schedule) (simp add: H256_def add32_def)
qed

lemma sha256_7:
  "sha256 ''7'' = ''7902699be42c8a8e46fbbb4501726517e86b22c56a189f7625a6da49081b2451''"
proof -
  have "chunks (length ([931135488, 0, 0, 0, 0, 0, 0, 0, 0, 0, 0, 0, 0, 0, 0, 8] :: nat list) div 16)
      [931135488, 0, 0, 0, 0, 0, 0, 0, 0, 0, 0, 0, 0, 0, 0, 8] =
      [[931135488, 0, 0, 0, 0, 0, 0, 0, 0, 0, 0, 0, 0, 0, 0, 8]]"
    by simp
  then show ?thesis
    unfolding sha256_def sha256_7_words Let_def
    by (simp add: sha256_7_compress hex32_def hexdigit_def)
qed

lemma sha256_8_words:
  "words (pad (map of_char ''8'')) =
     [947912704, 0, 0, 0, 0, 0, 0, 0, 0, 0, 0, 0, 0, 0, 0, 8]"
  by (simp add: pad_def be64_def replicate_numeral)

lemma sha256_8_schedule:
  "schedule 64
     [947912704, 0, 0, 0, 0, 0, 0, 0, 0, 0, 0, 0, 0, 0, 0, 8] =
     [947912704, 0, 0, 0, 0, 0, 0, 0, 0, 0, 0, 0, 0, 0, 0, 8, 947912704, 327680, 932688,
      536871234, 3670147976, 8475648, 1099155137, 3103793157, 2611865600, 339371768, 1764144923,
      1516767627, 2381702170, 1197876028, 397380163, 2029480191, 3240563641, 4051697913,
      1176657528, 946175762, 3692818958, 2744733657, 1447054642, 1890121701, 661264400,
      1436500912, 271256515, 3722655611, 249179837, 22464933, 112455768, 227594843, 2329576282,
      3840323333, 2997035918, 3293848502, 3352254210, 3172076677, 2653879185, 3861399503,
      1776484887, 2051006563, 3618351231, 2722078297, 1697868798, 690112572, 1219879831,
      3911185780]"
  by (simp add: schedule_numeral add32_def rotr_def shr_def ssig0_def ssig1_def)

lemma sha256_8_rounds_0:
  "fold round
     (zip [1116352408, 1899447441, 3049323471, 3921009573, 961987163, 1508970993, 2453635748,
          2870763221, 3624381080, 310598401, 607225278, 1426881987, 1925078388, 2162078206,
          2614888103, 3248222580]
          [947912704, 0, 0, 0, 0, 0, 0, 0, 0, 0, 0, 0, 0, 0, 0, 8])
     [1779033703, 3144134277, 1013904242, 2773480762, 1359893119, 2600822924, 528734635,
      1541459225] =
     [3313547146, 1849932707, 2648987631, 3053381223, 3160614190, 1636286072, 2543784677,
      2871103508]"
  by (simp add: add32_def rotr_def bsig0_def bsig1_def Ch_def Maj_def Let_def)

lemma sha256_8_rounds_16:
  "fold round
     (zip [3835390401, 4022224774, 264347078, 604807628, 770255983, 1249150122, 1555081692,
          1996064986, 2554220882, 2821834349, 2952996808, 3210313671, 3336571891, 3584528711,
          113926993, 338241895]
          [947912704, 327680, 932688, 536871234, 3670147976, 8475648, 1099155137, 3103793157,
          2611865600, 339371768, 1764144923, 1516767627, 2381702170, 1197876028, 397380163,
          2029480191])
     [3313547146, 1849932707, 2648987631, 3053381223, 3160614190, 1636286072, 2543784677,
      2871103508] =
     [31754310, 3591152005, 1936024917, 3611414598, 2404928498, 1818948816, 2121403542,
      533111789]"
  by (simp add: add32_def rotr_def bsig0_def bsig1_def Ch_def Maj_def Let_def)

lemma sha256_8_rounds_32:
  "fold round
     (zip [666307205, 773529912, 1294757372, 1396182291, 1695183700, 1986661051, 2177026350,
          2456956037, 2730485921, 2820302411, 3259730800, 3345764771, 3516065817, 3600352804,
          4094571909, 275423344]
          [3240563641, 4051697913, 1176657528, 946175762, 3692818958, 2744733657, 1447054642,
          1890121701, 661264400, 1436500912, 271256515, 3722655611, 249179837, 22464933,
          112455768, 227594843])
     [31754310, 3591152005, 1936024917, 3611414598, 2404928498, 1818948816, 2121403542,
      533111789] =
     [4155211622, 810583390, 3734701052, 2776694724, 125802944, 208284911, 1969099851,
      1443267488]"
  by (simp add: add32_def rotr_def bsig0_def bsig1_def Ch_def Maj_def Let_def)

lemma sha256_8_rounds_48:
  "fold round
     (zip [430227734, 506948616, 659060556, 883997877, 958139571, 1322822218, 1537002063,
          1747873779, 1955562222, 2024104815, 2227730452, 2361852424, 2428436474, 2756734187,
          3204031479, 3329325298]
          [2329576282, 3840323333, 2997035918, 3293848502, 3352254210, 3172076677, 2653879185,
          3861399503, 1776484887, 2051006563, 3618351231, 2722078297, 1697868798, 690112572,
          1219879831, 3911185780])
     [4155211622, 810583390, 3734701052, 2776694724, 125802944, 208284911, 1969099851,
      1443267488] =
     [3260570571, 308966130, 3592809545, 2344277190, 3103761453, 4032908810, 3112900292,
      2199558026]"
  by (simp add: add32_def rotr_def bsig0_def bsig1_def Ch_def Maj_def Let_def)

lemma sha256_8_compress:
  "compress H256
     [947912704, 0, 0, 0, 0, 0, 0, 0, 0, 0, 0, 0, 0, 0, 0, 8] =
     [744636978, 3453100407, 311746491, 822790656, 168687276, 2338764438, 3641634927,
      3741017251]"
proof -
  have "zip K256
      ([947912704, 0, 0, 0, 0, 0, 0, 0, 0, 0, 0, 0, 0, 0, 0, 8, 947912704, 327680, 932688,
      536871234, 3670147976, 8475648, 1099155137, 3103793157, 2611865600, 339371768, 1764144923,
      1516767627, 2381702170, 1197876028, 397380163, 2029480191, 3240563641, 4051697913,
      1176657528, 946175762, 3692818958, 2744733657, 1447054642, 1890121701, 661264400,
      1436500912, 271256515, 3722655611, 249179837, 22464933, 112455768, 227594843, 2329576282,
      3840323333, 2997035918, 3293848502, 3352254210, 3172076677, 2653879185, 3861399503,
      1776484887, 2051006563, 3618351231, 2722078297, 1697868798, 690112572, 1219879831,
      3911185780] :: nat list) =
       zip [1116352408, 1899447441, 3049323471, 3921009573, 961987163, 1508970993, 2453635748,
           2870763221, 3624381080, 310598401, 607225278, 1426881987, 1925078388, 2162078206,
           2614888103, 3248222580]
           [947912704, 0, 0, 0, 0, 0, 0, 0, 0, 0, 0, 0, 0, 0, 0, 8] @
       zip [3835390401, 4022224774, 264347078, 604807628, 770255983, 1249150122, 1555081692,
           1996064986, 2554220882, 2821834349, 2952996808, 3210313671, 3336571891, 3584528711,
           113926993, 338241895]
           [947912704, 327680, 932688, 536871234, 3670147976, 8475648, 1099155137, 3103793157,
           2611865600, 339371768, 1764144923, 1516767627, 2381702170, 1197876028, 397380163,
           2029480191] @
       zip [666307205, 773529912, 1294757372, 1396182291, 1695183700, 1986661051, 2177026350,
           2456956037, 2730485921, 2820302411, 3259730800, 3345764771, 3516065817, 3600352804,
           4094571909, 275423344]
           [3240563641, 4051697913, 1176657528, 946175762, 3692818958, 2744733657, 1447054642,
           1890121701, 661264400, 1436500912, 271256515, 3722655611, 249179837, 22464933,
           112455768, 227594843] @
       zip [430227734, 506948616, 659060556, 883997877, 958139571, 1322822218, 1537002063,
           1747873779, 1955562222, 2024104815, 2227730452, 2361852424, 2428436474, 2756734187,
           3204031479, 3329325298]
           [2329576282, 3840323333, 2997035918, 3293848502, 3352254210, 3172076677, 2653879185,
           3861399503, 1776484887, 2051006563, 3618351231, 2722078297, 1697868798, 690112572,
           1219879831, 3911185780]"
    by (simp add: K256_def)
  then have "fold round
      (zip K256
        [947912704, 0, 0, 0, 0, 0, 0, 0, 0, 0, 0, 0, 0, 0, 0, 8, 947912704, 327680, 932688,
        536871234, 3670147976, 8475648, 1099155137, 3103793157, 2611865600, 339371768,
        1764144923, 1516767627, 2381702170, 1197876028, 397380163, 2029480191, 3240563641,
        4051697913, 1176657528, 946175762, 3692818958, 2744733657, 1447054642, 1890121701,
        661264400, 1436500912, 271256515, 3722655611, 249179837, 22464933, 112455768, 227594843,
        2329576282, 3840323333, 2997035918, 3293848502, 3352254210, 3172076677, 2653879185,
        3861399503, 1776484887, 2051006563, 3618351231, 2722078297, 1697868798, 690112572,
        1219879831, 3911185780])
      H256 =
      [3260570571, 308966130, 3592809545, 2344277190, 3103761453, 4032908810, 3112900292,
      2199558026]"
    by (simp only: fold_append o_apply H256_def
        sha256_8_rounds_0 sha256_8_rounds_16 sha256_8_rounds_32 sha256_8_rounds_48)
  then show ?thesis
    by (simp add: compress_def sha256_8_schedule) (simp add: H256_def add32_def)
qed

lemma sha256_8:
  "sha256 ''8'' = ''2c624232cdd221771294dfbb310aca000a0df6ac8b66b696d90ef06fdefb64a3''"
proof -
  have "chunks (length ([947912704, 0, 0, 0, 0, 0, 0, 0, 0, 0, 0, 0, 0, 0, 0, 8] :: nat list) div 16)
      [947912704, 0, 0, 0, 0, 0, 0, 0, 0, 0, 0, 0, 0, 0, 0, 8] =
      [[947912704, 0, 0, 0, 0, 0, 0, 0, 0, 0, 0, 0, 0, 0, 0, 8]]"
    by simp
  then show ?thesis
    unfolding sha256_def sha256_8_words Let_def
    by (simp add: sha256_8_compress hex32_def hexdigit_def)
qed

lemma sha256_9_words:
  "words (pad (map of_char ''9'')) =
     [964689920, 0, 0, 0, 0, 0, 0, 0, 0, 0, 0, 0, 0, 0, 0, 8]"
  by (simp add: pad_def be64_def replicate_numeral)

lemma sha256_9_schedule:
  "schedule 64
     [964689920, 0, 0, 0, 0, 0, 0, 0, 0, 0, 0, 0, 0, 0, 0, 8] =
     [964689920, 0, 0, 0, 0, 0, 0, 0, 0, 0, 0, 0, 0, 0, 0, 8, 964689920, 327680, 949232,
      536871234, 4068869016, 8475648, 3246638747, 3120570373, 2612262912, 339437112, 2737222547,
      3529771483, 2417279067, 1197854999, 3255099198, 4121925778, 2181318830, 1636816545,
      4293205573, 1896198517, 3151148544, 254024266, 3646392363, 3065329215, 3716919305,
      4057757978, 1912461905, 3606931252, 1205822645, 2450639634, 3037864850, 259655896,
      2228340613, 3969163215, 982887689, 1352147585, 1148709177, 2278394483, 380651864,
      2481280068, 759267610, 122185087, 3724174289, 350225769, 2465552754, 1712026312,
      2222118172, 2119385429]"
  by (simp add: schedule_numeral add32_def rotr_def shr_def ssig0_def ssig1_def)

lemma sha256_9_rounds_0:
  "fold round
     (zip [1116352408, 1899447441, 3049323471, 3921009573, 961987163, 1508970993, 2453635748,
          2870763221, 3624381080, 310598401, 607225278, 1426881987, 1925078388, 2162078206,
          2614888103, 3248222580]
          [964689920, 0, 0, 0, 0, 0, 0, 0, 0, 0, 0, 0, 0, 0, 0, 8])
     [1779033703, 3144134277, 1013904242, 2773480762, 1359893119, 2600822924, 528734635,
      1541459225] =
     [3009701466, 3475933107, 4231361109, 2166458578, 2160364238, 1890931423, 4113843220,
      222816534]"
  by (simp add: add32_def rotr_def bsig0_def bsig1_def Ch_def Maj_def Let_def)

lemma sha256_9_rounds_16:
  "fold round
     (zip [3835390401, 4022224774, 264347078, 604807628, 770255983, 1249150122, 1555081692,
          1996064986, 2554220882, 2821834349, 2952996808, 3210313671, 3336571891, 3584528711,
          113926993, 338241895]
          [964689920, 327680, 949232, 536871234, 4068869016, 8475648, 3246638747, 3120570373,
          2612262912, 339437112, 2737222547, 3529771483, 2417279067, 1197854999, 3255099198,
          4121925778])
     [3009701466, 3475933107, 4231361109, 2166458578, 2160364238, 1890931423, 4113843220,
      222816534] =
     [3879116373, 1280524887, 3359897234, 1715417356, 230631847, 883602925, 2565988998,
      942445042]"
  by (simp add: add32_def rotr_def bsig0_def bsig1_def Ch_def Maj_def Let_def)

lemma sha256_9_rounds_32:
  "fold round
     (zip [666307205, 773529912, 1294757372, 1396182291, 1695183700, 1986661051, 2177026350,
          2456956037, 2730485921, 2820302411, 3259730800, 3345764771, 3516065817, 3600352804,
          4094571909, 275423344]
          [2181318830, 1636816545, 4293205573, 1896198517, 3151148544, 254024266, 3646392363,
          3065329215, 3716919305, 4057757978, 1912461905, 3606931252, 1205822645, 2450639634,
          3037864850, 259655896])
     [3879116373, 1280524887, 3359897234, 1715417356, 230631847, 883602925, 2565988998,
      942445042] =
     [1264552235, 1118874476, 360737190, 1779438281, 3193657026, 4226902470, 3350870194,
      1725479008]"
  by (simp add: add32_def rotr_def bsig0_def bsig1_def Ch_def Maj_def Let_def)

lemma sha256_9_rounds_48:
  "fold round
     (zip [430227734, 506948616, 659060556, 883997877, 958139571, 1322822218, 1537002063,
          1747873779, 1955562222, 2024104815, 2227730452, 2361852424, 2428436474, 2756734187,
          3204031479, 3329325298]
          [2228340613, 3969163215, 982887689, 1352147585, 1148709177, 2278394483, 380651864,
          2481280068, 759267610, 122185087, 3724174289, 350225769, 2465552754, 1712026312,
          2222118172, 2119385429])
     [1264552235, 1118874476, 360737190, 1779438281, 3193657026, 4226902470, 3350870194,
      1725479008] =
     [2941138880, 588594811, 3266179481, 2063069803, 381229213, 535184217, 3481280024,
      2778392734]"
  by (simp add: add32_def rotr_def bsig0_def bsig1_def Ch_def Maj_def Let_def)

lemma sha256_9_compress:
  "compress H256
     [964689920, 0, 0, 0, 0, 0, 0, 0, 0, 0, 0, 0, 0, 0, 0, 8] =
     [425205287, 3732729088, 4280083723, 541583269, 1741122332, 3136007141, 4010014659,
      24884663]"
proof -
  have "zip K256
      ([964689920, 0, 0, 0, 0, 0, 0, 0, 0, 0, 0, 0, 0, 0, 0, 8, 964689920, 327680, 949232,
      536871234, 4068869016, 8475648, 3246638747, 3120570373, 2612262912, 339437112, 2737222547,
      3529771483, 2417279067, 1197854999, 3255099198, 4121925778, 2181318830, 1636816545,
      4293205573, 1896198517, 3151148544, 254024266, 3646392363, 3065329215, 3716919305,
      4057757978, 1912461905, 3606931252, 1205822645, 2450639634, 3037864850, 259655896,
      2228340613, 3969163215, 982887689, 1352147585, 1148709177, 2278394483, 380651864,
      2481280068, 759267610, 122185087, 3724174289, 350225769, 2465552754, 1712026312,
      2222118172, 2119385429] :: nat list) =
       zip [1116352408, 1899447441, 3049323471, 3921009573, 961987163, 1508970993, 2453635748,
           2870763221, 3624381080, 310598401, 607225278, 1426881987, 1925078388, 2162078206,
           2614888103, 3248222580]
           [964689920, 0, 0, 0, 0, 0, 0, 0, 0, 0, 0, 0, 0, 0, 0, 8] @
       zip [3835390401, 4022224774, 264347078, 604807628, 770255983, 1249150122, 1555081692,
           1996064986, 2554220882, 2821834349, 2952996808, 3210313671, 3336571891, 3584528711,
           113926993, 338241895]
           [964689920, 327680, 949232, 536871234, 4068869016, 8475648, 3246638747, 3120570373,
           2612262912, 339437112, 2737222547, 3529771483, 2417279067, 1197854999, 3255099198,
           4121925778] @
       zip [666307205, 773529912, 1294757372, 1396182291, 1695183700, 1986661051, 2177026350,
           2456956037, 2730485921, 2820302411, 3259730800, 3345764771, 3516065817, 3600352804,
           4094571909, 275423344]
           [2181318830, 1636816545, 4293205573, 1896198517, 3151148544, 254024266, 3646392363,
           3065329215, 3716919305, 4057757978, 1912461905, 3606931252, 1205822645, 2450639634,
           3037864850, 259655896] @
       zip [430227734, 506948616, 659060556, 883997877, 958139571, 1322822218, 1537002063,
           1747873779, 1955562222, 2024104815, 2227730452, 2361852424, 2428436474, 2756734187,
           3204031479, 3329325298]
           [2228340613, 3969163215, 982887689, 1352147585, 1148709177, 2278394483, 380651864,
           2481280068, 759267610, 122185087, 3724174289, 350225769, 2465552754, 1712026312,
           2222118172, 2119385429]"
    by (simp add: K256_def)
  then have "fold round
      (zip K256
        [964689920, 0, 0, 0, 0, 0, 0, 0, 0, 0, 0, 0, 0, 0, 0, 8, 964689920, 327680, 949232,
        536871234, 4068869016, 8475648, 3246638747, 3120570373, 2612262912, 339437112,
        2737222547, 3529771483, 2417279067, 1197854999, 3255099198, 4121925778, 2181318830,
        1636816545, 4293205573, 1896198517, 3151148544, 254024266, 3646392363, 3065329215,
        3716919305, 4057757978, 1912461905, 3606931252, 1205822645, 2450639634, 3037864850,
        259655896, 2228340613, 3969163215, 982887689, 1352147585, 1148709177, 2278394483,
        380651864, 2481280068, 759267610, 122185087, 3724174289, 350225769, 2465552754,
        1712026312, 2222118172, 2119385429])
      H256 =
      [2941138880, 588594811, 3266179481, 2063069803, 381229213, 535184217, 3481280024,
      2778392734]"
    by (simp only: fold_append o_apply H256_def
        sha256_9_rounds_0 sha256_9_rounds_16 sha256_9_rounds_32 sha256_9_rounds_48)
  then show ?thesis
    by (simp add: compress_def sha256_9_schedule) (simp add: H256_def add32_def)
qed

lemma sha256_9:
  "sha256 ''9'' = ''19581e27de7ced00ff1ce50b2047e7a567c76b1cbaebabe5ef03f7c3017bb5b7''"
proof -
  have "chunks (length ([964689920, 0, 0, 0, 0, 0, 0, 0, 0, 0, 0, 0, 0, 0, 0, 8] :: nat list) div 16)
      [964689920, 0, 0, 0, 0, 0, 0, 0, 0, 0, 0, 0, 0, 0, 0, 8] =
      [[964689920, 0, 0, 0, 0, 0, 0, 0, 0, 0, 0, 0, 0, 0, 0, 8]]"
    by simp
  then show ?thesis
    unfolding sha256_def sha256_9_words Let_def
    by (simp add: sha256_9_compress hex32_def hexdigit_def)
qed

lemmas digests =
  sha256_1tx1 sha256_2tx2 sha256_2tx2tx3 sha256_2tx1 sha256_10 sha256_2 sha256_3 sha256_4
  sha256_5 sha256_6 sha256_7 sha256_8 sha256_9

subsection \<open>Height sequencing\<close>

text \<open>
  Claim C6. The current height is the greatest stored block height, and \<open>0\<close> when no block
  is stored. A block whose height is not the current height plus one is rejected with
  \<open>HeightMismatch\<close> and the ledger is unchanged; a block that is accepted has the current
  height plus one.
\<close>

theorem height_sequencing:
  "lastHeight S = (if blocks S = [] then 0 else Max (set (map b_height (blocks S)))) \<and>
   (blk_height block \<noteq> lastHeight S + 1 \<longrightarrow>
      submitBlock S block = (ValidationRejected (HeightMismatch (lastHeight S + 1)), S)) \<and>
   (fst (submitBlock S block) = Success \<longrightarrow> blk_height block = lastHeight S + 1)"
proof (intro conjI impI)
  show "lastHeight S = (if blocks S = [] then 0 else Max (set (map b_height (blocks S))))"
    by (cases "blocks S = []") (simp_all add: lastHeight_empty lastHeight_Max)
  show "submitBlock S block = (ValidationRejected (HeightMismatch (lastHeight S + 1)), S)"
    if "blk_height block \<noteq> lastHeight S + 1"
    using that by (simp add: submitBlock_def)
  show "blk_height block = lastHeight S + 1" if "fst (submitBlock S block) = Success"
    using submitBlock_Success [OF that] by (rule conjunct1)
qed

theorem height_sequencing_witness:
  "blk_height spend \<noteq> lastHeight empty_ledger + 1 \<and>
   submitBlock empty_ledger spend = (ValidationRejected (HeightMismatch 1), empty_ledger) \<and>
   fst (submitBlock empty_ledger genesis) = Success \<and> blk_height genesis = 1"
proof -
  have h: "lastHeight empty_ledger = 0"
    by (simp add: lastHeight_def empty_ledger_def)
  have g: "fst (submitBlock empty_ledger genesis) = Success"
    by (simp add: ledger_eval blocks_eval numberToString_1)
  have s: "blk_height spend \<noteq> lastHeight empty_ledger + 1"
    by (simp add: h blocks_eval)
  from height_sequencing [of empty_ledger spend] s h
  have "submitBlock empty_ledger spend = (ValidationRejected (HeightMismatch 1), empty_ledger)"
    by simp
  moreover from height_sequencing [of empty_ledger genesis] g h have "blk_height genesis = 1"
    by simp
  ultimately show ?thesis
    using s g by simp
qed

subsection \<open>Block identity\<close>

text \<open>
  Claim C7. The identifier the handler expects is the hexadecimal SHA-256 digest of the
  decimal string of the height followed by the transaction identifiers in order. A block
  with the right height and any other identifier is rejected with \<open>InvalidBlockId\<close> and the
  ledger is unchanged; so is every block whose identifier is the expected one with one
  character replaced by a different one.
\<close>

theorem block_identity:
  "expectedBlockId block =
     sha256 (numberToString (blk_height block) @ concat (map tx_id (blk_transactions block))) \<and>
   length (expectedBlockId block) = 64 \<and>
   (blk_height block = lastHeight S + 1 \<longrightarrow> blk_id block \<noteq> expectedBlockId block \<longrightarrow>
      submitBlock S block = (ValidationRejected InvalidBlockId, S)) \<and>
   (blk_height block = lastHeight S + 1 \<longrightarrow> i < 64 \<longrightarrow> expectedBlockId block ! i \<noteq> c \<longrightarrow>
      submitBlock S (block\<lparr>blk_id := (expectedBlockId block)[i := c]\<rparr>) =
        (ValidationRejected InvalidBlockId, S))"
proof (intro conjI impI)
  show "expectedBlockId block =
     sha256 (numberToString (blk_height block) @ concat (map tx_id (blk_transactions block)))"
    by (simp add: expectedBlockId_def txIdsConcat_def)
  show l: "length (expectedBlockId block) = 64"
    by (simp add: expectedBlockId_def length_sha256)
  show "submitBlock S block = (ValidationRejected InvalidBlockId, S)"
    if "blk_height block = lastHeight S + 1" "blk_id block \<noteq> expectedBlockId block"
    using that by (simp add: submitBlock_def)
  show "submitBlock S (block\<lparr>blk_id := (expectedBlockId block)[i := c]\<rparr>) =
      (ValidationRejected InvalidBlockId, S)"
    if h: "blk_height block = lastHeight S + 1" and i: "i < 64"
      and c: "expectedBlockId block ! i \<noteq> c"
  proof -
    let ?b = "block\<lparr>blk_id := (expectedBlockId block)[i := c]\<rparr>"
    have e: "expectedBlockId ?b = expectedBlockId block"
      by (simp add: expectedBlockId_def txIdsConcat_def)
    have "(expectedBlockId block)[i := c] ! i = c"
      using i l by simp
    with c have "(expectedBlockId block)[i := c] \<noteq> expectedBlockId block"
      by metis
    with e have "blk_id ?b \<noteq> expectedBlockId ?b"
      by simp
    moreover from h have "blk_height ?b = lastHeight S + 1"
      by simp
    ultimately show ?thesis
      by (simp add: submitBlock_def)
  qed
qed

theorem block_identity_witness:
  "blk_height genesis = lastHeight empty_ledger + 1 \<and> (0::nat) < 64 \<and>
   expectedBlockId genesis ! 0 \<noteq> CHR ''x'' \<and>
   submitBlock empty_ledger (genesis\<lparr>blk_id := (expectedBlockId genesis)[0 := CHR ''x'']\<rparr>) =
     (ValidationRejected InvalidBlockId, empty_ledger)"
proof -
  have h: "blk_height genesis = lastHeight empty_ledger + 1"
    by (simp add: lastHeight_def empty_ledger_def blocks_eval)
  have x: "expectedBlockId genesis ! 0 \<noteq> CHR ''x''"
    unfolding expectedBlockId_def by (rule sha256_nth_not_x) simp
  have z: "(0::nat) < 64"
    by simp
  from block_identity [of genesis empty_ledger 0 "CHR ''x''"] h x z show ?thesis
    by blast
qed

subsection \<open>Runs of the handler on the blocks above\<close>

lemma numberToString_eval:
  "numberToString 1 = ''1''" "numberToString 2 = ''2''" "numberToString 3 = ''3''"
  "numberToString 4 = ''4''" "numberToString 5 = ''5''" "numberToString 6 = ''6''"
  "numberToString 7 = ''7''" "numberToString 8 = ''8''" "numberToString 9 = ''9''"
  "numberToString 10 = ''10''"
  by (simp_all add: numberToString_def natToString_digit natToString_step digit_def)

lemma submit_genesis: "submitBlock empty_ledger genesis = (Success, afterGenesis)"
  by (simp add: ledger_eval blocks_eval afterGenesis_def numberToString_eval)

lemma submit_spend: "submitBlock afterGenesis spend = (Success, afterSpend)"
  by (simp add: ledger_eval blocks_eval afterGenesis_def afterSpend_def numberToString_eval digests)

lemma reach_afterSpend: "submitAll empty_ledger [genesis, spend] = Some afterSpend"
  by (simp add: submit_genesis submit_spend)


lemma lastHeight_afterSpend: "lastHeight afterSpend = 2"
  by (simp add: lastHeight_def afterSpend_def)


subsection \<open>Value conservation\<close>



subsection \<open>Input lookup\<close>




subsection \<open>Transactions without inputs after the first block\<close>



subsection \<open>A failing statement of the apply phase\<close>


lemma insertBlock_next:
  assumes "int4 (blk_height block)" and "blk_id block \<notin> set (map b_id (blocks S))"
    and "blk_height block = lastHeight S + 1"
  shows "insertBlock S (blk_id block) (blk_height block) =
    Inr (S\<lparr>blocks := blocks S @ [\<lparr>b_id = blk_id block, b_height = blk_height block\<rparr>]\<rparr>)"
proof -
  from assms(3) next_height_fresh [of S]
  have "blk_height block \<notin> set (map b_height (blocks S))"
    by simp
  with assms(1, 2) show ?thesis
    by (simp add: insertBlock_def)
qed



lemma submitBlock_validated:
  assumes "blk_height block = lastHeight S + 1" and "blk_id block = expectedBlockId block"
    and "validateTransactions S (blk_height block) (blk_transactions block) = None"
  shows "submitBlock S block = applyPhase S block"
  using assms by (simp add: submitBlock_def)




subsection \<open>Blocks without transactions\<close>

text \<open>
  Claim C10, as amended. A block without transactions whose height is the current height
  plus one and a 32-bit integer, and whose identifier is the digest of the decimal string of
  its height, is accepted provided no stored block has that identifier; the submission
  appends one row to \<open>blocks\<close> and changes no other table.
\<close>

theorem empty_block_accepted:
  "blk_transactions block = [] \<Longrightarrow> blk_height block = lastHeight S + 1 \<Longrightarrow>
   blk_id block = sha256 (numberToString (blk_height block)) \<Longrightarrow>
   blk_id block \<notin> set (map b_id (blocks S)) \<Longrightarrow> int4 (blk_height block) \<Longrightarrow>
     submitBlock S block =
       (Success, S\<lparr>blocks := blocks S @ [\<lparr>b_id = blk_id block, b_height = blk_height block\<rparr>]\<rparr>) \<and>
     outputs (snd (submitBlock S block)) = outputs S \<and>
     balances (snd (submitBlock S block)) = balances S \<and>
     transactions (snd (submitBlock S block)) = transactions S \<and>
     inputs (snd (submitBlock S block)) = inputs S"
proof -
  assume t: "blk_transactions block = []" and h: "blk_height block = lastHeight S + 1"
    and d: "blk_id block = sha256 (numberToString (blk_height block))"
    and n: "blk_id block \<notin> set (map b_id (blocks S))" and r: "int4 (blk_height block)"
  from t d have e: "blk_id block = expectedBlockId block"
    by (simp add: expectedBlockId_def txIdsConcat_def)
  from t have "applyBlock S block =
      Inr (S\<lparr>blocks := blocks S @ [\<lparr>b_id = blk_id block, b_height = blk_height block\<rparr>]\<rparr>)"
    by (simp add: applyBlock_def insertBlock_next [OF r n h])
  moreover from t have "validateTransactions S (blk_height block) (blk_transactions block) = None"
    by simp
  ultimately have "submitBlock S block =
      (Success, S\<lparr>blocks := blocks S @ [\<lparr>b_id = blk_id block, b_height = blk_height block\<rparr>]\<rparr>)"
    using submitBlock_validated [OF h e] by (simp add: applyPhase_def)
  then show ?thesis
    by simp
qed

theorem empty_block_accepted_witness:
  "blk_transactions (emptyBlock 1) = [] \<and> blk_height (emptyBlock 1) = lastHeight empty_ledger + 1 \<and>
   blk_id (emptyBlock 1) = sha256 (numberToString (blk_height (emptyBlock 1))) \<and>
   blk_id (emptyBlock 1) \<notin> set (map b_id (blocks empty_ledger)) \<and>
   int4 (blk_height (emptyBlock 1)) \<and>
   submitBlock empty_ledger (emptyBlock 1) =
     (Success, empty_ledger\<lparr>blocks := [\<lparr>b_id = sha256 ''1'', b_height = 1\<rparr>]\<rparr>)"
proof -
  have 1: "blk_transactions (emptyBlock 1) = []"
    by (simp add: emptyBlock_def)
  have 2: "blk_height (emptyBlock 1) = lastHeight empty_ledger + 1"
    by (simp add: emptyBlock_def lastHeight_def empty_ledger_def)
  have 3: "blk_id (emptyBlock 1) = sha256 (numberToString (blk_height (emptyBlock 1)))"
    by (simp add: emptyBlock_def)
  have 4: "blk_id (emptyBlock 1) \<notin> set (map b_id (blocks empty_ledger))"
    by (simp add: empty_ledger_def)
  have 5: "int4 (blk_height (emptyBlock 1))"
    by (simp add: emptyBlock_def int4_def)
  from empty_block_accepted [OF 1 2 3 4 5]
  have "submitBlock empty_ledger (emptyBlock 1) =
     (Success, empty_ledger\<lparr>blocks := [\<lparr>b_id = sha256 ''1'', b_height = 1\<rparr>]\<rparr>)"
    by (simp add: emptyBlock_def numberToString_1 empty_ledger_def)
  with 1 2 3 4 5 show ?thesis
    by blast
qed

text \<open>
  The claim C10 as it was stated, without the proviso on the stored identifiers, does not
  hold. The decimal string of the height and the transaction identifiers are concatenated
  without a separator, so the first block with the one transaction \<open>0\<close> and the tenth block
  without transactions have the same identifier, the digest of \<open>10\<close>: after nine accepted
  blocks the tenth is refused by the primary key of \<open>blocks\<close>.
\<close>

theorem empty_block_rejected_counterexample:
  "submitAll empty_ledger
     [firstBlock0, emptyBlock 2, emptyBlock 3, emptyBlock 4, emptyBlock 5, emptyBlock 6,
      emptyBlock 7, emptyBlock 8, emptyBlock 9] = Some chain9 \<and>
   blk_transactions (emptyBlock 10) = [] \<and>
   blk_height (emptyBlock 10) = lastHeight chain9 + 1 \<and>
   blk_id (emptyBlock 10) = sha256 (numberToString (blk_height (emptyBlock 10))) \<and>
   submitBlock chain9 (emptyBlock 10) = (ApplyFailed (UniqueViolation ''blocks_pkey''), chain9)"
  by (simp add: ledger_eval chain9_def firstBlock0_def emptyBlock_def numberToString_eval digests)

subsection \<open>Two inputs for one output\<close>

text \<open>
  Claim C2 on the code. The validation reads the table as it was before the block, so it
  does not see the spends of the block itself: after \<open>genesis\<close>, the handler accepts
  \<open>spendTwice\<close>, whose transaction names the output \<open>tx1:0\<close> twice and pays out \<open>20\<close>
  for its \<open>10\<close>, and it accepts \<open>spendInTwo\<close>, whose two transactions each spend \<open>tx1:0\<close>.
\<close>

theorem double_spend_within_block_accepted:
  "submitAll empty_ledger [genesis] = Some afterGenesis \<and>
   fst (submitBlock afterGenesis spendTwice) = Success \<and>
   outputs (snd (submitBlock afterGenesis spendTwice)) =
     [\<lparr>o_tx_id = ''tx1'', o_output_index = 0, o_address = ''addr1'', o_value = 10, o_spent = True\<rparr>,
      \<lparr>o_tx_id = ''tx2'', o_output_index = 0, o_address = ''addr2'', o_value = 20, o_spent = False\<rparr>] \<and>
   fst (submitBlock afterGenesis spendInTwo) = Success \<and>
   outputs (snd (submitBlock afterGenesis spendInTwo)) =
     [\<lparr>o_tx_id = ''tx1'', o_output_index = 0, o_address = ''addr1'', o_value = 10, o_spent = True\<rparr>,
      \<lparr>o_tx_id = ''tx2'', o_output_index = 0, o_address = ''addr2'', o_value = 10, o_spent = False\<rparr>,
      \<lparr>o_tx_id = ''tx3'', o_output_index = 0, o_address = ''addr3'', o_value = 10, o_spent = False\<rparr>]"
  by (simp add: submit_genesis)
     (simp add: ledger_eval spendTwice_def spendInTwo_def afterGenesis_def
      numberToString_eval digests)

subsection \<open>Balances and unspent outputs after a double spend\<close>

text \<open>
  Claim C1 on the code. After \<open>genesis\<close> and \<open>spendTwice\<close>, both accepted, the output of
  \<open>addr1\<close> is spent, so its unspent outputs add up to \<open>0\<close>, and its stored balance, debited
  once for each of the two inputs, is \<open>-10\<close>.
\<close>

theorem double_spend_breaks_balance_consistency:
  "map_option (\<lambda>S. (outputs S, balanceOf S ''addr1'', unspentSum S ''addr1''))
     (submitAll empty_ledger [genesis, spendTwice]) =
   Some
    ([\<lparr>o_tx_id = ''tx1'', o_output_index = 0, o_address = ''addr1'', o_value = 10, o_spent = True\<rparr>,
      \<lparr>o_tx_id = ''tx2'', o_output_index = 0, o_address = ''addr2'', o_value = 20, o_spent = False\<rparr>],
     - 10, 0)"
  by (simp add: submit_genesis)
     (simp add: ledger_eval spendTwice_def afterGenesis_def numberToString_eval digests
      balanceOf_def unspentSum_def)

subsection \<open>The rows and the balances that the apply phase leaves\<close>

lemma filter_hd_mem: "filter P xs = y # ys \<Longrightarrow> y \<in> set xs \<and> P y"
proof -
  assume "filter P xs = y # ys"
  then have "y \<in> set (filter P xs)"
    by simp
  then show ?thesis
    by simp
qed

lemma utxoRows_keyOf: "utxoRows S t i = filter (\<lambda>r. keyOf r = (t, i)) (outputs S)"
  by (simp add: utxoRows_def keyOf_def)

lemma setSpent_union: "setSpent v K2 (setSpent v K1 r) = setSpent v (K1 \<union> K2) r"
  by (simp add: setSpent_def keyOf_def)

lemma setSpent_empty: "setSpent v {} r = r"
  by (simp add: setSpent_def)

lemma keyOf_setSpent: "keyOf (setSpent v K r) = keyOf r"
  by (simp add: setSpent_def keyOf_def)

lemma address_setSpent: "o_address (setSpent v K r) = o_address r"
  by (simp add: setSpent_def)

lemma value_setSpent: "o_value (setSpent v K r) = o_value r"
  by (simp add: setSpent_def)

lemma tx_id_setSpent: "o_tx_id (setSpent v K r) = o_tx_id r"
  by (simp add: setSpent_def)

lemma filter_key_setSpent:
  "filter (\<lambda>r. keyOf r = k) (map (setSpent v K) rows) =
     map (setSpent v K) (filter (\<lambda>r. keyOf r = k) rows)"
  by (simp add: filter_map o_def keyOf_setSpent)

lemma refAmount_setSpent: "refAmount (map (setSpent v K) rows) a k = refAmount rows a k"
  by (cases "filter (\<lambda>r. keyOf r = k) rows")
     (simp_all add: refAmount_def filter_key_setSpent setSpent_def)

lemma refAmount_append:
  "k \<in> keyOf ` set rows \<Longrightarrow> refAmount (rows @ extra) a k = refAmount rows a k"
  by (cases "filter (\<lambda>r. keyOf r = k) rows") (auto simp: refAmount_def filter_empty_conv)

lemma setSpent_other: "\<forall>r\<in>set rows. keyOf r \<notin> K \<Longrightarrow> map (setSpent v K) rows = rows"
  by (intro map_idI) (simp add: setSpent_def)

lemma insertBlock_Inr:
  "insertBlock S i h = Inr S1 \<Longrightarrow>
     i \<notin> b_id ` set (blocks S) \<and> h \<notin> b_height ` set (blocks S) \<and>
     S1 = S\<lparr>blocks := blocks S @ [\<lparr>b_id = i, b_height = h\<rparr>]\<rparr>"
  by (auto simp: insertBlock_def split: if_splits)

lemma insertTransaction_Inr:
  "insertTransaction S t b = Inr S1 \<Longrightarrow>
     t \<notin> t_id ` set (transactions S) \<and>
     S1 = S\<lparr>transactions := transactions S @ [\<lparr>t_id = t, t_block_id = b\<rparr>]\<rparr>"
  by (auto simp: insertTransaction_def split: if_splits)

lemma insertOutput_Inr:
  "insertOutput S t i out = Inr S1 \<Longrightarrow>
     S1 = S\<lparr>outputs := outputs S @
            [\<lparr>o_tx_id = t, o_output_index = i, o_address = out_address out,
              o_value = out_value out, o_spent = False\<rparr>]\<rparr>"
  by (auto simp: insertOutput_def split: if_splits)

lemma creditBalance_Inr:
  "creditBalance S a v = Inr S1 \<Longrightarrow> S1 = S\<lparr>balances := (balances S)(a \<mapsto> balanceOf S a + v)\<rparr>"
  by (auto simp: creditBalance_def balanceOf_def split: if_splits option.splits)

lemma debitBalance_Inr:
  "debitBalance S a v = Inr S1 \<Longrightarrow> a \<in> dom (balances S) \<Longrightarrow>
     S1 = S\<lparr>balances := (balances S)(a \<mapsto> balanceOf S a - v)\<rparr>"
  by (auto simp: debitBalance_def balanceOf_def split: if_splits option.splits)

lemma insertInput_Inr:
  "insertInput S t input = Inr S1 \<Longrightarrow> S1 = S\<lparr>inputs := inputs S @ [inputRow t input]\<rparr>"
  by (auto simp: insertInput_def inputRow_def split: if_splits)

lemma applyOutputs_Inr:
  "applyOutputs S t i outs = Inr S1 \<Longrightarrow>
     blocks S1 = blocks S \<and> transactions S1 = transactions S \<and> inputs S1 = inputs S \<and>
     outputs S1 = outputs S @ outputRowsFrom t i outs \<and>
     (\<forall>a. balanceOf S1 a = balanceOf S a +
        sum_list (map o_value (filter (\<lambda>r. o_address r = a) (outputRowsFrom t i outs)))) \<and>
     dom (balances S1) = dom (balances S) \<union> out_address ` set outs"
proof (induction outs arbitrary: S i)
  case Nil
  then show ?case
    by simp
next
  case (Cons out outs)
  from Cons.prems obtain Sa Sb where a: "insertOutput S t i out = Inr Sa"
    and b: "creditBalance Sa (out_address out) (out_value out) = Inr Sb"
    and c: "applyOutputs Sb t (i + 1) outs = Inr S1"
    by (auto split: sum.splits)
  note ea = insertOutput_Inr [OF a] and eb = creditBalance_Inr [OF b]
  have f: "blocks Sb = blocks S \<and> transactions Sb = transactions S \<and> inputs Sb = inputs S"
    by (simp add: ea eb)
  have o: "outputs Sb = outputs S @
      [\<lparr>o_tx_id = t, o_output_index = i, o_address = out_address out,
        o_value = out_value out, o_spent = False\<rparr>]"
    by (simp add: ea eb)
  have v: "balanceOf Sb a = balanceOf S a + (if a = out_address out then out_value out else 0)"
    for a
    by (simp add: ea eb balanceOf_def)
  have d: "dom (balances Sb) = insert (out_address out) (dom (balances S))"
    by (simp add: ea eb)
  note ih = Cons.IH [OF c]
  have 1: "blocks S1 = blocks S \<and> transactions S1 = transactions S \<and> inputs S1 = inputs S"
    using ih f by simp
  have 2: "outputs S1 = outputs S @ outputRowsFrom t i (out # outs)"
    using ih o by simp
  have 3: "\<forall>a. balanceOf S1 a = balanceOf S a +
      sum_list (map o_value (filter (\<lambda>r. o_address r = a) (outputRowsFrom t i (out # outs))))"
    using ih v by simp
  have 4: "dom (balances S1) = dom (balances S) \<union> out_address ` set (out # outs)"
    using ih d by auto
  from 1 2 3 4 show ?case
    by blast
qed

lemma applyInput_frame:
  assumes "applyInput S t input = Inr S1"
  shows "blocks S1 = blocks S \<and> transactions S1 = transactions S \<and>
     inputs S1 = inputs S @ [inputRow t input] \<and>
     outputs S1 = map (setSpent True {refOf input}) (outputs S) \<and>
     dom (balances S1) = dom (balances S)"
  using assms
  by (auto simp: applyInput_def Let_def insertInput_def markSpent_def debitBalance_def
      inputRow_def setSpent_def keyOf_def refOf_def
      split: if_splits list.splits option.splits)

lemma applyInput_balance:
  assumes "applyInput S t input = Inr S1" and "refOf input \<in> keyOf ` set (outputs S)"
    and "\<forall>r\<in>set (outputs S). o_address r \<in> dom (balances S)"
  shows "balanceOf S1 a = balanceOf S a - refAmount (outputs S) a (refOf input)"
proof -
  let ?k = "refOf input"
  let ?t = "in_txId input" and ?i = "in_index input"
  from assms(2) obtain r rs where f: "filter (\<lambda>r. keyOf r = ?k) (outputs S) = r # rs"
    by (cases "filter (\<lambda>r. keyOf r = ?k) (outputs S)") (auto simp: filter_empty_conv)
  from filter_hd_mem [OF f] have rin: "r \<in> set (outputs S)"
    by blast
  from assms(1) obtain Sa where a: "insertInput S t input = Inr Sa"
    and rest: "(case utxoRows (markSpent Sa ?t ?i) ?t ?i of
          [] \<Rightarrow> Inr (markSpent Sa ?t ?i)
        | r # _ \<Rightarrow> debitBalance (markSpent Sa ?t ?i) (o_address r) (o_value r)) = Inr S1"
    by (auto simp: applyInput_def Let_def split: sum.splits)
  let ?S2 = "markSpent Sa ?t ?i"
  have o2: "outputs ?S2 = map (setSpent True {?k}) (outputs S)"
    by (simp add: insertInput_Inr [OF a] markSpent_def setSpent_def keyOf_def refOf_def)
  have b2: "balances ?S2 = balances S"
    by (simp add: insertInput_Inr [OF a] markSpent_def)
  have "utxoRows ?S2 ?t ?i = filter (\<lambda>r. keyOf r = ?k) (outputs ?S2)"
    by (simp add: utxoRows_keyOf refOf_def)
  then have u2: "utxoRows ?S2 ?t ?i = setSpent True {?k} r # map (setSpent True {?k}) rs"
    by (simp add: o2 filter_key_setSpent f)
  from rest have d: "debitBalance ?S2 (o_address r) (o_value r) = Inr S1"
    by (simp add: u2 address_setSpent value_setSpent)
  from rin assms(3) b2 have "o_address r \<in> dom (balances ?S2)"
    by simp
  from debitBalance_Inr [OF d this]
  have "balanceOf S1 a = balanceOf S a - (if a = o_address r then o_value r else 0)"
    by (simp add: balanceOf_def b2)
  moreover have "refAmount (outputs S) a ?k = (if o_address r = a then o_value r else 0)"
    by (simp add: refAmount_def f)
  ultimately show ?thesis
    by auto
qed

lemma applyInputs_frame:
  "applyInputs S t ins = Inr S1 \<Longrightarrow>
     blocks S1 = blocks S \<and> transactions S1 = transactions S \<and>
     inputs S1 = inputs S @ map (inputRow t) ins \<and>
     outputs S1 = map (setSpent True (refOf ` set ins)) (outputs S) \<and>
     dom (balances S1) = dom (balances S)"
proof (induction ins arbitrary: S)
  case Nil
  then show ?case
    by (simp add: setSpent_empty)
next
  case (Cons i ins)
  from Cons.prems obtain Sa where a: "applyInput S t i = Inr Sa"
    and c: "applyInputs Sa t ins = Inr S1"
    by (auto split: sum.splits)
  note fa = applyInput_frame [OF a] and ih = Cons.IH [OF c]
  have u: "{refOf i} \<union> refOf ` set ins = refOf ` set (i # ins)"
    by simp
  have "outputs S1 = map (setSpent True (refOf ` set ins)) (map (setSpent True {refOf i}) (outputs S))"
    using ih fa by simp
  then have 1: "outputs S1 = map (setSpent True (refOf ` set (i # ins))) (outputs S)"
    by (simp only: map_map o_def setSpent_union u)
  have 2: "blocks S1 = blocks S \<and> transactions S1 = transactions S \<and>
      inputs S1 = inputs S @ map (inputRow t) (i # ins) \<and> dom (balances S1) = dom (balances S)"
    using ih fa by simp
  from 1 2 show ?case
    by blast
qed

lemma applyInputs_balance:
  assumes "applyInputs S t ins = Inr S1" and "\<forall>i\<in>set ins. refOf i \<in> keyOf ` set (outputs S)"
    and "\<forall>r\<in>set (outputs S). o_address r \<in> dom (balances S)"
  shows "balanceOf S1 a =
    balanceOf S a - sum_list (map (\<lambda>i. refAmount (outputs S) a (refOf i)) ins)"
  using assms
proof (induction ins arbitrary: S)
  case Nil
  then show ?case
    by simp
next
  case (Cons i ins)
  from Cons.prems(1) obtain Sa where a: "applyInput S t i = Inr Sa"
    and c: "applyInputs Sa t ins = Inr S1"
    by (auto split: sum.splits)
  note fa = applyInput_frame [OF a]
  from fa have oa: "outputs Sa = map (setSpent True {refOf i}) (outputs S)"
    by blast
  have keys: "keyOf ` set (outputs Sa) = keyOf ` set (outputs S)"
    by (simp add: oa image_image keyOf_setSpent)
  have k: "\<forall>j\<in>set ins. refOf j \<in> keyOf ` set (outputs Sa)"
    using Cons.prems(2) by (simp add: keys)
  have r: "\<forall>r\<in>set (outputs Sa). o_address r \<in> dom (balances Sa)"
    using Cons.prems(3) fa by (auto simp: address_setSpent)
  from Cons.prems have "refOf i \<in> keyOf ` set (outputs S)"
    by simp
  from applyInput_balance [OF a this Cons.prems(3)]
  have "balanceOf Sa a = balanceOf S a - refAmount (outputs S) a (refOf i)" .
  with Cons.IH [OF c k r] show ?case
    by (simp add: oa refAmount_setSpent)
qed

subsection \<open>The rows of one transaction and of one block\<close>

lemma outputRowsFrom_tx_id: "r \<in> set (outputRowsFrom t i outs) \<Longrightarrow> o_tx_id r = t"
  by (induction outs arbitrary: i) auto

lemma outputRowsFrom_index: "r \<in> set (outputRowsFrom t i outs) \<Longrightarrow> i \<le> o_output_index r"
  by (induction outs arbitrary: i) force+

lemma outputRowsFrom_address:
  "o_address ` set (outputRowsFrom t i outs) = out_address ` set outs"
  by (induction outs arbitrary: i) auto

lemma outputRowsFrom_distinct: "distinct (map keyOf (outputRowsFrom t i outs))"
proof (induction outs arbitrary: i)
  case Nil
  then show ?case by simp
next
  case (Cons out outs)
  have "(t, i) \<notin> keyOf ` set (outputRowsFrom t (i + 1) outs)"
    using outputRowsFrom_index [of _ t "i + 1" outs] by (force simp: keyOf_def)
  with Cons.IH [of "i + 1"] show ?case
    by (simp add: keyOf_def)
qed

lemma outputRows_tx_id: "r \<in> set (outputRows tx) \<Longrightarrow> o_tx_id r = tx_id tx"
  by (simp add: outputRows_def outputRowsFrom_tx_id)

lemma outputRows_address: "o_address ` set (outputRows tx) = out_address ` set (tx_outputs tx)"
  by (simp add: outputRows_def outputRowsFrom_address)

lemma outputRows_concat_tx_id:
  "r \<in> set (concat (map outputRows txs)) \<Longrightarrow> o_tx_id r \<in> tx_id ` set txs"
  using outputRows_tx_id by fastforce

lemma inputRef_inputRow: "inputRef (inputRow t i) = refOf i"
  by (simp add: inputRef_def inputRow_def refOf_def)

lemma inputRows_tx_id: "i \<in> set (inputRows tx) \<Longrightarrow> i_tx_id i = tx_id tx"
  by (auto simp: inputRows_def inputRow_def)

lemma inputRows_concat_tx_id:
  "i \<in> set (concat (map inputRows txs)) \<Longrightarrow> i_tx_id i \<in> tx_id ` set txs"
  using inputRows_tx_id by fastforce

lemma inputRef_inputRows: "inputRef ` set (inputRows tx) = refOf ` set (tx_inputs tx)"
  by (simp add: inputRows_def image_image inputRef_inputRow)

lemma inputRef_concat: "inputRef ` set (concat (map inputRows txs)) = blockRefs txs"
  by (simp add: blockRefs_def image_UN inputRef_inputRows)

lemma blockRefs_Cons: "blockRefs (tx # txs) = refOf ` set (tx_inputs tx) \<union> blockRefs txs"
  by (simp add: blockRefs_def)

lemma applyTransactions_Cons:
  assumes "applyTransactions S b (tx # txs) = Inr S1"
  obtains Sb Sc where "tx_id tx \<notin> t_id ` set (transactions S)"
    and "applyOutputs (S\<lparr>transactions := transactions S @ [transactionRow b tx]\<rparr>)
           (tx_id tx) 0 (tx_outputs tx) = Inr Sb"
    and "applyInputs Sb (tx_id tx) (tx_inputs tx) = Inr Sc"
    and "applyTransactions Sc b txs = Inr S1"
proof -
  from assms obtain Sa Sb Sc where a: "insertTransaction S (tx_id tx) b = Inr Sa"
    and o: "applyOutputs Sa (tx_id tx) 0 (tx_outputs tx) = Inr Sb"
    and i: "applyInputs Sb (tx_id tx) (tx_inputs tx) = Inr Sc"
    and r: "applyTransactions Sc b txs = Inr S1"
    by (auto split: sum.splits)
  from insertTransaction_Inr [OF a]
  have "tx_id tx \<notin> t_id ` set (transactions S)"
    and "Sa = S\<lparr>transactions := transactions S @ [transactionRow b tx]\<rparr>"
    by (simp_all add: transactionRow_def)
  with o i r that show ?thesis
    by blast
qed

lemma applyTransaction_frame:
  assumes "applyOutputs (S\<lparr>transactions := transactions S @ [transactionRow b tx]\<rparr>)
      (tx_id tx) 0 (tx_outputs tx) = Inr Sb"
    and "applyInputs Sb (tx_id tx) (tx_inputs tx) = Inr Sc"
  shows "blocks Sc = blocks S \<and> transactions Sc = transactions S @ [transactionRow b tx] \<and>
    inputs Sc = inputs S @ inputRows tx \<and>
    outputs Sc = map (setSpent True (refOf ` set (tx_inputs tx))) (outputs S @ outputRows tx) \<and>
    dom (balances Sc) = dom (balances S) \<union> out_address ` set (tx_outputs tx)"
  using applyOutputs_Inr [OF assms(1)] applyInputs_frame [OF assms(2)]
  by (simp add: inputRows_def outputRows_def)

lemma applyTransaction_balance:
  assumes o: "applyOutputs (S\<lparr>transactions := transactions S @ [transactionRow b tx]\<rparr>)
      (tx_id tx) 0 (tx_outputs tx) = Inr Sb"
    and i: "applyInputs Sb (tx_id tx) (tx_inputs tx) = Inr Sc"
    and refs: "refOf ` set (tx_inputs tx) \<subseteq> keyOf ` set (outputs S)"
    and rowed: "\<forall>r\<in>set (outputs S). o_address r \<in> dom (balances S)"
  shows "balanceOf Sc a =
    balanceOf S a + sum_list (map o_value (filter (\<lambda>r. o_address r = a) (outputRows tx))) -
    sum_list (map (\<lambda>i. refAmount (outputs S) a (inputRef i)) (inputRows tx))"
proof -
  note fo = applyOutputs_Inr [OF o]
  from fo have ob: "outputs Sb = outputs S @ outputRows tx"
    by (simp add: outputRows_def)
  from fo have db: "dom (balances Sb) = dom (balances S) \<union> out_address ` set (tx_outputs tx)"
    by simp
  from fo have bb: "balanceOf Sb a =
      balanceOf S a + sum_list (map o_value (filter (\<lambda>r. o_address r = a) (outputRows tx)))"
    by (simp add: outputRows_def balanceOf_def)
  have k: "\<forall>j\<in>set (tx_inputs tx). refOf j \<in> keyOf ` set (outputs Sb)"
    using refs by (auto simp: ob)
  have r: "\<forall>r\<in>set (outputs Sb). o_address r \<in> dom (balances Sb)"
    using rowed outputRows_address [of tx] by (auto simp: ob db)
  have "map (\<lambda>j. refAmount (outputs Sb) a (refOf j)) (tx_inputs tx) =
      map (\<lambda>j. refAmount (outputs S) a (refOf j)) (tx_inputs tx)"
    using refs by (intro map_cong refl) (auto simp: ob refAmount_append)
  with applyInputs_balance [OF i k r, of a] bb show ?thesis
    by (simp add: inputRows_def o_def inputRef_inputRow)
qed

lemma applyTransactions_fresh:
  "applyTransactions S b txs = Inr S1 \<Longrightarrow>
     distinct (map tx_id txs) \<and> (\<forall>tx\<in>set txs. tx_id tx \<notin> t_id ` set (transactions S))"
proof (induction txs arbitrary: S)
  case Nil
  then show ?case by simp
next
  case (Cons tx txs)
  from Cons.prems obtain Sb Sc where f: "tx_id tx \<notin> t_id ` set (transactions S)"
    and o: "applyOutputs (S\<lparr>transactions := transactions S @ [transactionRow b tx]\<rparr>)
           (tx_id tx) 0 (tx_outputs tx) = Inr Sb"
    and i: "applyInputs Sb (tx_id tx) (tx_inputs tx) = Inr Sc"
    and r: "applyTransactions Sc b txs = Inr S1"
    by (rule applyTransactions_Cons)
  from applyTransaction_frame [OF o i]
  have "transactions Sc = transactions S @ [transactionRow b tx]"
    by blast
  with Cons.IH [OF r] f show ?case
    by (auto simp: transactionRow_def)
qed

lemma applyTransactions_frame:
  assumes "applyTransactions S b txs = Inr S1" and "noSelfRef txs"
  shows "blocks S1 = blocks S \<and>
    transactions S1 = transactions S @ map (transactionRow b) txs \<and>
    inputs S1 = inputs S @ concat (map inputRows txs) \<and>
    outputs S1 = map (setSpent True (blockRefs txs)) (outputs S) @ concat (map outputRows txs) \<and>
    dom (balances S1) = dom (balances S) \<union> (\<Union>tx\<in>set txs. out_address ` set (tx_outputs tx))"
  using assms
proof (induction txs arbitrary: S)
  case Nil
  then show ?case
    by (simp add: blockRefs_def setSpent_empty)
next
  case (Cons tx txs)
  from Cons.prems(1) obtain Sb Sc where
    o: "applyOutputs (S\<lparr>transactions := transactions S @ [transactionRow b tx]\<rparr>)
           (tx_id tx) 0 (tx_outputs tx) = Inr Sb"
    and i: "applyInputs Sb (tx_id tx) (tx_inputs tx) = Inr Sc"
    and run: "applyTransactions Sc b txs = Inr S1"
    by (rule applyTransactions_Cons)
  note mid = applyTransaction_frame [OF o i]
  from Cons.prems(2) have ns: "noSelfRef txs"
    and own: "\<forall>i\<in>set (tx_inputs tx). in_txId i \<noteq> tx_id tx"
    and later: "\<forall>tx'\<in>set txs. \<forall>i\<in>set (tx_inputs tx'). in_txId i \<noteq> tx_id tx"
    by (auto simp: noSelfRef_def)
  have new_own: "map (setSpent True (refOf ` set (tx_inputs tx))) (outputRows tx) = outputRows tx"
  proof (rule setSpent_other, rule ballI)
    fix r assume "r \<in> set (outputRows tx)"
    then have "o_tx_id r = tx_id tx"
      by (rule outputRows_tx_id)
    with own show "keyOf r \<notin> refOf ` set (tx_inputs tx)"
      by (auto simp: keyOf_def refOf_def)
  qed
  have new_later: "map (setSpent True (blockRefs txs)) (outputRows tx) = outputRows tx"
  proof (rule setSpent_other, rule ballI)
    fix r assume "r \<in> set (outputRows tx)"
    then have "o_tx_id r = tx_id tx"
      by (rule outputRows_tx_id)
    with later show "keyOf r \<notin> blockRefs txs"
      by (fastforce simp: keyOf_def refOf_def blockRefs_def)
  qed
  from mid have oc: "outputs Sc =
      map (setSpent True (refOf ` set (tx_inputs tx))) (outputs S) @ outputRows tx"
    by (simp add: new_own)
  note ih = Cons.IH [OF run ns]
  have "outputs S1 = map (setSpent True (blockRefs txs)) (outputs Sc) @ concat (map outputRows txs)"
    using ih by blast
  then have 1: "outputs S1 = map (setSpent True (blockRefs (tx # txs))) (outputs S) @
      concat (map outputRows (tx # txs))"
    by (simp add: oc new_later setSpent_union blockRefs_Cons o_def)
  have 2: "blocks S1 = blocks S"
    using ih mid by simp
  have 3: "transactions S1 = transactions S @ map (transactionRow b) (tx # txs)"
    using ih mid by simp
  have 4: "inputs S1 = inputs S @ concat (map inputRows (tx # txs))"
    using ih mid by simp
  have 5: "dom (balances S1) =
      dom (balances S) \<union> (\<Union>tx\<in>set (tx # txs). out_address ` set (tx_outputs tx))"
    using ih mid by auto
  from 1 2 3 4 5 show ?case
    by blast
qed

lemma applyTransactions_balance:
  assumes "applyTransactions S b txs = Inr S1"
    and "blockRefs txs \<subseteq> keyOf ` set (outputs S)"
    and "\<forall>r\<in>set (outputs S). o_address r \<in> dom (balances S)"
  shows "balanceOf S1 a =
    balanceOf S a +
    sum_list (map o_value (filter (\<lambda>r. o_address r = a) (concat (map outputRows txs)))) -
    sum_list (map (\<lambda>i. refAmount (outputs S) a (inputRef i)) (concat (map inputRows txs)))"
  using assms
proof (induction txs arbitrary: S)
  case Nil
  then show ?case by simp
next
  case (Cons tx txs)
  from Cons.prems(1) obtain Sb Sc where
    o: "applyOutputs (S\<lparr>transactions := transactions S @ [transactionRow b tx]\<rparr>)
           (tx_id tx) 0 (tx_outputs tx) = Inr Sb"
    and i: "applyInputs Sb (tx_id tx) (tx_inputs tx) = Inr Sc"
    and run: "applyTransactions Sc b txs = Inr S1"
    by (rule applyTransactions_Cons)
  note mid = applyTransaction_frame [OF o i]
  from Cons.prems(2) have own: "refOf ` set (tx_inputs tx) \<subseteq> keyOf ` set (outputs S)"
    and later: "blockRefs txs \<subseteq> keyOf ` set (outputs S)"
    by (simp_all add: blockRefs_Cons)
  from mid have oc: "outputs Sc =
      map (setSpent True (refOf ` set (tx_inputs tx))) (outputs S @ outputRows tx)"
    by blast
  have k: "blockRefs txs \<subseteq> keyOf ` set (outputs Sc)"
    using later by (auto simp: oc image_image keyOf_setSpent image_Un)
  have r: "\<forall>r\<in>set (outputs Sc). o_address r \<in> dom (balances Sc)"
    using Cons.prems(3) mid outputRows_address [of tx]
    by (auto simp: address_setSpent)
  have same: "map (\<lambda>j. refAmount (outputs Sc) a (inputRef j)) (concat (map inputRows txs)) =
      map (\<lambda>j. refAmount (outputs S) a (inputRef j)) (concat (map inputRows txs))"
  proof (intro map_cong refl)
    fix j assume "j \<in> set (concat (map inputRows txs))"
    then have "inputRef j \<in> blockRefs txs"
      using inputRef_concat [of txs] by blast
    with later have "inputRef j \<in> keyOf ` set (outputs S)"
      by blast
    then have "refAmount (outputs S @ outputRows tx) a (inputRef j) =
        refAmount (outputs S) a (inputRef j)"
      by (rule refAmount_append)
    then show "refAmount (outputs Sc) a (inputRef j) = refAmount (outputs S) a (inputRef j)"
      by (simp only: oc refAmount_setSpent)
  qed
  from applyTransaction_balance [OF o i own Cons.prems(3), of a] Cons.IH [OF run k r] same
  show ?case
    by simp
qed

subsection \<open>What an accepted block leaves\<close>

lemma wellFormed_empty: "wellFormed empty_ledger"
  by (simp add: wellFormed_def empty_ledger_def)

lemma spendable_key: "spendable S i \<Longrightarrow> refOf i \<in> keyOf ` set (outputs S)"
proof -
  assume "spendable S i"
  then obtain r rs where "utxoRows S (in_txId i) (in_index i) = r # rs"
    by (auto simp: spendable_def split: list.splits)
  then have "filter (\<lambda>r. keyOf r = refOf i) (outputs S) = r # rs"
    by (simp add: utxoRows_keyOf refOf_def)
  from filter_hd_mem [OF this] show ?thesis
    by (auto simp: image_iff intro!: bexI [of _ r])
qed

lemma filter_key_single:
  assumes "distinct (map f xs)" and "x \<in> set xs"
  shows "filter (\<lambda>y. f y = f x) xs = [x]"
  using assms
proof (induction xs)
  case Nil
  then show ?case by simp
next
  case (Cons y ys)
  show ?case
  proof (cases "y = x")
    case True
    with Cons.prems(1) have "\<forall>z\<in>set ys. f z \<noteq> f x"
      by (auto simp: image_iff)
    then have "filter (\<lambda>y. f y = f x) ys = []"
      by (simp add: filter_empty_conv)
    with True show ?thesis
      by simp
  next
    case False
    with Cons.prems have "x \<in> set ys" and "f y \<noteq> f x"
      by (auto simp: image_iff)
    with Cons show ?thesis
      by simp
  qed
qed

lemma accepted_apply:
  assumes "fst (submitBlock S block) = Success"
  shows "blk_height block = lastHeight S + 1 \<and> blk_id block \<notin> b_id ` set (blocks S) \<and>
    applyTransactions (S\<lparr>blocks := blocks S @ [blockRow block]\<rparr>) (blk_id block)
      (blk_transactions block) = Inr (snd (submitBlock S block)) \<and>
    blockRefs (blk_transactions block) \<subseteq> keyOf ` set (outputs S)"
proof -
  note s = submitBlock_Success [OF assms]
  from s have "applyBlock S block = Inr (snd (submitBlock S block))"
    by blast
  then obtain Sa where a: "insertBlock S (blk_id block) (blk_height block) = Inr Sa"
    and r: "applyTransactions Sa (blk_id block) (blk_transactions block) =
      Inr (snd (submitBlock S block))"
    by (auto simp: applyBlock_def split: sum.splits)
  from insertBlock_Inr [OF a] have 1: "blk_id block \<notin> b_id ` set (blocks S)"
    and "Sa = S\<lparr>blocks := blocks S @ [blockRow block]\<rparr>"
    by (simp_all add: blockRow_def)
  with r have 2: "applyTransactions (S\<lparr>blocks := blocks S @ [blockRow block]\<rparr>) (blk_id block)
      (blk_transactions block) = Inr (snd (submitBlock S block))"
    by simp
  have 3: "blockRefs (blk_transactions block) \<subseteq> keyOf ` set (outputs S)"
    using accepted_spendable [OF assms] spendable_key
    by (fastforce simp: blockRefs_def)
  from s 1 2 3 show ?thesis
    by blast
qed

lemma accepted_unspent:
  assumes "distinct (map keyOf (outputs S))" and "fst (submitBlock S block) = Success"
    and "r \<in> set (outputs S)" and "keyOf r \<in> blockRefs (blk_transactions block)"
  shows "\<not> o_spent r"
proof -
  from assms(4) obtain tx i where tx: "tx \<in> set (blk_transactions block)"
    and i: "i \<in> set (tx_inputs tx)" and k: "keyOf r = refOf i"
    by (auto simp: blockRefs_def)
  from accepted_spendable [OF assms(2) tx i] have sp: "spendable S i" .
  have "utxoRows S (in_txId i) (in_index i) = filter (\<lambda>y. keyOf y = keyOf r) (outputs S)"
    by (simp add: utxoRows_keyOf k refOf_def)
  also have "\<dots> = [r]"
    using assms(1, 3) by (rule filter_key_single)
  finally show ?thesis
    using sp by (simp add: spendable_def)
qed

lemma accepted_noSelfRef:
  assumes "\<forall>r\<in>set (outputs S). o_tx_id r \<in> t_id ` set (transactions S)"
    and "fst (submitBlock S block) = Success"
  shows "noSelfRef (blk_transactions block)"
  unfolding noSelfRef_def
proof (intro ballI)
  fix tx i assume tx: "tx \<in> set (blk_transactions block)" and i: "i \<in> set (tx_inputs tx)"
  note a = accepted_apply [OF assms(2)]
  from tx i have "refOf i \<in> blockRefs (blk_transactions block)"
    by (auto simp: blockRefs_def)
  with a have "refOf i \<in> keyOf ` set (outputs S)"
    by blast
  then obtain r where r: "r \<in> set (outputs S)" and e: "o_tx_id r = in_txId i"
    by (auto simp: keyOf_def refOf_def)
  from assms(1) r have "o_tx_id r \<in> t_id ` set (transactions S)"
    by blast
  then have "in_txId i \<in> t_id ` set (transactions S)"
    by (simp only: e)
  moreover from a have "\<forall>tx\<in>set (blk_transactions block). tx_id tx \<notin> t_id ` set (transactions
      (S\<lparr>blocks := blocks S @ [blockRow block]\<rparr>))"
    using applyTransactions_fresh by blast
  ultimately show "in_txId i \<notin> tx_id ` set (blk_transactions block)"
    by auto
qed

lemma accepted_frame:
  assumes "wellFormed S" and "fst (submitBlock S block) = Success"
  shows "blocks (snd (submitBlock S block)) = blocks S @ [blockRow block] \<and>
    transactions (snd (submitBlock S block)) =
      transactions S @ map (transactionRow (blk_id block)) (blk_transactions block) \<and>
    inputs (snd (submitBlock S block)) = inputs S @ concat (map inputRows (blk_transactions block)) \<and>
    outputs (snd (submitBlock S block)) =
      map (setSpent True (blockRefs (blk_transactions block))) (outputs S) @
      concat (map outputRows (blk_transactions block)) \<and>
    dom (balances (snd (submitBlock S block))) =
      dom (balances S) \<union> (\<Union>tx\<in>set (blk_transactions block). out_address ` set (tx_outputs tx))"
proof -
  from assms(1) have "\<forall>r\<in>set (outputs S). o_tx_id r \<in> t_id ` set (transactions S)"
    by (simp add: wellFormed_def)
  from accepted_noSelfRef [OF this assms(2)] accepted_apply [OF assms(2)]
  have "applyTransactions (S\<lparr>blocks := blocks S @ [blockRow block]\<rparr>) (blk_id block)
      (blk_transactions block) = Inr (snd (submitBlock S block))"
    and "noSelfRef (blk_transactions block)"
    by blast+
  from applyTransactions_frame [OF this] show ?thesis
    by simp
qed

lemma accepted_balance:
  assumes "wellFormed S" and "fst (submitBlock S block) = Success"
  shows "balanceOf (snd (submitBlock S block)) a =
    balanceOf S a +
    sum_list (map o_value (filter (\<lambda>r. o_address r = a)
      (concat (map outputRows (blk_transactions block))))) -
    sum_list (map (\<lambda>i. refAmount (outputs S) a (inputRef i))
      (concat (map inputRows (blk_transactions block))))"
proof -
  let ?S0 = "S\<lparr>blocks := blocks S @ [blockRow block]\<rparr>"
  note a = accepted_apply [OF assms(2)]
  from a have run: "applyTransactions ?S0 (blk_id block) (blk_transactions block) =
      Inr (snd (submitBlock S block))"
    by blast
  from a have k: "blockRefs (blk_transactions block) \<subseteq> keyOf ` set (outputs ?S0)"
    by simp
  from assms(1) have r: "\<forall>r\<in>set (outputs ?S0). o_address r \<in> dom (balances ?S0)"
    by (simp add: wellFormed_def)
  from applyTransactions_balance [OF run k r, of a] show ?thesis
    by (simp add: balanceOf_def)
qed

lemma accepted_fresh:
  assumes "fst (submitBlock S block) = Success"
  shows "distinct (map tx_id (blk_transactions block)) \<and>
    (\<forall>tx\<in>set (blk_transactions block). tx_id tx \<notin> t_id ` set (transactions S))"
  using accepted_apply [OF assms] applyTransactions_fresh
    [of "S\<lparr>blocks := blocks S @ [blockRow block]\<rparr>" "blk_id block" "blk_transactions block"]
  by simp

lemma image_disjointI:
  assumes "\<And>x y. x \<in> A \<Longrightarrow> y \<in> B \<Longrightarrow> f x \<noteq> f y"
  shows "f ` A \<inter> f ` B = {}"
proof (rule ccontr)
  assume "f ` A \<inter> f ` B \<noteq> {}"
  then obtain k where "k \<in> f ` A" and "k \<in> f ` B"
    by (meson disjoint_iff)
  then obtain x y where "x \<in> A" and "k = f x" and "y \<in> B" and "k = f y"
    by (meson imageE)
  with assms [of x y] show False
    by simp
qed

lemma outputRows_keys_apart:
  assumes "r \<in> set rows" and "r' \<in> set (concat (map outputRows txs))"
    and "o_tx_id r \<notin> tx_id ` set txs"
  shows "keyOf r \<noteq> keyOf r'"
proof -
  from assms(2) have "o_tx_id r' \<in> tx_id ` set txs"
    by (rule outputRows_concat_tx_id)
  with assms(3) have "o_tx_id r \<noteq> o_tx_id r'"
    by metis
  then show ?thesis
    by (simp add: keyOf_def)
qed

lemma distinct_outputRows:
  "distinct (map tx_id txs) \<Longrightarrow> distinct (map keyOf (concat (map outputRows txs)))"
proof (induction txs)
  case Nil
  then show ?case by simp
next
  case (Cons tx txs)
  from Cons.prems have n: "tx_id tx \<notin> tx_id ` set txs"
    by simp
  have "keyOf r \<noteq> keyOf r'"
    if "r \<in> set (outputRows tx)" "r' \<in> set (concat (map outputRows txs))" for r r'
  proof -
    from that(1) have "o_tx_id r = tx_id tx"
      by (rule outputRows_tx_id)
    with n have "o_tx_id r \<notin> tx_id ` set txs"
      by simp
    from outputRows_keys_apart [OF that this] show ?thesis .
  qed
  then have disj: "keyOf ` set (outputRows tx) \<inter> keyOf ` set (concat (map outputRows txs)) = {}"
    by (rule image_disjointI)
  have d1: "distinct (map keyOf (outputRows tx))"
    by (simp add: outputRows_def outputRowsFrom_distinct)
  from Cons have d2: "distinct (map keyOf (concat (map outputRows txs)))"
    by simp
  have "map keyOf (concat (map outputRows (tx # txs))) =
      map keyOf (outputRows tx) @ map keyOf (concat (map outputRows txs))"
    by simp
  with d1 d2 disj show ?case
    by (simp only: distinct_append set_map)
qed

lemma wellFormed_submitBlock:
  assumes "wellFormed S" and "fst (submitBlock S block) = Success"
  shows "wellFormed (snd (submitBlock S block))"
proof -
  let ?S1 = "snd (submitBlock S block)"
  let ?txs = "blk_transactions block"
  note sh = accepted_frame [OF assms]
  note fr = accepted_fresh [OF assms(2)]
  note ap = accepted_apply [OF assms(2)]
  from assms(1) have l1: "\<forall>t\<in>set (transactions S). t_block_id t \<in> b_id ` set (blocks S)"
    and l2: "\<forall>i\<in>set (inputs S). i_tx_id i \<in> t_id ` set (transactions S)"
    and l3: "\<forall>r\<in>set (outputs S). o_tx_id r \<in> t_id ` set (transactions S)"
    and l4: "\<forall>r\<in>set (outputs S). o_address r \<in> dom (balances S)"
    and l5: "distinct (map keyOf (outputs S))"
    and l6: "sorted_wrt (<) (map b_height (blocks S))"
    by (auto simp: wellFormed_def)
  have ids: "t_id ` set (transactions ?S1) = t_id ` set (transactions S) \<union> tx_id ` set ?txs"
    using sh by (auto simp: transactionRow_def image_Un image_image)
  have 1: "\<forall>t\<in>set (transactions ?S1). t_block_id t \<in> b_id ` set (blocks ?S1)"
    using sh l1 by (auto simp: transactionRow_def blockRow_def)
  have 2: "\<forall>i\<in>set (inputs ?S1). i_tx_id i \<in> t_id ` set (transactions ?S1)"
    unfolding ids using sh l2 inputRows_concat_tx_id [of _ ?txs] by auto
  have 3: "\<forall>r\<in>set (outputs ?S1). o_tx_id r \<in> t_id ` set (transactions ?S1)"
    unfolding ids using sh l3 outputRows_concat_tx_id [of _ ?txs]
    by (auto simp: tx_id_setSpent)
  have 4: "\<forall>r\<in>set (outputs ?S1). o_address r \<in> dom (balances ?S1)"
  proof
    fix r assume "r \<in> set (outputs ?S1)"
    with sh consider r' where "r' \<in> set (outputs S)" "r = setSpent True (blockRefs ?txs) r'"
      | tx where "tx \<in> set ?txs" "r \<in> set (outputRows tx)"
      by auto
    then show "o_address r \<in> dom (balances ?S1)"
    proof cases
      case 1
      with l4 have "o_address r \<in> dom (balances S)"
        by (simp add: address_setSpent)
      with sh show ?thesis
        by blast
    next
      case 2
      then have "o_address r \<in> out_address ` set (tx_outputs tx)"
        using outputRows_address [of tx] by blast
      with 2 sh show ?thesis
        by blast
    qed
  qed
  have "keyOf r \<noteq> keyOf r'"
    if "r \<in> set (outputs S)" "r' \<in> set (concat (map outputRows ?txs))" for r r'
  proof -
    from l3 that(1) have "o_tx_id r \<in> t_id ` set (transactions S)"
      by blast
    with fr have "o_tx_id r \<notin> tx_id ` set ?txs"
      by (metis imageE)
    from outputRows_keys_apart [OF that this] show ?thesis .
  qed
  then have disj: "keyOf ` set (outputs S) \<inter> keyOf ` set (concat (map outputRows ?txs)) = {}"
    by (rule image_disjointI)
  have d2: "distinct (map keyOf (concat (map outputRows ?txs)))"
    using fr by (intro distinct_outputRows) blast
  have "map keyOf (outputs ?S1) = map keyOf (outputs S) @ map keyOf (concat (map outputRows ?txs))"
    using sh by (simp add: keyOf_setSpent)
  with l5 d2 disj have 5: "distinct (map keyOf (outputs ?S1))"
    by (simp only: distinct_append set_map)
  have "\<forall>r\<in>set (blocks S). b_height r < blk_height block"
    using ap height_le_lastHeight [of _ S] by fastforce
  with l6 sh have 6: "sorted_wrt (<) (map b_height (blocks ?S1))"
    by (simp add: sorted_wrt_append blockRow_def)
  from 1 2 3 4 5 6 show ?thesis
    unfolding wellFormed_def by blast
qed

subsection \<open>Undoing the inputs and the outputs of a block\<close>

lemma balanceOf_adjustBalance:
  "balanceOf (adjustBalance S a d) x = balanceOf S x + (if x = a then d else 0)"
  by (simp add: adjustBalance_def balanceOf_def)

lemma setSpent_single:
  "map (\<lambda>r. if o_tx_id r = t \<and> o_output_index r = k then r\<lparr>o_spent := v\<rparr> else r) rows =
     map (setSpent v {(t, k)}) rows"
  by (simp add: setSpent_def keyOf_def)

lemma unspendInput_effect:
  assumes "inputRef i \<in> keyOf ` set (outputs T)"
  shows "blocks (unspendInput i T) = blocks T \<and> transactions (unspendInput i T) = transactions T \<and>
    inputs (unspendInput i T) = inputs T \<and>
    outputs (unspendInput i T) = map (setSpent False {inputRef i}) (outputs T) \<and>
    (\<forall>a. balanceOf (unspendInput i T) a = balanceOf T a + refAmount (outputs T) a (inputRef i)) \<and>
    dom (balances T) \<subseteq> dom (balances (unspendInput i T)) \<and>
    dom (balances (unspendInput i T)) \<subseteq> dom (balances T) \<union> o_address ` set (outputs T)"
proof -
  let ?k = "inputRef i"
  from assms obtain r rs where f: "filter (\<lambda>r. keyOf r = ?k) (outputs T) = r # rs"
    by (cases "filter (\<lambda>r. keyOf r = ?k) (outputs T)") (auto simp: filter_empty_conv)
  from filter_hd_mem [OF f] have rin: "r \<in> set (outputs T)"
    by blast
  have u: "utxoRows T (i_referenced_tx_id i) (i_referenced_output_index i) = r # rs"
    using f by (simp add: utxoRows_keyOf inputRef_def)
  let ?T' = "T\<lparr>outputs := map (setSpent False {?k}) (outputs T)\<rparr>"
  have e: "unspendInput i T = adjustBalance ?T' (o_address r) (o_value r)"
    by (simp add: unspendInput_def Let_def u setSpent_single inputRef_def)
  have "refAmount (outputs T) a ?k = (if a = o_address r then o_value r else 0)" for a
    by (auto simp: refAmount_def f)
  then have 1: "\<forall>a. balanceOf (unspendInput i T) a = balanceOf T a + refAmount (outputs T) a ?k"
    by (simp add: e balanceOf_adjustBalance) (simp add: balanceOf_def)
  have 2: "dom (balances (unspendInput i T)) = insert (o_address r) (dom (balances T))"
    by (simp add: e adjustBalance_def)
  have 3: "blocks (unspendInput i T) = blocks T \<and> transactions (unspendInput i T) = transactions T \<and>
    inputs (unspendInput i T) = inputs T \<and>
    outputs (unspendInput i T) = map (setSpent False {inputRef i}) (outputs T)"
    by (simp add: e adjustBalance_def)
  from 2 rin have 4: "dom (balances T) \<subseteq> dom (balances (unspendInput i T)) \<and>
    dom (balances (unspendInput i T)) \<subseteq> dom (balances T) \<union> o_address ` set (outputs T)"
    by blast
  from 1 3 4 show ?thesis
    by blast
qed

lemma fold_unspendInput_effect:
  assumes "\<forall>i\<in>set ins. inputRef i \<in> keyOf ` set (outputs T)"
  shows "blocks (fold unspendInput ins T) = blocks T \<and>
    transactions (fold unspendInput ins T) = transactions T \<and>
    inputs (fold unspendInput ins T) = inputs T \<and>
    outputs (fold unspendInput ins T) = map (setSpent False (inputRef ` set ins)) (outputs T) \<and>
    (\<forall>a. balanceOf (fold unspendInput ins T) a =
       balanceOf T a + sum_list (map (\<lambda>i. refAmount (outputs T) a (inputRef i)) ins)) \<and>
    dom (balances T) \<subseteq> dom (balances (fold unspendInput ins T)) \<and>
    dom (balances (fold unspendInput ins T)) \<subseteq> dom (balances T) \<union> o_address ` set (outputs T)"
  using assms
proof (induction ins arbitrary: T)
  case Nil
  then show ?case
    by (simp add: setSpent_empty)
next
  case (Cons i ins)
  let ?T' = "unspendInput i T"
  from Cons.prems have k: "inputRef i \<in> keyOf ` set (outputs T)"
    by simp
  note st = unspendInput_effect [OF k]
  from st have o': "outputs ?T' = map (setSpent False {inputRef i}) (outputs T)"
    by blast
  then have keys: "keyOf ` set (outputs ?T') = keyOf ` set (outputs T)"
    and addrs: "o_address ` set (outputs ?T') = o_address ` set (outputs T)"
    by (simp_all add: image_image keyOf_setSpent address_setSpent)
  with Cons.prems have "\<forall>j\<in>set ins. inputRef j \<in> keyOf ` set (outputs ?T')"
    by simp
  note ih = Cons.IH [OF this]
  have u: "{inputRef i} \<union> inputRef ` set ins = inputRef ` set (i # ins)"
    by simp
  have "outputs (fold unspendInput (i # ins) T) =
      map (setSpent False (inputRef ` set ins)) (map (setSpent False {inputRef i}) (outputs T))"
    using ih o' by simp
  then have 1: "outputs (fold unspendInput (i # ins) T) =
      map (setSpent False (inputRef ` set (i # ins))) (outputs T)"
    by (simp only: map_map o_def setSpent_union u)
  have 2: "\<forall>a. balanceOf (fold unspendInput (i # ins) T) a =
      balanceOf T a + sum_list (map (\<lambda>i. refAmount (outputs T) a (inputRef i)) (i # ins))"
    using ih st by (simp add: o' refAmount_setSpent)
  from st have d1: "dom (balances T) \<subseteq> dom (balances ?T')"
    and d2: "dom (balances ?T') \<subseteq> dom (balances T) \<union> o_address ` set (outputs T)"
    by blast+
  from ih have d3: "dom (balances ?T') \<subseteq> dom (balances (fold unspendInput ins ?T'))"
    and d4: "dom (balances (fold unspendInput ins ?T')) \<subseteq>
      dom (balances ?T') \<union> o_address ` set (outputs ?T')"
    by blast+
  from d1 d3 have 3: "dom (balances T) \<subseteq> dom (balances (fold unspendInput (i # ins) T))"
    by simp
  from d4 d2 have 4: "dom (balances (fold unspendInput (i # ins) T)) \<subseteq>
      dom (balances T) \<union> o_address ` set (outputs T)"
    unfolding addrs by (simp add: subset_iff) blast
  have 5: "blocks (fold unspendInput (i # ins) T) = blocks T \<and>
    transactions (fold unspendInput (i # ins) T) = transactions T \<and>
    inputs (fold unspendInput (i # ins) T) = inputs T"
    using ih st by simp
  from 1 2 3 4 5 show ?case
    by blast
qed

lemma removeOutput_effect:
  "blocks (removeOutput r T) = blocks T \<and> transactions (removeOutput r T) = transactions T \<and>
   inputs (removeOutput r T) = inputs T \<and> outputs (removeOutput r T) = remove1 r (outputs T) \<and>
   (\<forall>a. balanceOf (removeOutput r T) a =
      balanceOf T a - (if o_address r = a then o_value r else 0)) \<and>
   dom (balances (removeOutput r T)) = insert (o_address r) (dom (balances T))"
  by (auto simp: removeOutput_def adjustBalance_def balanceOf_def)

lemma fold_removeOutput_effect:
  assumes "outputs T = pre @ rs" and "set rs \<inter> set pre = {}"
  shows "blocks (fold removeOutput rs T) = blocks T \<and>
    transactions (fold removeOutput rs T) = transactions T \<and>
    inputs (fold removeOutput rs T) = inputs T \<and> outputs (fold removeOutput rs T) = pre \<and>
    (\<forall>a. balanceOf (fold removeOutput rs T) a =
       balanceOf T a - sum_list (map o_value (filter (\<lambda>r. o_address r = a) rs))) \<and>
    dom (balances (fold removeOutput rs T)) = dom (balances T) \<union> o_address ` set rs"
  using assms
proof (induction rs arbitrary: T)
  case Nil
  then show ?case by simp
next
  case (Cons r rs)
  let ?T' = "removeOutput r T"
  note st = removeOutput_effect [of r T]
  from Cons.prems have "r \<notin> set pre"
    by auto
  with Cons.prems(1) st have o': "outputs ?T' = pre @ rs"
    by (simp add: remove1_append)
  from Cons.prems(2) have "set rs \<inter> set pre = {}"
    by auto
  note ih = Cons.IH [OF o' this]
  have 1: "\<forall>a. balanceOf (fold removeOutput (r # rs) T) a =
       balanceOf T a - sum_list (map o_value (filter (\<lambda>r. o_address r = a) (r # rs)))"
    using ih st by simp
  have 2: "dom (balances (fold removeOutput (r # rs) T)) = dom (balances T) \<union> o_address ` set (r # rs)"
    using ih st by auto
  have 3: "blocks (fold removeOutput (r # rs) T) = blocks T \<and>
    transactions (fold removeOutput (r # rs) T) = transactions T \<and>
    inputs (fold removeOutput (r # rs) T) = inputs T \<and> outputs (fold removeOutput (r # rs) T) = pre"
    using ih st by simp
  from 1 2 3 show ?case
    by blast
qed

subsection \<open>Ledgers with more balance rows\<close>

lemma withRows_tables [simp]:
  "blocks (withRows D S) = blocks S" "transactions (withRows D S) = transactions S"
  "outputs (withRows D S) = outputs S" "inputs (withRows D S) = inputs S"
  by (simp_all add: withRows_def)

lemma withRows_dom [simp]: "dom (balances (withRows D S)) = D"
  by (auto simp: withRows_def split: if_splits)

lemma balanceOf_withRows:
  "dom (balances S) \<subseteq> D \<Longrightarrow> balanceOf (withRows D S) a = balanceOf S a"
  by (auto simp: withRows_def balanceOf_def split: option.splits)

lemma withRows_self: "withRows (dom (balances S)) S = S"
proof -
  have "(if a \<in> dom (balances S) then Some (balanceOf S a) else None) = balances S a" for a
    by (cases "balances S a") (simp_all add: balanceOf_def dom_def)
  then have "(\<lambda>a. if a \<in> dom (balances S) then Some (balanceOf S a) else None) = balances S"
    by (simp add: fun_eq_iff)
  then show ?thesis
    by (simp add: withRows_def)
qed

lemma withRows_eqI:
  assumes "blocks R = blocks S" and "transactions R = transactions S"
    and "outputs R = outputs S" and "inputs R = inputs S"
    and "dom (balances R) = D" and "\<forall>a. balanceOf R a = balanceOf S a"
  shows "R = withRows D S"
proof -
  have "balances R a = (if a \<in> D then Some (balanceOf S a) else None)" for a
  proof (cases "balances R a")
    case None
    with assms(5) have "a \<notin> D"
      by (auto simp: dom_def)
    with None show ?thesis
      by simp
  next
    case (Some v)
    with assms(5) have "a \<in> D"
      by (auto simp: dom_def)
    moreover from assms(6) have "balanceOf R a = balanceOf S a"
      by blast
    with Some have "v = balanceOf S a"
      by (simp add: balanceOf_def)
    ultimately show ?thesis
      using Some by simp
  qed
  then have "balances R = balances (withRows D S)"
    by (simp add: withRows_def fun_eq_iff)
  with assms(1, 2, 3, 4) show ?thesis
    by (intro ledger.equality) simp_all
qed

subsection \<open>Rolling back the block that was accepted last\<close>

lemma filter_append_new:
  assumes "\<forall>x\<in>set xs. \<not> P x" and "\<forall>y\<in>set ys. P y"
  shows "filter P (xs @ ys) = ys" and "filter (\<lambda>x. \<not> P x) (xs @ ys) = xs"
  using assms by (simp_all add: filter_empty_conv filter_id_conv)

lemma rollbackBlock_inverse:
  assumes wf: "wellFormed S" and acc: "fst (submitBlock S block) = Success"
    and D: "dom (balances (snd (submitBlock S block))) \<subseteq> D"
  shows "rollbackBlock (blockRow block) (withRows D (snd (submitBlock S block))) = withRows D S"
proof -
  let ?S1 = "snd (submitBlock S block)"
  let ?T = "withRows D ?S1"
  let ?txs = "blk_transactions block"
  let ?R = "blockRefs ?txs"
  let ?newins = "concat (map inputRows ?txs)"
  let ?newrows = "concat (map outputRows ?txs)"
  note sh = accepted_frame [OF wf acc]
  note fr = accepted_fresh [OF acc]
  note ap = accepted_apply [OF acc]
  note wf1 = wellFormed_submitBlock [OF wf acc]
  from wf have l1: "\<forall>t\<in>set (transactions S). t_block_id t \<in> b_id ` set (blocks S)"
    and l2: "\<forall>i\<in>set (inputs S). i_tx_id i \<in> t_id ` set (transactions S)"
    and l3: "\<forall>r\<in>set (outputs S). o_tx_id r \<in> t_id ` set (transactions S)"
    and l5: "distinct (map keyOf (outputs S))"
    by (auto simp: wellFormed_def)
  from wf1 have r1: "\<forall>r\<in>set (outputs ?S1). o_address r \<in> dom (balances ?S1)"
    by (simp add: wellFormed_def)
  have old_id: "t \<notin> tx_id ` set ?txs" if "t \<in> t_id ` set (transactions S)" for t
    using that fr by blast
  have old_t: "\<forall>t\<in>set (transactions S). \<not> t_block_id t = b_id (blockRow block)"
  proof
    fix t assume "t \<in> set (transactions S)"
    with l1 have "t_block_id t \<in> b_id ` set (blocks S)"
      by blast
    with ap show "\<not> t_block_id t = b_id (blockRow block)"
      by (metis blockRow_def blocks_row.select_convs(1))
  qed
  have "filter (\<lambda>t. t_block_id t = b_id (blockRow block)) (transactions ?T) =
      map (transactionRow (blk_id block)) ?txs"
  proof -
    note old_t
    moreover have "\<forall>t\<in>set (map (transactionRow (blk_id block)) ?txs).
        t_block_id t = b_id (blockRow block)"
      by (simp add: transactionRow_def blockRow_def)
    ultimately show ?thesis
      using sh by (simp add: filter_append_new)
  qed
  then have ts: "map t_id (filter (\<lambda>t. t_block_id t = b_id (blockRow block)) (transactions ?T)) =
      map tx_id ?txs"
    by (simp add: transactionRow_def o_def)
  have keep_t: "filter (\<lambda>t. t_block_id t \<noteq> b_id (blockRow block))
      (transactions S @ map (transactionRow (blk_id block)) ?txs) = transactions S"
  proof -
    note old_t
    moreover have "\<forall>t\<in>set (map (transactionRow (blk_id block)) ?txs).
        t_block_id t = b_id (blockRow block)"
      by (simp add: transactionRow_def blockRow_def)
    ultimately show ?thesis
      by (rule filter_append_new(2))
  qed
  have old_in: "\<forall>i\<in>set (inputs S). \<not> i_tx_id i \<in> set (map tx_id ?txs)"
    using l2 old_id by auto
  have new_in: "\<forall>i\<in>set ?newins. i_tx_id i \<in> set (map tx_id ?txs)"
    using inputRows_concat_tx_id [of _ ?txs] by auto
  have ins: "filter (\<lambda>i. i_tx_id i \<in> set (map tx_id ?txs)) (inputs ?T) = ?newins"
    using sh filter_append_new(1) [OF old_in new_in] by simp
  have keep_i: "filter (\<lambda>i. i_tx_id i \<notin> set (map tx_id ?txs)) (inputs S @ ?newins) = inputs S"
    using filter_append_new(2) [OF old_in new_in] .
  have refs: "?R \<subseteq> keyOf ` set (outputs S)"
    using ap by blast
  from sh have oS1: "outputs ?S1 = map (setSpent True ?R) (outputs S) @ ?newrows"
    by blast
  then have oT: "outputs ?T = map (setSpent True ?R) (outputs S) @ ?newrows"
    by simp
  have keysT: "keyOf ` set (outputs S) \<subseteq> keyOf ` set (outputs ?T)"
    by (simp add: oS1 image_Un image_image keyOf_setSpent)
  have k: "\<forall>i\<in>set ?newins. inputRef i \<in> keyOf ` set (outputs ?T)"
    using inputRef_concat [of ?txs] refs keysT by blast
  note un = fold_unspendInput_effect [OF k]
  let ?U = "fold unspendInput ?newins ?T"
  have unmark: "map (setSpent False ?R) (map (setSpent True ?R) (outputs S)) = outputs S"
  proof -
    have "setSpent False ?R (setSpent True ?R r) = r" if r: "r \<in> set (outputs S)" for r
    proof (cases "keyOf r \<in> ?R")
      case True
      from accepted_unspent [OF l5 acc r True] True show ?thesis
        by (simp add: setSpent_def keyOf_def)
    next
      case False
      then show ?thesis
        by (simp add: setSpent_def)
    qed
    then have "map (\<lambda>r. setSpent False ?R (setSpent True ?R r)) (outputs S) = outputs S"
      by (intro map_idI)
    then show ?thesis
      by (simp add: o_def)
  qed
  have new_key: "\<forall>r\<in>set ?newrows. keyOf r \<notin> ?R"
  proof
    fix r assume "r \<in> set ?newrows"
    then have n: "o_tx_id r \<in> tx_id ` set ?txs"
      by (rule outputRows_concat_tx_id)
    show "keyOf r \<notin> ?R"
    proof
      assume "keyOf r \<in> ?R"
      with refs obtain r' where r': "r' \<in> set (outputs S)" and e: "keyOf r' = keyOf r"
        by (metis imageE subsetD)
      from l3 r' have "o_tx_id r' \<in> t_id ` set (transactions S)"
        by blast
      moreover from e have "o_tx_id r' = o_tx_id r"
        by (simp add: keyOf_def)
      ultimately have "o_tx_id r \<in> t_id ` set (transactions S)"
        by simp
      from old_id [OF this] n show False
        by simp
    qed
  qed
  from un have "outputs ?U = map (setSpent False (inputRef ` set ?newins)) (outputs ?T)"
    by blast
  then have o1: "outputs ?U = map (setSpent False ?R) (outputs ?T)"
    by (simp only: inputRef_concat)
  have oU: "outputs ?U = outputs S @ ?newrows"
    by (simp only: o1 oT map_append unmark setSpent_other [OF new_key])
  have old_out: "\<forall>r\<in>set (outputs S). \<not> o_tx_id r \<in> set (map tx_id ?txs)"
    using l3 old_id by auto
  have new_out: "\<forall>r\<in>set ?newrows. o_tx_id r \<in> set (map tx_id ?txs)"
    using outputRows_concat_tx_id [of _ ?txs] by auto
  have outs: "filter (\<lambda>r. o_tx_id r \<in> set (map tx_id ?txs)) (outputs ?U) = ?newrows"
    using filter_append_new(1) [OF old_out new_out] by (simp add: oU)
  have apart: "set ?newrows \<inter> set (outputs S) = {}"
    using old_out new_out by blast
  note rm = fold_removeOutput_effect [OF oU apart]
  let ?V = "fold removeOutput ?newrows ?U"
  have e: "rollbackBlock (blockRow block) ?T =
      ?V\<lparr>inputs := filter (\<lambda>i. i_tx_id i \<notin> set (map tx_id ?txs)) (inputs ?V),
         transactions := filter (\<lambda>t. t_block_id t \<noteq> b_id (blockRow block)) (transactions ?V),
         blocks := remove1 (blockRow block) (blocks ?V)\<rparr>"
    unfolding rollbackBlock_def Let_def ts ins outs ..
  have 1: "blocks (rollbackBlock (blockRow block) ?T) = blocks S"
  proof -
    have "blockRow block \<notin> set (blocks S)"
    proof
      assume "blockRow block \<in> set (blocks S)"
      then have "b_id (blockRow block) \<in> b_id ` set (blocks S)"
        by (rule imageI)
      with ap show False
        by (simp add: blockRow_def)
    qed
    then show ?thesis
      using rm un sh by (simp add: e remove1_append)
  qed
  have 2: "transactions (rollbackBlock (blockRow block) ?T) = transactions S"
    using rm un sh keep_t by (simp add: e)
  have 3: "outputs (rollbackBlock (blockRow block) ?T) = outputs S"
    using rm by (simp add: e)
  have 4: "inputs (rollbackBlock (blockRow block) ?T) = inputs S"
    using rm un sh keep_i by (simp add: e)
  have aT: "o_address ` set (outputs ?S1) \<subseteq> D"
  proof
    fix a assume "a \<in> o_address ` set (outputs ?S1)"
    then obtain r where "r \<in> set (outputs ?S1)" and "a = o_address r"
      by blast
    with r1 have "a \<in> dom (balances ?S1)"
      by blast
    with D show "a \<in> D"
      by blast
  qed
  have "set ?newrows \<subseteq> set (outputs ?S1)"
    by (simp only: oS1 set_append) blast
  with aT have aN: "o_address ` set ?newrows \<subseteq> D"
    by blast
  from un have "dom (balances ?T) \<subseteq> dom (balances ?U)"
    and "dom (balances ?U) \<subseteq> dom (balances ?T) \<union> o_address ` set (outputs ?T)"
    by blast+
  with aT have "dom (balances ?U) = D"
    unfolding withRows_dom withRows_tables by blast
  moreover from rm have "dom (balances ?V) = dom (balances ?U) \<union> o_address ` set ?newrows"
    by blast
  ultimately have "dom (balances ?V) = D"
    using aN by blast
  then have 5: "dom (balances (rollbackBlock (blockRow block) ?T)) = D"
    by (simp add: e)
  have same: "map (\<lambda>i. refAmount (outputs ?T) a (inputRef i)) ?newins =
      map (\<lambda>i. refAmount (outputs S) a (inputRef i)) ?newins" for a
  proof (intro map_cong refl)
    fix i assume "i \<in> set ?newins"
    then have "inputRef i \<in> ?R"
      using inputRef_concat [of ?txs] by blast
    with refs have "inputRef i \<in> keyOf ` set (map (setSpent True ?R) (outputs S))"
      by (auto simp: image_image keyOf_setSpent)
    then have "refAmount (outputs ?T) a (inputRef i) =
        refAmount (map (setSpent True ?R) (outputs S)) a (inputRef i)"
      unfolding oT by (rule refAmount_append)
    then show "refAmount (outputs ?T) a (inputRef i) = refAmount (outputs S) a (inputRef i)"
      by (simp only: refAmount_setSpent)
  qed
  have 6: "\<forall>a. balanceOf (rollbackBlock (blockRow block) ?T) a = balanceOf S a"
  proof
    fix a
    have b1: "balanceOf (rollbackBlock (blockRow block) ?T) a = balanceOf ?V a"
      by (simp add: e balanceOf_def)
    from rm have b2: "balanceOf ?V a = balanceOf ?U a -
        sum_list (map o_value (filter (\<lambda>r. o_address r = a) ?newrows))"
      by blast
    from un have "balanceOf ?U a = balanceOf ?T a +
        sum_list (map (\<lambda>i. refAmount (outputs ?T) a (inputRef i)) ?newins)"
      by blast
    then have b3: "balanceOf ?U a = balanceOf ?T a +
        sum_list (map (\<lambda>i. refAmount (outputs S) a (inputRef i)) ?newins)"
      by (simp only: same)
    have b4: "balanceOf ?T a = balanceOf ?S1 a"
      using D by (rule balanceOf_withRows)
    note b5 = accepted_balance [OF wf acc, of a]
    from b1 b2 b3 b4 b5 show "balanceOf (rollbackBlock (blockRow block) ?T) a = balanceOf S a"
      by linarith
  qed
  from 1 2 3 4 5 6 show ?thesis
    by (rule withRows_eqI)
qed

subsection \<open>Submitting a block to a ledger with more balance rows\<close>

lemma lastHeight_withRows [simp]: "lastHeight (withRows D S) = lastHeight S"
  by (simp add: lastHeight_def)

lemma utxoRows_withRows [simp]: "utxoRows (withRows D S) t i = utxoRows S t i"
  by (simp add: utxoRows_def)

lemma sumInputs_withRows [simp]: "sumInputs (withRows D S) ins acc = sumInputs S ins acc"
  by (induction ins arbitrary: acc) (simp_all split: list.splits)

lemma validateTransactions_withRows [simp]:
  "validateTransactions (withRows D S) h txs = validateTransactions S h txs"
  by (induction txs) (auto split: sum.splits)

lemma withRows_updates:
  "withRows D (S\<lparr>blocks := bs\<rparr>) = (withRows D S)\<lparr>blocks := bs\<rparr>"
  "withRows D (S\<lparr>transactions := ts\<rparr>) = (withRows D S)\<lparr>transactions := ts\<rparr>"
  "withRows D (S\<lparr>outputs := os\<rparr>) = (withRows D S)\<lparr>outputs := os\<rparr>"
  "withRows D (S\<lparr>inputs := is\<rparr>) = (withRows D S)\<lparr>inputs := is\<rparr>"
  by (rule ledger.equality; simp add: withRows_def balanceOf_def fun_eq_iff)+

lemma insertBlock_withRows:
  "insertBlock S i h = Inr S1 \<Longrightarrow> insertBlock (withRows D S) i h = Inr (withRows D S1)"
  by (auto simp: insertBlock_def withRows_updates split: if_splits)

lemma insertTransaction_withRows:
  "insertTransaction S t b = Inr S1 \<Longrightarrow>
     insertTransaction (withRows D S) t b = Inr (withRows D S1)"
  by (auto simp: insertTransaction_def withRows_updates split: if_splits)

lemma insertOutput_withRows:
  "insertOutput S t i out = Inr S1 \<Longrightarrow>
     insertOutput (withRows D S) t i out = Inr (withRows D S1)"
  by (auto simp: insertOutput_def withRows_updates split: if_splits)

lemma insertInput_withRows:
  "insertInput S t input = Inr S1 \<Longrightarrow>
     insertInput (withRows D S) t input = Inr (withRows D S1)"
  by (auto simp: insertInput_def withRows_updates split: if_splits)

lemma markSpent_withRows: "markSpent (withRows D S) t i = withRows D (markSpent S t i)"
  by (simp add: markSpent_def withRows_updates)

lemma withRows_balance_update:
  assumes "a \<in> D"
  shows "(withRows D S)\<lparr>balances := (balances (withRows D S))(a \<mapsto> v)\<rparr> =
    withRows D (S\<lparr>balances := (balances S)(a \<mapsto> v)\<rparr>)"
proof -
  have "((\<lambda>x. if x \<in> D then Some (balanceOf S x) else None)(a \<mapsto> v)) x =
      (if x \<in> D then Some (balanceOf (S\<lparr>balances := (balances S)(a \<mapsto> v)\<rparr>) x) else None)" for x
    using assms by (simp add: balanceOf_def)
  then show ?thesis
    by (simp add: withRows_def fun_eq_iff)
qed

lemma creditBalance_withRows:
  assumes "creditBalance S a v = Inr S1" and "a \<in> D"
  shows "creditBalance (withRows D S) a v = Inr (withRows D S1)"
proof -
  from assms(1) have c: "int4 v" "int4 (balanceOf S a + v)"
    by (auto simp: creditBalance_def balanceOf_def split: if_splits option.splits)
  have b: "balances (withRows D S) a = Some (balanceOf S a)"
    using assms(2) by (simp add: withRows_def)
  have "creditBalance (withRows D S) a v =
      Inr ((withRows D S)\<lparr>balances := (balances (withRows D S))(a \<mapsto> balanceOf S a + v)\<rparr>)"
    using c by (simp add: creditBalance_def b)
  then show ?thesis
    by (simp only: withRows_balance_update [OF assms(2)] creditBalance_Inr [OF assms(1), symmetric])
qed

lemma debitBalance_withRows:
  assumes "debitBalance S a v = Inr S1" and "a \<in> dom (balances S)" and "a \<in> D"
  shows "debitBalance (withRows D S) a v = Inr (withRows D S1)"
proof -
  from assms(1, 2) have c: "int4 v" "int4 (balanceOf S a - v)"
    by (auto simp: debitBalance_def balanceOf_def split: if_splits option.splits)
  have b: "balances (withRows D S) a = Some (balanceOf S a)"
    using assms(3) by (simp add: withRows_def)
  have "debitBalance (withRows D S) a v =
      Inr ((withRows D S)\<lparr>balances := (balances (withRows D S))(a \<mapsto> balanceOf S a - v)\<rparr>)"
    using c by (simp add: debitBalance_def b)
  then show ?thesis
    by (simp only: withRows_balance_update [OF assms(3)]
        debitBalance_Inr [OF assms(1, 2), symmetric])
qed

lemma applyOutputs_withRows:
  "applyOutputs S t i outs = Inr S1 \<Longrightarrow> out_address ` set outs \<subseteq> D \<Longrightarrow>
     applyOutputs (withRows D S) t i outs = Inr (withRows D S1)"
proof (induction outs arbitrary: S i)
  case Nil
  then show ?case by simp
next
  case (Cons out outs)
  from Cons.prems(1) obtain Sa Sb where a: "insertOutput S t i out = Inr Sa"
    and b: "creditBalance Sa (out_address out) (out_value out) = Inr Sb"
    and c: "applyOutputs Sb t (i + 1) outs = Inr S1"
    by (auto split: sum.splits)
  from Cons.prems(2) have d: "out_address out \<in> D" and ds: "out_address ` set outs \<subseteq> D"
    by simp_all
  show ?case
    by (simp add: insertOutput_withRows [OF a] creditBalance_withRows [OF b d]
        Cons.IH [OF c ds])
qed

lemma applyInput_withRows:
  assumes "applyInput S t input = Inr S1"
    and "\<forall>r\<in>set (outputs S). o_address r \<in> dom (balances S)"
    and "dom (balances S) \<subseteq> D"
  shows "applyInput (withRows D S) t input = Inr (withRows D S1)"
proof -
  let ?t = "in_txId input" and ?i = "in_index input"
  from assms(1) obtain Sa where a: "insertInput S t input = Inr Sa"
    and rest: "(case utxoRows (markSpent Sa ?t ?i) ?t ?i of
          [] \<Rightarrow> Inr (markSpent Sa ?t ?i)
        | r # _ \<Rightarrow> debitBalance (markSpent Sa ?t ?i) (o_address r) (o_value r)) = Inr S1"
    by (auto simp: applyInput_def Let_def split: sum.splits)
  let ?S2 = "markSpent Sa ?t ?i"
  have o2: "outputs ?S2 = map (setSpent True {(?t, ?i)}) (outputs S)"
    by (simp add: insertInput_Inr [OF a] markSpent_def setSpent_single)
  have b2: "balances ?S2 = balances S"
    by (simp add: insertInput_Inr [OF a] markSpent_def)
  have step: "applyInput (withRows D S) t input =
      (case utxoRows ?S2 ?t ?i of
          [] \<Rightarrow> Inr (withRows D ?S2)
        | r # _ \<Rightarrow> debitBalance (withRows D ?S2) (o_address r) (o_value r))"
    by (simp add: applyInput_def Let_def insertInput_withRows [OF a] markSpent_withRows)
  show ?thesis
  proof (cases "utxoRows ?S2 ?t ?i")
    case Nil
    with rest step show ?thesis
      by simp
  next
    case (Cons r rs)
    with rest have d: "debitBalance ?S2 (o_address r) (o_value r) = Inr S1"
      by simp
    from Cons have "r \<in> set (outputs ?S2)"
      using filter_hd_mem [of _ "outputs ?S2" r rs] by (simp add: utxoRows_def)
    then obtain r' where "r' \<in> set (outputs S)" and "o_address r = o_address r'"
      by (auto simp: o2 address_setSpent)
    with assms(2) have m: "o_address r \<in> dom (balances ?S2)"
      by (simp add: b2)
    with assms(3) have "o_address r \<in> D"
      by (auto simp: b2)
    from debitBalance_withRows [OF d m this] step Cons show ?thesis
      by simp
  qed
qed

lemma applyInputs_withRows:
  "applyInputs S t ins = Inr S1 \<Longrightarrow> \<forall>r\<in>set (outputs S). o_address r \<in> dom (balances S) \<Longrightarrow>
   dom (balances S) \<subseteq> D \<Longrightarrow> applyInputs (withRows D S) t ins = Inr (withRows D S1)"
proof (induction ins arbitrary: S)
  case Nil
  then show ?case by simp
next
  case (Cons i ins)
  from Cons.prems(1) obtain Sa where a: "applyInput S t i = Inr Sa"
    and c: "applyInputs Sa t ins = Inr S1"
    by (auto split: sum.splits)
  note fa = applyInput_frame [OF a]
  have r: "\<forall>r\<in>set (outputs Sa). o_address r \<in> dom (balances Sa)"
    using Cons.prems(2) fa by (auto simp: address_setSpent)
  have d: "dom (balances Sa) \<subseteq> D"
    using Cons.prems(3) fa by simp
  show ?case
    by (simp add: applyInput_withRows [OF a Cons.prems(2, 3)] Cons.IH [OF c r d])
qed

lemma applyTransactions_dom_mono:
  "applyTransactions S b txs = Inr S1 \<Longrightarrow> dom (balances S) \<subseteq> dom (balances S1)"
proof (induction txs arbitrary: S)
  case Nil
  then show ?case by simp
next
  case (Cons tx txs)
  from Cons.prems obtain Sb Sc where
    o: "applyOutputs (S\<lparr>transactions := transactions S @ [transactionRow b tx]\<rparr>)
           (tx_id tx) 0 (tx_outputs tx) = Inr Sb"
    and i: "applyInputs Sb (tx_id tx) (tx_inputs tx) = Inr Sc"
    and run: "applyTransactions Sc b txs = Inr S1"
    by (rule applyTransactions_Cons)
  from applyTransaction_frame [OF o i] have "dom (balances S) \<subseteq> dom (balances Sc)"
    by blast
  with Cons.IH [OF run] show ?case
    by blast
qed

lemma applyTransactions_withRows:
  "applyTransactions S b txs = Inr S1 \<Longrightarrow>
   \<forall>r\<in>set (outputs S). o_address r \<in> dom (balances S) \<Longrightarrow> dom (balances S1) \<subseteq> D \<Longrightarrow>
     applyTransactions (withRows D S) b txs = Inr (withRows D S1)"
proof (induction txs arbitrary: S)
  case Nil
  then show ?case by simp
next
  case (Cons tx txs)
  let ?S0 = "S\<lparr>transactions := transactions S @ [transactionRow b tx]\<rparr>"
  from Cons.prems(1) obtain Sb Sc where f: "tx_id tx \<notin> t_id ` set (transactions S)"
    and o: "applyOutputs ?S0 (tx_id tx) 0 (tx_outputs tx) = Inr Sb"
    and i: "applyInputs Sb (tx_id tx) (tx_inputs tx) = Inr Sc"
    and run: "applyTransactions Sc b txs = Inr S1"
    by (rule applyTransactions_Cons)
  note mid = applyTransaction_frame [OF o i]
  note fo = applyOutputs_Inr [OF o]
  from applyTransactions_dom_mono [OF run] Cons.prems(3) have dc: "dom (balances Sc) \<subseteq> D"
    by blast
  with mid have ad: "out_address ` set (tx_outputs tx) \<subseteq> D"
    by blast
  from fo have ob: "outputs Sb = outputs S @ outputRows tx"
    and db: "dom (balances Sb) = dom (balances S) \<union> out_address ` set (tx_outputs tx)"
    by (simp_all add: outputRows_def)
  have rb: "\<forall>r\<in>set (outputs Sb). o_address r \<in> dom (balances Sb)"
  proof
    fix r assume "r \<in> set (outputs Sb)"
    then consider "r \<in> set (outputs S)" | "r \<in> set (outputRows tx)"
      by (auto simp: ob)
    then show "o_address r \<in> dom (balances Sb)"
    proof cases
      case 1
      with Cons.prems(2) have "o_address r \<in> dom (balances S)"
        by blast
      then show ?thesis
        by (simp add: db)
    next
      case 2
      then have "o_address r \<in> out_address ` set (tx_outputs tx)"
        using outputRows_address [of tx] by blast
      then show ?thesis
        by (simp add: db)
    qed
  qed
  from mid dc have dbD: "dom (balances Sb) \<subseteq> D"
    by (simp add: db)
  from applyInputs_frame [OF i] have oc: "outputs Sc =
      map (setSpent True (refOf ` set (tx_inputs tx))) (outputs Sb)"
    and dcb: "dom (balances Sc) = dom (balances Sb)"
    by blast+
  have rc: "\<forall>r\<in>set (outputs Sc). o_address r \<in> dom (balances Sc)"
  proof
    fix r assume "r \<in> set (outputs Sc)"
    then obtain r' where "r' \<in> set (outputs Sb)" and "o_address r = o_address r'"
      by (auto simp: oc address_setSpent)
    with rb show "o_address r \<in> dom (balances Sc)"
      by (simp add: dcb)
  qed
  have t: "insertTransaction (withRows D S) (tx_id tx) b = Inr (withRows D ?S0)"
    using f by (simp add: insertTransaction_def withRows_updates transactionRow_def)
  show ?case
    by (simp add: t applyOutputs_withRows [OF o ad] applyInputs_withRows [OF i rb dbD]
        Cons.IH [OF run rc Cons.prems(3)])
qed

lemma submitBlock_withRows:
  assumes "wellFormed S" and "fst (submitBlock S block) = Success"
    and "dom (balances (snd (submitBlock S block))) \<subseteq> D"
  shows "submitBlock (withRows D S) block = (Success, withRows D (snd (submitBlock S block)))"
proof -
  let ?S0 = "S\<lparr>blocks := blocks S @ [blockRow block]\<rparr>"
  note s = submitBlock_Success [OF assms(2)]
  note a = accepted_apply [OF assms(2)]
  from s have "applyBlock S block = Inr (snd (submitBlock S block))"
    by blast
  then obtain Sa where ib: "insertBlock S (blk_id block) (blk_height block) = Inr Sa"
    by (auto simp: applyBlock_def split: sum.splits)
  from insertBlock_Inr [OF ib] have "Sa = ?S0"
    by (simp add: blockRow_def)
  with insertBlock_withRows [OF ib]
  have ib': "insertBlock (withRows D S) (blk_id block) (blk_height block) = Inr (withRows D ?S0)"
    by simp
  from a have run: "applyTransactions ?S0 (blk_id block) (blk_transactions block) =
      Inr (snd (submitBlock S block))"
    by blast
  from assms(1) have r: "\<forall>r\<in>set (outputs ?S0). o_address r \<in> dom (balances ?S0)"
    by (simp add: wellFormed_def)
  from applyTransactions_withRows [OF run r assms(3)] ib'
  have ab: "applyBlock (withRows D S) block = Inr (withRows D (snd (submitBlock S block)))"
    by (simp add: applyBlock_def)
  from s have h: "blk_height block = lastHeight S + 1"
    and d: "blk_id block = expectedBlockId block"
    and v: "validateTransactions S (blk_height block) (blk_transactions block) = None"
    by blast+
  from h have h': "blk_height block = lastHeight (withRows D S) + 1"
    by (simp only: lastHeight_withRows)
  from v have v': "validateTransactions (withRows D S) (blk_height block)
      (blk_transactions block) = None"
    by (simp only: validateTransactions_withRows)
  from h' d v' have "submitBlock (withRows D S) block = applyPhase (withRows D S) block"
    by (rule submitBlock_validated)
  then show ?thesis
    by (simp only: applyPhase_def ab sum.case)
qed

subsection \<open>Sequences of accepted blocks\<close>

lemma submitAll_Cons:
  "submitAll S (b # bs) = Some S' \<longleftrightarrow>
     fst (submitBlock S b) = Success \<and> submitAll (snd (submitBlock S b)) bs = Some S'"
  by (cases "submitBlock S b") (auto split: reply.splits)

lemma submitAll_append:
  "submitAll S (xs @ ys) = Some S' \<longleftrightarrow>
     (\<exists>S1. submitAll S xs = Some S1 \<and> submitAll S1 ys = Some S')"
proof (induction xs arbitrary: S)
  case Nil
  then show ?case by simp
next
  case (Cons x xs)
  have "submitAll S ((x # xs) @ ys) = Some S' \<longleftrightarrow>
      fst (submitBlock S x) = Success \<and> submitAll (snd (submitBlock S x)) (xs @ ys) = Some S'"
    by (simp only: append_Cons submitAll_Cons)
  also have "\<dots> \<longleftrightarrow> fst (submitBlock S x) = Success \<and>
      (\<exists>S1. submitAll (snd (submitBlock S x)) xs = Some S1 \<and> submitAll S1 ys = Some S')"
    by (simp only: Cons.IH)
  also have "\<dots> \<longleftrightarrow> (\<exists>S1. submitAll S (x # xs) = Some S1 \<and> submitAll S1 ys = Some S')"
    by (simp only: submitAll_Cons) blast
  finally show ?case .
qed

lemma submitAll_wellFormed:
  "wellFormed S \<Longrightarrow> submitAll S bs = Some S' \<Longrightarrow>
     wellFormed S' \<and> dom (balances S) \<subseteq> dom (balances S') \<and>
     blocks S' = blocks S @ map blockRow bs"
proof (induction bs arbitrary: S)
  case Nil
  then show ?case by simp
next
  case (Cons b bs)
  let ?S1 = "snd (submitBlock S b)"
  from Cons.prems(2) have acc: "fst (submitBlock S b) = Success"
    and rest: "submitAll ?S1 bs = Some S'"
    by (simp_all only: submitAll_Cons)
  note wf1 = wellFormed_submitBlock [OF Cons.prems(1) acc]
  note sh = accepted_frame [OF Cons.prems(1) acc]
  note ih = Cons.IH [OF wf1 rest]
  from sh have "dom (balances S) \<subseteq> dom (balances ?S1)"
    by blast
  with ih have 1: "dom (balances S) \<subseteq> dom (balances S')"
    by blast
  from ih sh have 2: "blocks S' = blocks S @ map blockRow (b # bs)"
    by simp
  from ih 1 2 show ?case
    by blast
qed

lemma rollback_all:
  "wellFormed S \<Longrightarrow> submitAll S bs = Some S' \<Longrightarrow> dom (balances S') \<subseteq> D \<Longrightarrow>
     fold rollbackBlock (rev (map blockRow bs)) (withRows D S') = withRows D S"
proof (induction bs arbitrary: S)
  case Nil
  then show ?case by simp
next
  case (Cons b bs)
  let ?S1 = "snd (submitBlock S b)"
  from Cons.prems(2) have acc: "fst (submitBlock S b) = Success"
    and rest: "submitAll ?S1 bs = Some S'"
    by (simp_all only: submitAll_Cons)
  note wf1 = wellFormed_submitBlock [OF Cons.prems(1) acc]
  from submitAll_wellFormed [OF wf1 rest] Cons.prems(3) have d1: "dom (balances ?S1) \<subseteq> D"
    by blast
  have "fold rollbackBlock (rev (map blockRow (b # bs))) (withRows D S') =
      rollbackBlock (blockRow b) (fold rollbackBlock (rev (map blockRow bs)) (withRows D S'))"
    by simp
  also have "\<dots> = rollbackBlock (blockRow b) (withRows D ?S1)"
    by (simp only: Cons.IH [OF wf1 rest Cons.prems(3)])
  also have "\<dots> = withRows D S"
    using Cons.prems(1) acc d1 by (rule rollbackBlock_inverse)
  finally show ?case .
qed

lemma resubmit_all:
  "wellFormed S \<Longrightarrow> submitAll S bs = Some S' \<Longrightarrow> dom (balances S') \<subseteq> D \<Longrightarrow>
     submitAll (withRows D S) bs = Some (withRows D S')"
proof (induction bs arbitrary: S)
  case Nil
  then show ?case by simp
next
  case (Cons b bs)
  let ?S1 = "snd (submitBlock S b)"
  from Cons.prems(2) have acc: "fst (submitBlock S b) = Success"
    and rest: "submitAll ?S1 bs = Some S'"
    by (simp_all only: submitAll_Cons)
  note wf1 = wellFormed_submitBlock [OF Cons.prems(1) acc]
  from submitAll_wellFormed [OF wf1 rest] Cons.prems(3) have d1: "dom (balances ?S1) \<subseteq> D"
    by blast
  from submitBlock_withRows [OF Cons.prems(1) acc d1] Cons.IH [OF wf1 rest Cons.prems(3)]
  show ?case
    by simp
qed

lemma sorted_partition:
  fixes f :: "'a \<Rightarrow> int"
  shows "sorted_wrt (<) (map f xs) \<Longrightarrow>
    xs = filter (\<lambda>x. f x \<le> h) xs @ filter (\<lambda>x. h < f x) xs"
proof (induction xs)
  case Nil
  then show ?case by simp
next
  case (Cons x xs)
  from Cons.prems have lt: "\<forall>y\<in>set xs. f x < f y" and s: "sorted_wrt (<) (map f xs)"
    by simp_all
  show ?case
  proof (cases "f x \<le> h")
    case True
    with Cons.IH [OF s] show ?thesis
      by simp
  next
    case False
    with lt have "\<forall>y\<in>set xs. h < f y"
      by fastforce
    then have "filter (\<lambda>x. f x \<le> h) xs = []" and "filter (\<lambda>x. h < f x) xs = xs"
      by (simp_all add: filter_empty_conv filter_id_conv not_le [symmetric])
    with False show ?thesis
      by simp
  qed
qed

subsection \<open>Rollback and re-submission\<close>

lemma rollbackTo_blocks:
  assumes "submitAll empty_ledger bs = Some S" and "0 \<le> h" and "h \<le> lastHeight S"
  shows "rollbackTo S h =
    Inr (fold rollbackBlock (rev (map blockRow (filter (\<lambda>b. h < blk_height b) bs))) S)"
proof -
  from submitAll_wellFormed [OF wellFormed_empty assms(1)]
  have wf: "wellFormed S" and bl: "blocks S = map blockRow bs"
    by (simp_all add: empty_ledger_def)
  have f: "filter (\<lambda>b. h < b_height b) (blocks S) =
      map blockRow (filter (\<lambda>b. h < blk_height b) bs)"
    by (simp add: bl filter_map o_def blockRow_def)
  from wf have "sorted_wrt (<) (map b_height (blocks S))"
    by (simp add: wellFormed_def)
  then have "sorted (map b_height (blocks S))"
    by (rule strict_sorted_imp_sorted)
  then have "sorted (map b_height (filter (\<lambda>b. h < b_height b) (blocks S)))"
    by (rule sorted_filter)
  then have "sort_key b_height (filter (\<lambda>b. h < b_height b) (blocks S)) =
      filter (\<lambda>b. h < b_height b) (blocks S)"
    by (rule sort_key_id_if_sorted)
  with assms(2, 3) show ?thesis
    by (simp add: rollbackTo_def f)
qed

text \<open>
  Claim C8, for the rollback modelled from the specification. Let \<open>S\<close> be the ledger after
  a sequence of accepted blocks, and \<open>h\<close> a height from \<open>0\<close> to the current height. The
  rollback to \<open>h\<close> succeeds; it leaves the blocks of height \<open>h\<close> or less; and submitting again
  the blocks above \<open>h\<close>, in the order in which they were submitted, is accepted block by
  block and gives back \<open>S\<close>: the same rows in the same order, the same spent flags and the
  same balances.
\<close>

theorem rollback_resubmit_inverse:
  assumes "submitAll empty_ledger bs = Some S" and "0 \<le> h" and "h \<le> lastHeight S"
  shows "\<exists>R. rollbackTo S h = Inr R \<and>
    blocks R = filter (\<lambda>b. b_height b \<le> h) (blocks S) \<and>
    submitAll R (filter (\<lambda>b. h < blk_height b) bs) = Some S"
proof -
  let ?pre = "filter (\<lambda>b. blk_height b \<le> h) bs"
  let ?post = "filter (\<lambda>b. h < blk_height b) bs"
  let ?D = "dom (balances S)"
  from submitAll_wellFormed [OF wellFormed_empty assms(1)]
  have wf: "wellFormed S" and bl: "blocks S = map blockRow bs"
    by (simp_all add: empty_ledger_def)
  from wf have "sorted_wrt (<) (map b_height (blocks S))"
    by (simp add: wellFormed_def)
  then have "sorted_wrt (<) (map blk_height bs)"
    by (simp add: bl o_def blockRow_def)
  then have part: "bs = ?pre @ ?post"
    by (rule sorted_partition)
  from assms(1) have "submitAll empty_ledger (?pre @ ?post) = Some S"
    by (simp only: part [symmetric])
  then obtain Sh where pre: "submitAll empty_ledger ?pre = Some Sh"
    and post: "submitAll Sh ?post = Some S"
    by (auto simp only: submitAll_append)
  from submitAll_wellFormed [OF wellFormed_empty pre]
  have wfh: "wellFormed Sh" and blh: "blocks Sh = map blockRow ?pre"
    by (simp_all add: empty_ledger_def)
  have sub: "dom (balances S) \<subseteq> ?D"
    by simp
  have "rollbackTo S h = Inr (fold rollbackBlock (rev (map blockRow ?post)) (withRows ?D S))"
    by (simp only: rollbackTo_blocks [OF assms] withRows_self)
  also have "fold rollbackBlock (rev (map blockRow ?post)) (withRows ?D S) = withRows ?D Sh"
    using wfh post sub by (rule rollback_all)
  finally have 1: "rollbackTo S h = Inr (withRows ?D Sh)" .
  have "blocks (withRows ?D Sh) = map blockRow ?pre"
    by (simp add: blh)
  also have "\<dots> = filter (\<lambda>b. b_height b \<le> h) (blocks S)"
    by (simp add: bl filter_map o_def blockRow_def)
  finally have 2: "blocks (withRows ?D Sh) = filter (\<lambda>b. b_height b \<le> h) (blocks S)" .
  from resubmit_all [OF wfh post sub]
  have 3: "submitAll (withRows ?D Sh) ?post = Some S"
    by (simp only: withRows_self)
  from 1 2 3 show ?thesis
    by blast
qed

theorem rollback_resubmit_inverse_witness:
  "submitAll empty_ledger [genesis, spend] = Some afterSpend \<and>
   (0 :: int) \<le> 1 \<and> 1 \<le> lastHeight afterSpend \<and>
   filter (\<lambda>b. 1 < blk_height b) [genesis, spend] = [spend] \<and>
   rollbackTo afterSpend 1 = Inr rolledBack \<and>
   blocks rolledBack = [\<lparr>b_id = sha256 ''1tx1'', b_height = 1\<rparr>] \<and>
   submitAll rolledBack [spend] = Some afterSpend"
proof -
  have h: "(0 :: int) \<le> 1" "1 \<le> lastHeight afterSpend"
    by (simp_all add: lastHeight_afterSpend)
  have f: "filter (\<lambda>b. 1 < blk_height b) [genesis, spend] = [spend]"
    by (simp add: genesis_def spend_def)
  have r: "rollbackTo afterSpend 1 = Inr rolledBack"
    by (simp add: rollbackTo_def rollbackBlock_def unspendInput_def removeOutput_def
        adjustBalance_def balanceOf_def utxoRows_def lastHeight_def Let_def
        afterSpend_def rolledBack_def digests)
  from rollback_resubmit_inverse [OF reach_afterSpend h]
  obtain R where "rollbackTo afterSpend 1 = Inr R"
    and "submitAll R (filter (\<lambda>b. 1 < blk_height b) [genesis, spend]) = Some afterSpend"
    by blast
  with r f have s: "submitAll rolledBack [spend] = Some afterSpend"
    by simp
  have b: "blocks rolledBack = [\<lparr>b_id = sha256 ''1tx1'', b_height = 1\<rparr>]"
    by (simp add: rolledBack_def)
  from reach_afterSpend h f r b s show ?thesis
    by blast
qed

end
